theory Spec2Isabelle
  imports Main "HOL-Library.Multiset"
begin

section \<open>Python values used by \<open>scripts/fetch_burnt_areas.py\<close>\<close>

subsection \<open>Strings\<close>

text \<open>
  A Python \<open>str\<close> is a sequence of code points; the model is \<^typ>\<open>string\<close>, read as the
  code points below 256. \<open>isspace\<close> is \<open>str.isspace\<close> on one character (the characters
  \<open>str.strip()\<close> removes and \<open>str.split()\<close> splits at): tab, line feed, vertical tab, form
  feed, carriage return, the four separators 0x1C..0x1F, space, 0x85 and 0xA0.
\<close>

definition isspace :: "char \<Rightarrow> bool" where
  "isspace c = (of_char c \<in> {9, 10, 11, 12, 13, 28, 29, 30, 31, 32, 133, 160 :: nat})"

definition strip :: "string \<Rightarrow> string" where
  "strip s = rev (dropWhile isspace (rev (dropWhile isspace s)))"

text \<open>
  \<open>s.split()\<close> with no argument: the maximal runs of non-whitespace characters, in order.
  \<open>split_from cur s\<close> scans \<open>s\<close> with the current token \<open>cur\<close> held reversed.
\<close>

fun split_from :: "string \<Rightarrow> string \<Rightarrow> string list" where
  "split_from cur [] = (if cur = [] then [] else [rev cur])"
| "split_from cur (c # cs) =
     (if isspace c
      then (if cur = [] then split_from [] cs else rev cur # split_from [] cs)
      else split_from (c # cur) cs)"

definition split :: "string \<Rightarrow> string list" where
  "split s = split_from [] s"

definition isdigit :: "char \<Rightarrow> bool" where
  "isdigit c = (c \<in> set ''0123456789'')"

definition digit_val :: "char \<Rightarrow> int" where
  "digit_val c = int (of_char c) - 48"

definition int_of_digits :: "string \<Rightarrow> int" where
  "int_of_digits ds = foldl (\<lambda>a c. 10 * a + digit_val c) 0 ds"

text \<open>\<open>s[:n]\<close> is \<^term>\<open>take n s\<close>; \<open>x or d\<close> on strings takes \<open>d\<close> when \<open>x\<close> is empty.\<close>

definition or_str :: "string \<Rightarrow> string \<Rightarrow> string" where
  "or_str x d = (if x = [] then d else x)"

subsection \<open>Exceptions\<close>

datatype py_exn = ValueError | IndexError | ZeroDivisionError | RequestException | ParseError | OSError

subsection \<open>Floats\<close>

text \<open>
  A Python \<open>float\<close> is an IEEE 754 binary64 number. \<open>Fin neg m e\<close> is the finite number
  \<open>(-1)\<^sup>n\<^sup>e\<^sup>g \<sqdot> m \<sqdot> 2\<^sup>e\<close> in the format's own normal form: \<open>2\<^sup>5\<^sup>2 \<le> m < 2\<^sup>5\<^sup>3\<close> and
  \<open>-1074 \<le> e \<le> 971\<close> for a normal number, \<open>m < 2\<^sup>5\<^sup>2\<close> and \<open>e = -1074\<close> for a subnormal one
  and for the two zeros (\<open>m = 0\<close>). \<open>Inf neg\<close> are the infinities, \<open>NaN\<close> stands for every
  not-a-number. Every float below is built by \<open>round_ratio\<close>, which produces this form.
\<close>

datatype pyfloat = Fin bool int int | Inf bool | NaN

function bit_length :: "int \<Rightarrow> int" where
  "bit_length n = (if n \<le> 0 then 0 else 1 + bit_length (n div 2))"
  by pat_completeness auto
termination
  by (relation "measure nat") auto

declare bit_length.simps [simp del]

text \<open>
  \<open>round_ratio neg n d\<close> rounds the rational \<open>n / d\<close> (\<open>0 \<le> n\<close>, \<open>0 < d\<close>) to the nearest
  binary64 magnitude, ties to the even mantissa, and attaches the sign.
  \<open>floor_log2 n d\<close> is \<open>\<lfloor>log\<^sub>2 (n / d)\<rfloor>\<close> for \<open>0 < n\<close>, found from the bit lengths;
  \<open>e\<close> in \<open>round_at\<close> is the exponent of the result's last mantissa bit (not below that of
  the subnormals); \<open>round_half_even num den\<close> is the integer nearest to \<open>num / den\<close>, the even
  one of two equally near. A mantissa rounded up to \<open>2\<^sup>5\<^sup>3\<close> is renormalised; a magnitude
  beyond the largest finite float becomes an infinity, one that rounds to nothing a signed
  zero.
\<close>

definition floor_log2_from :: "int \<Rightarrow> int \<Rightarrow> int \<Rightarrow> int" where
  "floor_log2_from n d k =
     (if 0 \<le> k then (if d * 2 ^ nat k \<le> n then k else k - 1)
      else (if d \<le> n * 2 ^ nat (- k) then k else k - 1))"

definition floor_log2 :: "int \<Rightarrow> int \<Rightarrow> int" where
  "floor_log2 n d = floor_log2_from n d (bit_length n - bit_length d)"

definition nearest_even :: "int \<Rightarrow> int \<Rightarrow> int \<Rightarrow> int" where
  "nearest_even den q r = (if den < 2 * r \<or> (2 * r = den \<and> odd q) then q + 1 else q)"

definition round_half_even :: "int \<Rightarrow> int \<Rightarrow> int" where
  "round_half_even num den = nearest_even den (num div den) (num mod den)"

definition pack_float :: "bool \<Rightarrow> int \<Rightarrow> int \<Rightarrow> pyfloat" where
  "pack_float neg m e =
     (if m = 2 ^ 53
      then (if 971 < e + 1 then Inf neg else Fin neg (2 ^ 52) (e + 1))
      else (if 971 < e then Inf neg else Fin neg m e))"

definition round_at :: "bool \<Rightarrow> int \<Rightarrow> int \<Rightarrow> int \<Rightarrow> pyfloat" where
  "round_at neg n d e =
     (if e < 0 then pack_float neg (round_half_even (n * 2 ^ nat (- e)) d) e
      else pack_float neg (round_half_even n (d * 2 ^ nat e)) e)"

definition round_ratio :: "bool \<Rightarrow> int \<Rightarrow> int \<Rightarrow> pyfloat" where
  "round_ratio neg n d =
     (if n = 0 then Fin neg 0 (- 1074)
      else round_at neg n d (max (floor_log2 n d - 52) (- 1074)))"

text \<open>
  \<open>round_scaled neg v e\<close> rounds \<open>v \<sqdot> 2\<^sup>e\<close> for an integer \<open>v \<ge> 0\<close>; \<open>round_signed v e\<close> does
  so for any integer \<open>v\<close>, an exact zero being \<open>+0.0\<close>.
\<close>

definition round_scaled :: "bool \<Rightarrow> int \<Rightarrow> int \<Rightarrow> pyfloat" where
  "round_scaled neg v e =
     (if 0 \<le> e then round_ratio neg (v * 2 ^ nat e) 1 else round_ratio neg v (2 ^ nat (- e)))"

definition round_signed :: "int \<Rightarrow> int \<Rightarrow> pyfloat" where
  "round_signed v e = (if v = 0 then Fin False 0 (- 1074) else round_scaled (v < 0) \<bar>v\<bar> e)"

definition zero_float :: pyfloat where
  "zero_float = Fin False 0 (- 1074)"

definition signed :: "bool \<Rightarrow> int \<Rightarrow> int" where
  "signed neg m = (if neg then - m else m)"

text \<open>
  Addition \<open>x + y\<close>. Two zeros give \<open>-0.0\<close> when both are \<open>-0.0\<close> and \<open>+0.0\<close> otherwise; a
  zero added to another number gives that number; otherwise the exact sum, written with
  the smaller of the two exponents, is rounded.
\<close>

fun fadd :: "pyfloat \<Rightarrow> pyfloat \<Rightarrow> pyfloat" where
  "fadd NaN y = NaN"
| "fadd (Inf a) NaN = NaN"
| "fadd (Inf a) (Inf b) = (if a = b then Inf a else NaN)"
| "fadd (Inf a) (Fin s m e) = Inf a"
| "fadd (Fin s m e) NaN = NaN"
| "fadd (Fin s m e) (Inf b) = Inf b"
| "fadd (Fin s1 m1 e1) (Fin s2 m2 e2) =
     (if m1 = 0 \<and> m2 = 0 then Fin (s1 \<and> s2) 0 (- 1074)
      else if m1 = 0 then Fin s2 m2 e2
      else if m2 = 0 then Fin s1 m1 e1
      else round_signed
             (signed s1 m1 * 2 ^ nat (e1 - min e1 e2) + signed s2 m2 * 2 ^ nat (e2 - min e1 e2))
             (min e1 e2))"

fun fneg :: "pyfloat \<Rightarrow> pyfloat" where
  "fneg (Fin s m e) = Fin (\<not> s) m e"
| "fneg (Inf s) = Inf (\<not> s)"
| "fneg NaN = NaN"

definition fsub :: "pyfloat \<Rightarrow> pyfloat \<Rightarrow> pyfloat" where
  "fsub x y = fadd x (fneg y)"

text \<open>
  True division \<open>x / y\<close> of floats: \<open>ZeroDivisionError\<close> when the divisor is a zero (Python
  checks this first), the IEEE quotient otherwise.
\<close>

fun fdiv :: "pyfloat \<Rightarrow> pyfloat \<Rightarrow> py_exn + pyfloat" where
  "fdiv NaN (Fin s2 m2 e2) = (if m2 = 0 then Inl ZeroDivisionError else Inr NaN)"
| "fdiv (Inf a) (Fin s2 m2 e2) =
     (if m2 = 0 then Inl ZeroDivisionError else Inr (Inf (a \<noteq> s2)))"
| "fdiv (Fin s1 m1 e1) (Fin s2 m2 e2) =
     (if m2 = 0 then Inl ZeroDivisionError
      else Inr (round_ratio (s1 \<noteq> s2) (m1 * 2 ^ nat (e1 - e2)) (m2 * 2 ^ nat (e2 - e1))))"
| "fdiv x NaN = Inr NaN"
| "fdiv NaN (Inf b) = Inr NaN"
| "fdiv (Inf a) (Inf b) = Inr NaN"
| "fdiv (Fin s1 m1 e1) (Inf b) = Inr (Fin (s1 \<noteq> b) 0 (- 1074))"

text \<open>
  The conversion of a list length to a float, as \<open>float / int\<close> performs it. A Python list
  has fewer than \<open>2\<^sup>6\<^sup>3\<close> elements, far below the range where the conversion overflows.
\<close>

definition float_of_nat :: "nat \<Rightarrow> pyfloat" where
  "float_of_nat n = round_ratio False (int n) 1"

text \<open>
  \<open>float(s)\<close> on a string. Underscores may stand between two digits only and are dropped;
  whitespace at both ends is skipped (here the separators 0x1C..0x1F do not count);
  an optional sign is followed by \<open>inf\<close>, \<open>infinity\<close> or \<open>nan\<close> in any letter case, or by a
  decimal numeral \<open>digits [. digits] [e [sign] digits]\<close> with a digit before or after the
  point. The numeral's value is rounded once, to the nearest float. Anything else raises
  \<open>ValueError\<close>.
\<close>

definition float_space :: "char \<Rightarrow> bool" where
  "float_space c = (of_char c \<in> {9, 10, 11, 12, 13, 32, 133, 160 :: nat})"

definition float_strip :: "string \<Rightarrow> string" where
  "float_strip s = rev (dropWhile float_space (rev (dropWhile float_space s)))"

fun underscores_ok :: "char \<Rightarrow> string \<Rightarrow> bool" where
  "underscores_ok prev [] = (prev \<noteq> CHR ''_'')"
| "underscores_ok prev (c # cs) =
     ((if c = CHR ''_'' then isdigit prev
       else if prev = CHR ''_'' then isdigit c else True)
      \<and> underscores_ok c cs)"

definition ascii_lower :: "char \<Rightarrow> char" where
  "ascii_lower c =
     (if 65 \<le> (of_char c :: nat) \<and> (of_char c :: nat) \<le> 90
      then char_of (of_char c + 32 :: nat) else c)"

text \<open>
  \<open>parse_decimal s\<close> reads an unsigned numeral and returns \<open>(d, x)\<close> with value
  \<open>d \<sqdot> 10\<^sup>x\<close>, or \<open>None\<close> when \<open>s\<close> is not one.
\<close>

definition parse_exponent :: "string \<Rightarrow> int option" where
  "parse_exponent t =
     (let eneg = (t \<noteq> [] \<and> hd t = CHR ''-'');
          ds = (if t \<noteq> [] \<and> (hd t = CHR ''-'' \<or> hd t = CHR ''+'') then tl t else t)
      in if ds \<noteq> [] \<and> list_all isdigit ds
         then Some (if eneg then - int_of_digits ds else int_of_digits ds)
         else None)"

definition parse_decimal :: "string \<Rightarrow> (int \<times> int) option" where
  "parse_decimal s =
     (let ds1 = takeWhile isdigit s;
          r1 = dropWhile isdigit s;
          point = (r1 \<noteq> [] \<and> hd r1 = CHR ''.'');
          ds2 = (if point then takeWhile isdigit (tl r1) else []);
          r2 = (if point then dropWhile isdigit (tl r1) else r1);
          d = int_of_digits (ds1 @ ds2);
          x = - int (length ds2)
      in if ds1 @ ds2 = [] then None
         else if r2 = [] then Some (d, x)
         else if hd r2 = CHR ''e'' \<or> hd r2 = CHR ''E''
         then (case parse_exponent (tl r2) of
                 None \<Rightarrow> None
               | Some ex \<Rightarrow> Some (d, ex + x))
         else None)"

text \<open>\<open>float_of_decimal neg (d, x)\<close> is the float nearest to \<open>d \<sqdot> 10\<^sup>x\<close>, with the sign.\<close>

fun float_of_decimal :: "bool \<Rightarrow> int \<times> int \<Rightarrow> pyfloat" where
  "float_of_decimal neg (d, x) =
     (if 0 \<le> x then round_ratio neg (d * 10 ^ nat x) 1 else round_ratio neg d (10 ^ nat (- x)))"

definition py_float :: "string \<Rightarrow> py_exn + pyfloat" where
  "py_float s =
     (if \<not> underscores_ok (CHR 0x00) s then Inl ValueError
      else
        let t = float_strip (filter (\<lambda>c. c \<noteq> CHR ''_'') s);
            neg = (t \<noteq> [] \<and> hd t = CHR ''-'');
            u = (if t \<noteq> [] \<and> (hd t = CHR ''-'' \<or> hd t = CHR ''+'') then tl t else t);
            w = map ascii_lower u
        in if w = ''inf'' \<or> w = ''infinity'' then Inr (Inf neg)
           else if w = ''nan'' then Inr NaN
           else (case parse_decimal u of
                   None \<Rightarrow> Inl ValueError
                 | Some dx \<Rightarrow> Inr (float_of_decimal neg dx)))"

text \<open>
  The builtin \<open>sum\<close> on a list of floats starts from the integer \<open>0\<close> and adds the first
  element to it. Up to CPython 3.11 it goes on adding in list order (\<open>sum_sequential\<close>);
  from CPython 3.12 it carries a compensation term for the rounding errors of the later
  additions and adds it at the end unless it is zero or not finite (\<open>sum_compensated\<close>).
  The script does not fix the interpreter, so the functions below take \<open>sum\<close> from their
  environment.
\<close>

definition sum_sequential :: "pyfloat list \<Rightarrow> pyfloat" where
  "sum_sequential xs = foldl fadd zero_float xs"

fun abs_ge :: "pyfloat \<Rightarrow> pyfloat \<Rightarrow> bool" where
  "abs_ge NaN y = False"
| "abs_ge (Inf a) NaN = False"
| "abs_ge (Inf a) (Inf b) = True"
| "abs_ge (Inf a) (Fin s m e) = True"
| "abs_ge (Fin s m e) NaN = False"
| "abs_ge (Fin s m e) (Inf b) = False"
| "abs_ge (Fin s1 m1 e1) (Fin s2 m2 e2) =
     (m2 * 2 ^ nat (e2 - min e1 e2) \<le> m1 * 2 ^ nat (e1 - min e1 e2))"

fun compensated_step :: "pyfloat \<times> pyfloat \<Rightarrow> pyfloat \<Rightarrow> pyfloat \<times> pyfloat" where
  "compensated_step (f, c) x =
     (fadd f x,
      if abs_ge f x then fadd c (fadd (fsub f (fadd f x)) x)
      else fadd c (fadd (fsub x (fadd f x)) f))"

fun add_compensation :: "pyfloat \<times> pyfloat \<Rightarrow> pyfloat" where
  "add_compensation (f, Fin s m e) = (if m \<noteq> 0 then fadd f (Fin s m e) else f)"
| "add_compensation (f, Inf a) = f"
| "add_compensation (f, NaN) = f"

fun sum_compensated :: "pyfloat list \<Rightarrow> pyfloat" where
  "sum_compensated [] = zero_float"
| "sum_compensated (x # rest) =
     add_compensation (foldl compensated_step (fadd zero_float x, zero_float) rest)"

subsection \<open>Lists, ranges and decimal numerals\<close>

text \<open>\<open>xs[i]\<close>: a negative index counts from the end, an index out of range raises.\<close>

definition py_index :: "'a list \<Rightarrow> int \<Rightarrow> py_exn + 'a" where
  "py_index xs i =
     (if 0 \<le> i \<and> i < int (length xs) then Inr (xs ! nat i)
      else if i < 0 \<and> - int (length xs) \<le> i then Inr (xs ! nat (int (length xs) + i))
      else Inl IndexError)"

text \<open>\<open>range(start, stop, step)\<close> for a positive step.\<close>

definition py_range :: "int \<Rightarrow> int \<Rightarrow> int \<Rightarrow> int list" where
  "py_range start stop step =
     map (\<lambda>k. start + int k * step) [0 ..< nat ((stop - start + step - 1) div step)]"

definition digit_char :: "nat \<Rightarrow> char" where
  "digit_char d = ''0123456789'' ! d"

fun str_nat :: "nat \<Rightarrow> string" where
  "str_nat n = (if n < 10 then [digit_char n] else str_nat (n div 10) @ [digit_char (n mod 10)])"

declare str_nat.simps [simp del]

text \<open>\<open>str(i)\<close> of an integer, as an f-string inserts it.\<close>

definition str_int :: "int \<Rightarrow> string" where
  "str_int i = (if i < 0 then CHR ''-'' # str_nat (nat (- i)) else str_nat (nat i))"

definition zfill :: "nat \<Rightarrow> string \<Rightarrow> string" where
  "zfill w s = replicate (w - length s) (CHR ''0'') @ s"

text \<open>The exception monad's bind: the first exception raised ends the computation.\<close>

definition bind_exn :: "py_exn + 'a \<Rightarrow> ('a \<Rightarrow> py_exn + 'b) \<Rightarrow> py_exn + 'b" where
  "bind_exn m f = (case m of Inl e \<Rightarrow> Inl e | Inr v \<Rightarrow> f v)"

text \<open>A list comprehension \<open>[f(x) for x in xs]\<close> whose \<open>f\<close> may raise.\<close>

fun map_exn :: "('a \<Rightarrow> py_exn + 'b) \<Rightarrow> 'a list \<Rightarrow> py_exn + 'b list" where
  "map_exn f [] = Inr []"
| "map_exn f (x # xs) =
     bind_exn (f x) (\<lambda>y. bind_exn (map_exn f xs) (\<lambda>ys. Inr (y # ys)))"

subsection \<open>Dates\<close>

text \<open>
  \<open>datetime.strptime(s, '%Y-%m-%d')\<close>: four digits, a hyphen, a month \<open>1..12\<close> written
  with one or two digits, a hyphen, a day \<open>1..31\<close> written with one or two digits (or a
  space and a digit), and nothing after it; the date must exist (years from 1, the
  month's length, leap years). Everything else raises \<open>ValueError\<close>.
\<close>

definition month_field :: "string \<Rightarrow> bool" where
  "month_field f =
     (case f of
        [a] \<Rightarrow> a \<in> set ''123456789''
      | [a, b] \<Rightarrow> (a = CHR ''1'' \<and> b \<in> set ''012'') \<or> (a = CHR ''0'' \<and> b \<in> set ''123456789'')
      | _ \<Rightarrow> False)"

definition day_field :: "string \<Rightarrow> bool" where
  "day_field f =
     (case f of
        [a] \<Rightarrow> a \<in> set ''123456789''
      | [a, b] \<Rightarrow> (a = CHR ''3'' \<and> b \<in> set ''01'') \<or> (a \<in> set ''12'' \<and> isdigit b)
                  \<or> ((a = CHR ''0'' \<or> a = CHR '' '') \<and> b \<in> set ''123456789'')
      | _ \<Rightarrow> False)"

definition is_leap :: "int \<Rightarrow> bool" where
  "is_leap y = (y mod 4 = 0 \<and> (y mod 100 \<noteq> 0 \<or> y mod 400 = 0))"

definition days_in_month :: "int \<Rightarrow> int \<Rightarrow> int" where
  "days_in_month y m =
     (if m = 2 then (if is_leap y then 29 else 28)
      else if m = 4 \<or> m = 6 \<or> m = 9 \<or> m = 11 then 30 else 31)"

definition strptime_ymd :: "string \<Rightarrow> py_exn + (int \<times> int \<times> int)" where
  "strptime_ymd s =
     (let yf = take 4 s;
          r = drop 5 s;
          mf = takeWhile (\<lambda>c. c \<noteq> CHR ''-'') r;
          df = drop (Suc (length mf)) r;
          y = int_of_digits yf;
          m = int_of_digits mf;
          d = int_of_digits (filter isdigit df)
      in if length yf = 4 \<and> list_all isdigit yf \<and> take 1 (drop 4 s) = ''-''
            \<and> month_field mf \<and> take 1 (drop (length mf) r) = ''-'' \<and> day_field df
            \<and> 1 \<le> y \<and> d \<le> days_in_month y m
         then Inr (y, m, d) else Inl ValueError)"

text \<open>\<open>isoformat()\<close> of the \<open>datetime\<close> that \<open>strptime\<close> returns for a date (midnight).\<close>

definition isoformat :: "int \<times> int \<times> int \<Rightarrow> string" where
  "isoformat ymd =
     (case ymd of (y, m, d) \<Rightarrow>
        zfill 4 (str_int y) @ ''-'' @ zfill 2 (str_int m) @ ''-'' @ zfill 2 (str_int d)
        @ ''T00:00:00'')"

subsection \<open>XML elements\<close>

text \<open>
  An \<open>xml.etree.ElementTree.Element\<close>: its tag (with the namespace in braces), its
  attributes, its text (\<open>None\<close> when there is none) and its children in document order.
\<close>

datatype element = Element (tag: string) (attrib: "(string \<times> string) list")
  (elem_text: "string option") (children: "element list")

text \<open>\<open>iter_elem e\<close> is \<open>e.iter()\<close>: the element and all its descendants, in document order.\<close>

fun iter_elem :: "element \<Rightarrow> element list" where
  "iter_elem (Element t a x cs) = Element t a x cs # concat (map iter_elem cs)"

text \<open>
  The paths of the script all have the form \<open>.//prefix:name\<close>: they select the descendants
  (the element itself excluded) whose tag is the prefix's namespace in braces followed by
  the name. \<open>findall\<close> returns all of them, \<open>find\<close> the first or \<open>None\<close>, \<open>findtext\<close> the text
  of the first (the empty string when it has no text) or the default.
\<close>

definition findall :: "element \<Rightarrow> string \<Rightarrow> element list" where
  "findall elem qname = filter (\<lambda>e. tag e = qname) (concat (map iter_elem (children elem)))"

definition find_elem :: "element \<Rightarrow> string \<Rightarrow> element option" where
  "find_elem elem qname = (case findall elem qname of [] \<Rightarrow> None | e # es \<Rightarrow> Some e)"

definition findtext :: "element \<Rightarrow> string \<Rightarrow> string \<Rightarrow> string" where
  "findtext elem qname dflt =
     (case find_elem elem qname of
        None \<Rightarrow> dflt
      | Some e \<Rightarrow> (case elem_text e of None \<Rightarrow> [] | Some t \<Rightarrow> t))"

definition get_attr :: "element \<Rightarrow> string \<Rightarrow> string \<Rightarrow> string" where
  "get_attr elem key dflt = (case map_of (attrib elem) key of None \<Rightarrow> dflt | Some v \<Rightarrow> v)"

text \<open>The qualified names that \<open>NAMESPACES\<close> gives the script's paths.\<close>

definition gml_id :: string where
  "gml_id = ''{http://www.opengis.net/gml/3.2}id''"

definition gml_posList :: string where
  "gml_posList = ''{http://www.opengis.net/gml/3.2}posList''"

definition ba_area_ha :: string where
  "ba_area_ha = ''{http://effis.jrc.ec.europa.eu/burnt_area}area_ha''"

definition ba_firedate :: string where
  "ba_firedate = ''{http://effis.jrc.ec.europa.eu/burnt_area}firedate''"

definition ba_burnt_area :: "int \<Rightarrow> string" where
  "ba_burnt_area yr = ''{http://effis.jrc.ec.europa.eu/burnt_area}burnt_area_'' @ str_int yr"

definition wfs_member :: string where
  "wfs_member = ''{http://www.opengis.net/wfs/2.0}member''"

section \<open>The script\<close>

subsection \<open>Data model and environment\<close>

text \<open>The feature dictionary (key \<open>id\<close> is the field \<open>fid\<close>) and the bundle dictionary (\<open>json_bundle\<close>).\<close>

record feature =
  fid :: string
  centroid :: "pyfloat list"
  boundaryPoints :: "pyfloat list list"
  areaHectares :: pyfloat
  fireDate :: "string option"
  seasonYear :: int

record json_bundle =
  year :: int
  region :: string
  generatedAt :: string
  featureCount :: int
  features :: "feature list"

text \<open>
  What the script does to the file system, in order: \<open>os.makedirs\<close> of a directory,
  \<open>json.dump\<close> of a bundle into a file opened for writing, \<open>os.path.getsize\<close> of a
  file, and text appended to a file. Console output is not modelled.
\<close>

datatype effect =
  MakeDirs string | WriteJson string json_bundle | GetSize string | AppendText string string

text \<open>
  The environment of a run: the interpreter's \<open>sum\<close>; \<open>ET.fromstring\<close>; for each year the
  outcome of \<open>requests.get\<close> followed by \<open>raise_for_status\<close> (the response text, or the
  exception raised); the local year; the UTC timestamp (\<open>isoformat\<close>) at which a year's bundle
  is assembled; the directory of the script; the environment variable \<open>GITHUB_OUTPUT\<close>;
  and which file-system operations the operating system refuses.
\<close>

record env =
  builtin_sum :: "pyfloat list \<Rightarrow> pyfloat"
  fromstring :: "string \<Rightarrow> py_exn + element"
  requests_get :: "int \<Rightarrow> py_exn + string"
  now_year :: int
  utcnow :: "int \<Rightarrow> string"
  script_dir :: string
  github_output :: "string option"
  os_refuses :: "effect \<Rightarrow> bool"

subsection \<open>\<open>parse_burnt_area_feature\<close>\<close>

text \<open>
  The loop \<open>for i in range(0, len(coords_list) - 1, 2)\<close>: \<open>pair_loop coords_list idxs acc\<close> runs
  the body for the indices \<open>idxs\<close> with \<open>boundary_points = acc\<close>.
\<close>

fun pair_loop :: "pyfloat list \<Rightarrow> int list \<Rightarrow> pyfloat list list \<Rightarrow> py_exn + pyfloat list list" where
  "pair_loop coords_list [] acc = Inr acc"
| "pair_loop coords_list (i # idxs) acc =
     bind_exn (py_index coords_list i) (\<lambda>lat.
     bind_exn (py_index coords_list (i + 1)) (\<lambda>lon.
     pair_loop coords_list idxs (acc @ [[lon, lat]])))"

text \<open>The fire date: lines 129 to 134.\<close>

definition parse_fire_date :: "string \<Rightarrow> py_exn + string option" where
  "parse_fire_date fire_date_str =
     (if fire_date_str = [] then Inr None
      else case strptime_ymd (take 10 fire_date_str) of
             Inr d \<Rightarrow> Inr (Some (take 10 (isoformat d)))
           | Inl e \<Rightarrow>
               if e = ValueError
               then Inr (if 10 \<le> length fire_date_str then Some (take 10 fire_date_str) else None)
               else Inl e)"

text \<open>
  The body of the \<open>try\<close> block: \<open>Inl e\<close> when it raises \<open>e\<close>, \<open>Inr r\<close> when it returns \<open>r\<close>.
\<close>

definition parse_burnt_area_feature_try :: "env \<Rightarrow> element \<Rightarrow> int \<Rightarrow> py_exn + feature option" where
  "parse_burnt_area_feature_try rt elem yr =
     (let fid' = get_attr elem gml_id [] in
      case find_elem elem gml_posList of
        None \<Rightarrow> Inr None
      | Some coords_elem \<Rightarrow>
          if elem_text coords_elem = None \<or> elem_text coords_elem = Some [] then Inr None
          else
            let coords_text = strip (the (elem_text coords_elem)) in
            bind_exn (map_exn py_float (split coords_text)) (\<lambda>coords_list.
            bind_exn (pair_loop coords_list (py_range 0 (int (length coords_list) - 1) 2) [])
              (\<lambda>boundary_points.
            if length boundary_points < 3 then Inr None
            else
              bind_exn (py_float (or_str (findtext elem ba_area_ha ''0'') ''0'')) (\<lambda>area_ha.
              let fire_date_str = or_str (findtext elem ba_firedate []) [] in
              bind_exn (parse_fire_date fire_date_str) (\<lambda>fire_date.
              bind_exn (map_exn (\<lambda>p. py_index p 0) boundary_points) (\<lambda>lons.
              bind_exn (map_exn (\<lambda>p. py_index p 1) boundary_points) (\<lambda>lats.
              bind_exn (fdiv (builtin_sum rt lons) (float_of_nat (length lons))) (\<lambda>centroid_lon.
              bind_exn (fdiv (builtin_sum rt lats) (float_of_nat (length lats))) (\<lambda>centroid_lat.
              Inr (Some \<lparr>fid = fid',
                         centroid = [centroid_lon, centroid_lat],
                         boundaryPoints = boundary_points,
                         areaHectares = area_ha,
                         fireDate = fire_date,
                         seasonYear = yr\<rparr>))))))))))"

text \<open>\<open>except Exception\<close>: whatever the body raises is logged and \<open>None\<close> is returned.\<close>

definition parse_burnt_area_feature :: "env \<Rightarrow> element \<Rightarrow> int \<Rightarrow> feature option" where
  "parse_burnt_area_feature rt elem yr =
     (case parse_burnt_area_feature_try rt elem yr of Inl e \<Rightarrow> None | Inr r \<Rightarrow> r)"

subsection \<open>\<open>parse_gml_response\<close> and \<open>fetch_burnt_areas\<close>\<close>

text \<open>The loop over the members, with the list \<open>features\<close> built so far.\<close>

fun member_loop :: "env \<Rightarrow> int \<Rightarrow> element list \<Rightarrow> feature list \<Rightarrow> feature list" where
  "member_loop rt yr [] feats = feats"
| "member_loop rt yr (member # ms) feats =
     (case find_elem member (ba_burnt_area yr) of
        None \<Rightarrow> member_loop rt yr ms feats
      | Some ba_elem \<Rightarrow>
          (case parse_burnt_area_feature rt ba_elem yr of
             None \<Rightarrow> member_loop rt yr ms feats
           | Some f \<Rightarrow> member_loop rt yr ms (feats @ [f])))"

definition parse_gml_response :: "env \<Rightarrow> string \<Rightarrow> int \<Rightarrow> py_exn + feature list" where
  "parse_gml_response rt gml_text yr =
     (case fromstring rt gml_text of
        Inl e \<Rightarrow> if e = ParseError then Inr [] else Inl e
      | Inr root \<Rightarrow> Inr (member_loop rt yr (findall root wfs_member) []))"

definition fetch_burnt_areas :: "env \<Rightarrow> int \<Rightarrow> py_exn + feature list" where
  "fetch_burnt_areas rt yr =
     (case requests_get rt yr of
        Inl e \<Rightarrow> if e = RequestException then Inr [] else Inl e
      | Inr response_text \<Rightarrow> parse_gml_response rt response_text yr)"

subsection \<open>\<open>save_bundle\<close> and \<open>main\<close>\<close>

text \<open>\<open>os.path.join\<close> of two parts on a POSIX system.\<close>

definition path_join :: "string \<Rightarrow> string \<Rightarrow> string" where
  "path_join a b =
     (if take 1 b = ''/'' then b
      else if a = [] \<or> last a = CHR ''/'' then a @ b
      else a @ ''/'' @ b)"

text \<open>
  A file-system operation either is refused (\<open>OSError\<close>) or is added to the operations
  performed so far.
\<close>

definition perform :: "env \<Rightarrow> effect \<Rightarrow> effect list \<Rightarrow> py_exn + effect list" where
  "perform rt ef log = (if os_refuses rt ef then Inl OSError else Inr (log @ [ef]))"

definition make_bundle :: "env \<Rightarrow> feature list \<Rightarrow> int \<Rightarrow> json_bundle" where
  "make_bundle rt feats yr =
     \<lparr>year = yr,
      region = ''UK'',
      generatedAt = utcnow rt yr @ ''Z'',
      featureCount = int (length feats),
      features = feats\<rparr>"

definition bundle_path :: "string \<Rightarrow> int \<Rightarrow> string" where
  "bundle_path output_dir yr = path_join output_dir (''burnt_areas_'' @ str_int yr @ ''_uk.json'')"

text \<open>
  \<open>save_bundle\<close> writes the bundle and then asks for the size of the file (to print
  it). It returns the path, or raises; either way the operations performed are returned.
\<close>

definition save_bundle :: "env \<Rightarrow> feature list \<Rightarrow> int \<Rightarrow> string \<Rightarrow> effect list
    \<Rightarrow> (py_exn + string) \<times> effect list" where
  "save_bundle rt feats yr output_dir log =
     (let filepath = bundle_path output_dir yr in
      case perform rt (WriteJson filepath (make_bundle rt feats yr)) log of
        Inl e \<Rightarrow> (Inl e, log)
      | Inr log1 \<Rightarrow>
          (case perform rt (GetSize filepath) log1 of
             Inl e \<Rightarrow> (Inl e, log1)
           | Inr log2 \<Rightarrow> (Inr filepath, log2)))"

text \<open>
  The loop of \<open>main\<close> over the years. The result pairs the outcome (an exception, or
  nothing) with the operations performed up to then.
\<close>

fun year_loop :: "env \<Rightarrow> string \<Rightarrow> int list \<Rightarrow> effect list \<Rightarrow> (py_exn + unit) \<times> effect list" where
  "year_loop rt output_dir [] log = (Inr (), log)"
| "year_loop rt output_dir (yr # yrs) log =
     (case fetch_burnt_areas rt yr of
        Inl e \<Rightarrow> (Inl e, log)
      | Inr feats \<Rightarrow>
          if feats \<noteq> []
          then (case save_bundle rt feats yr output_dir log of
                  (Inl e, log1) \<Rightarrow> (Inl e, log1)
                | (Inr filepath, log1) \<Rightarrow> year_loop rt output_dir yrs log1)
          else year_loop rt output_dir yrs log)"

definition output_dir_of :: "env \<Rightarrow> string" where
  "output_dir_of rt = path_join (path_join (path_join (script_dir rt) ''..'') ''assets'') ''cache''"

definition github_lines :: "int \<Rightarrow> int \<Rightarrow> string" where
  "github_lines current_year previous_year =
     ''current_year='' @ str_int current_year @ [CHR 0x0A]
     @ ''previous_year='' @ str_int previous_year @ [CHR 0x0A]"

text \<open>\<open>main\<close>: the exit status it returns or the exception it raises, and the operations
  performed.\<close>

definition main :: "env \<Rightarrow> (py_exn + int) \<times> effect list" where
  "main rt =
     (let current_year = now_year rt;
          previous_year = current_year - 1;
          output_dir = output_dir_of rt
      in case perform rt (MakeDirs output_dir) [] of
           Inl e \<Rightarrow> (Inl e, [])
         | Inr log0 \<Rightarrow>
             let success = True in
             (case year_loop rt output_dir [previous_year, current_year] log0 of
                (Inl e, log1) \<Rightarrow> (Inl e, log1)
              | (Inr u, log1) \<Rightarrow>
                  (case (case github_output rt of
                           None \<Rightarrow> Inr log1
                         | Some path \<Rightarrow>
                             if path = [] then Inr log1
                             else perform rt (AppendText path
                                    (github_lines current_year previous_year)) log1) of
                     Inl e \<Rightarrow> (Inl e, log1)
                   | Inr log2 \<Rightarrow> (Inr (if success then 0 else 1), log2))))"

section \<open>Notions used to state the properties\<close>

text \<open>
  The pairing the specification describes: consecutive values are read as (lat, lon) and
  each pair is emitted as \<open>[lon, lat]\<close>; a last value without a partner is left out.
\<close>

fun lon_lat_pairs :: "'a list \<Rightarrow> 'a list list" where
  "lon_lat_pairs (lat # lon # rest) = [lon, lat] # lon_lat_pairs rest"
| "lon_lat_pairs [x] = []"
| "lon_lat_pairs [] = []"

text \<open>
  The text of the first \<open>gml:posList\<close> below an element, when there is one and it is not
  empty; the strings handed to \<open>float\<close> for the area and to the date parsing.
\<close>

definition posList_text :: "element \<Rightarrow> string option" where
  "posList_text elem =
     (case find_elem elem gml_posList of
        None \<Rightarrow> None
      | Some coords_elem \<Rightarrow>
          (case elem_text coords_elem of
             None \<Rightarrow> None
           | Some t \<Rightarrow> if t = [] then None else Some t))"

definition area_text :: "element \<Rightarrow> string" where
  "area_text elem = or_str (findtext elem ba_area_ha ''0'') ''0''"

definition firedate_text :: "element \<Rightarrow> string" where
  "firedate_text elem = or_str (findtext elem ba_firedate []) []"

text \<open>The fire date as a function of the raw string (the result of lines 129 to 134).\<close>

definition fire_date_value :: "string \<Rightarrow> string option" where
  "fire_date_value s =
     (if s = [] then None
      else case strptime_ymd (take 10 s) of
             Inr d \<Rightarrow> Some (take 10 (isoformat d))
           | Inl e \<Rightarrow> if 10 \<le> length s then Some (take 10 s) else None)"

text \<open>\<open>sum(xs) / len(xs)\<close> in float arithmetic, and the two coordinate lists of a polygon.\<close>

definition float_mean :: "env \<Rightarrow> pyfloat list \<Rightarrow> py_exn + pyfloat" where
  "float_mean rt xs = fdiv (builtin_sum rt xs) (float_of_nat (length xs))"

definition lons_of :: "pyfloat list list \<Rightarrow> pyfloat list" where
  "lons_of points = map (\<lambda>p. p ! 0) points"

definition lats_of :: "pyfloat list list \<Rightarrow> pyfloat list" where
  "lats_of points = map (\<lambda>p. p ! 1) points"

definition is_write :: "effect \<Rightarrow> bool" where
  "is_write ef =
     (case ef of
        WriteJson p b \<Rightarrow> True
      | MakeDirs p \<Rightarrow> False
      | GetSize p \<Rightarrow> False
      | AppendText p t \<Rightarrow> False)"

text \<open>
  The operations one year contributes to a run in which nothing is refused: a bundle
  written and its size asked for when the fetch gave features, nothing otherwise. The last
  operation of such a run.
\<close>

definition bundle_writes :: "env \<Rightarrow> string \<Rightarrow> feature list \<Rightarrow> int \<Rightarrow> effect list" where
  "bundle_writes rt output_dir feats yr =
     (if feats = [] then []
      else [WriteJson (bundle_path output_dir yr) (make_bundle rt feats yr),
            GetSize (bundle_path output_dir yr)])"

definition github_writes :: "env \<Rightarrow> effect list" where
  "github_writes rt =
     (case github_output rt of
        None \<Rightarrow> []
      | Some path \<Rightarrow>
          if path = [] then []
          else [AppendText path (github_lines (now_year rt) (now_year rt - 1))])"

text \<open>
  Exact sums. A float is \<open>multiple_of g\<close> when it is finite, not \<open>-0.0\<close>, and an integer
  multiple of \<open>2\<^sup>g\<close> (written with the mantissa \<open>m\<close> and the exponent \<open>e\<close>: \<open>g \<le> e\<close>, or
  \<open>2\<^sup>g\<^sup>-\<^sup>e\<close> divides \<open>m\<close>); \<open>grid_units g\<close> is that integer. In a list that is
  \<open>exact_multiples g\<close> the integers have absolute values that add up to less than \<open>2\<^sup>5\<^sup>3\<close>, so
  that the exact sum of any of the elements is a float.
\<close>

fun multiple_of :: "int \<Rightarrow> pyfloat \<Rightarrow> bool" where
  "multiple_of g (Fin s m e) = ((m = 0 \<longrightarrow> \<not> s) \<and> (g \<le> e \<or> m mod 2 ^ nat (g - e) = 0))"
| "multiple_of g (Inf s) = False"
| "multiple_of g NaN = False"

fun grid_units :: "int \<Rightarrow> pyfloat \<Rightarrow> int" where
  "grid_units g (Fin s m e) =
     (if g \<le> e then signed s (m * 2 ^ nat (e - g)) else signed s (m div 2 ^ nat (g - e)))"
| "grid_units g (Inf s) = 0"
| "grid_units g NaN = 0"

definition exact_multiples :: "int \<Rightarrow> pyfloat list \<Rightarrow> bool" where
  "exact_multiples g xs =
     (- 1074 \<le> g \<and> g \<le> 971 \<and> list_all (multiple_of g) xs
      \<and> sum_list (map (\<lambda>x. \<bar>grid_units g x\<bar>) xs) < 2 ^ 53)"

text \<open>
  The normal form of the format, in which \<open>round_ratio\<close> writes every finite float: a
  mantissa of 53 bits with an exponent in range, or a smaller mantissa with the least
  exponent. \<open>well_formed\<close> are the floats written in this form, the zeros, the infinities
  and NaN; \<open>on_grid g\<close> are the well-formed ones that are \<open>multiple_of g\<close>.
\<close>

definition normal_form :: "int \<Rightarrow> int \<Rightarrow> bool" where
  "normal_form m e =
     ((2 ^ 52 \<le> m \<and> m < 2 ^ 53 \<and> - 1074 \<le> e \<and> e \<le> 971)
      \<or> (0 < m \<and> m < 2 ^ 52 \<and> e = - 1074))"

fun well_formed :: "pyfloat \<Rightarrow> bool" where
  "well_formed (Fin s m e) = ((m = 0 \<and> e = - 1074) \<or> normal_form m e)"
| "well_formed (Inf s) = True"
| "well_formed NaN = True"

fun on_grid :: "int \<Rightarrow> pyfloat \<Rightarrow> bool" where
  "on_grid g (Fin s m e) =
     (if m = 0 then \<not> s \<and> e = - 1074
      else normal_form m e \<and> (g \<le> e \<or> m mod 2 ^ nat (g - e) = 0))"
| "on_grid g (Inf s) = False"
| "on_grid g NaN = False"

definition exact_on_grid :: "int \<Rightarrow> pyfloat list \<Rightarrow> bool" where
  "exact_on_grid g xs =
     (- 1074 \<le> g \<and> g \<le> 971 \<and> list_all (on_grid g) xs
      \<and> sum_list (map (\<lambda>x. \<bar>grid_units g x\<bar>) xs) < 2 ^ 53)"

section \<open>Example inputs\<close>

text \<open>
  A burnt-area element of the 2025 layer with the specification's example polygon, an
  area and a fire date; variants of it; a response document with two members, the second
  with two points only; and an environment in which the request for 2025 is answered with
  that document and the request for 2026 fails in transport.
\<close>

definition burnt_area_elem :: "string \<Rightarrow> string \<Rightarrow> string \<Rightarrow> element" where
  "burnt_area_elem pos_list area firedate =
     Element (ba_burnt_area 2025) [(gml_id, ''burnt_area_2025.17'')] None
       [Element ''{http://effis.jrc.ec.europa.eu/burnt_area}geom'' [] None
          [Element ''{http://www.opengis.net/gml/3.2}Polygon'' [] None
             [Element gml_posList [] (Some pos_list) []]],
        Element ba_area_ha [] (Some area) [],
        Element ba_firedate [] (Some firedate) []]"

definition example_elem :: element where
  "example_elem = burnt_area_elem ''49.1 -5.2 49.3 -5.0 49.2 -5.1'' ''12.5'' ''2025-04-03 00:00:00''"

definition no_area_elem :: element where
  "no_area_elem =
     Element (ba_burnt_area 2025) [] None
       [Element gml_posList [] (Some ''49.1 -5.2 49.3 -5.0 49.2 -5.1'') []]"

definition bad_area_elem :: element where
  "bad_area_elem = burnt_area_elem ''49.1 -5.2 49.3 -5.0 49.2 -5.1'' ''n/a'' ''2025-04-03''"

definition short_date_elem :: element where
  "short_date_elem = burnt_area_elem ''49.1 -5.2 49.3 -5.0 49.2 -5.1'' ''12.5'' ''unknown''"

definition two_point_elem :: element where
  "two_point_elem = burnt_area_elem ''49.1 -5.2 49.3 -5.0'' ''3.0'' ''2025-05-01''"

definition odd_elem :: element where
  "odd_elem = burnt_area_elem ''49.1 -5.2 49.3 -5.0 49.2 -5.1 49.4'' ''12.5'' ''2025-04-03''"

definition example_root :: element where
  "example_root =
     Element ''{http://www.opengis.net/wfs/2.0}FeatureCollection'' [] None
       [Element wfs_member [] None [example_elem],
        Element wfs_member [] None [two_point_elem]]"

definition example_env :: env where
  "example_env =
     \<lparr>builtin_sum = sum_sequential,
      fromstring = (\<lambda>s. if s = ''<wfs:FeatureCollection/>'' then Inr example_root else Inl ParseError),
      requests_get = (\<lambda>y. if y = 2025 then Inr ''<wfs:FeatureCollection/>''
                           else Inl RequestException),
      now_year = 2026,
      utcnow = (\<lambda>y. ''2026-11-04T06:00:00.000000''),
      script_dir = ''/repo/scripts'',
      github_output = Some ''/tmp/github_output'',
      os_refuses = (\<lambda>ef. False)\<rparr>"

definition example_feature :: feature where
  "example_feature =
     \<lparr>fid = ''burnt_area_2025.17'',
      centroid = [Fin True 5742089524897382 (- 50), Fin False 6924284427082139 (- 47)],
      boundaryPoints =
        [[Fin True 5854679515581645 (- 50), Fin False 6910210678246605 (- 47)],
         [Fin True 5629499534213120 (- 50), Fin False 6938358175917670 (- 47)],
         [Fin True 5742089524897382 (- 50), Fin False 6924284427082138 (- 47)]],
      areaHectares = Fin False 7036874417766400 (- 49),
      fireDate = Some ''2025-04-03'',
      seasonYear = 2025\<rparr>"

text \<open>
  Two polygons with the same vertices in opposite order, with everyday coordinates, and two
  more with coordinates of very different magnitudes.
\<close>

definition forward_elem :: element where
  "forward_elem = burnt_area_elem ''55.0 0.1 55.0 0.2 55.0 0.3'' ''1.0'' ''2025-04-03''"

definition reversed_elem :: element where
  "reversed_elem = burnt_area_elem ''55.0 0.3 55.0 0.2 55.0 0.1'' ''1.0'' ''2025-04-03''"

definition wide_forward_elem :: element where
  "wide_forward_elem =
     burnt_area_elem ''0 -1.0 0 9007199254740992.0 0 1e+32'' ''1.0'' ''2025-04-03''"

definition exact_forward_elem :: element where
  "exact_forward_elem = burnt_area_elem ''55.0 1.0 55.5 2.0 56.0 3.0'' ''1.0'' ''2025-04-03''"

definition exact_reversed_elem :: element where
  "exact_reversed_elem = burnt_area_elem ''56.0 3.0 55.5 2.0 55.0 1.0'' ''1.0'' ''2025-04-03''"

definition exact_forward_feature :: feature where
  "exact_forward_feature =
     \<lparr>fid = ''burnt_area_2025.17'',
      centroid = [Fin False 4503599627370496 (- 51), Fin False 7810930603720704 (- 47)],
      boundaryPoints =
        [[Fin False 4503599627370496 (- 52), Fin False 7740561859543040 (- 47)],
         [Fin False 4503599627370496 (- 51), Fin False 7810930603720704 (- 47)],
         [Fin False 6755399441055744 (- 51), Fin False 7881299347898368 (- 47)]],
      areaHectares = Fin False 4503599627370496 (- 52),
      fireDate = Some ''2025-04-03'',
      seasonYear = 2025\<rparr>"

definition exact_reversed_feature :: feature where
  "exact_reversed_feature =
     \<lparr>fid = ''burnt_area_2025.17'',
      centroid = [Fin False 4503599627370496 (- 51), Fin False 7810930603720704 (- 47)],
      boundaryPoints =
        [[Fin False 6755399441055744 (- 51), Fin False 7881299347898368 (- 47)],
         [Fin False 4503599627370496 (- 51), Fin False 7810930603720704 (- 47)],
         [Fin False 4503599627370496 (- 52), Fin False 7740561859543040 (- 47)]],
      areaHectares = Fin False 4503599627370496 (- 52),
      fireDate = Some ''2025-04-03'',
      seasonYear = 2025\<rparr>"

definition compensated_env :: env where
  "compensated_env = example_env\<lparr>builtin_sum := sum_compensated\<rparr>"

definition wide_reversed_elem :: element where
  "wide_reversed_elem =
     burnt_area_elem ''0 1e+32 0 9007199254740992.0 0 -1.0'' ''1.0'' ''2025-04-03''"

text \<open>
  An environment in which every request fails in transport, and one in which every request
  is answered with a document that is not well-formed.
\<close>

definition offline_env :: env where
  "offline_env = example_env\<lparr>requests_get := (\<lambda>y. Inl RequestException)\<rparr>"

definition broken_env :: env where
  "broken_env = example_env\<lparr>requests_get := (\<lambda>y. Inr ''<broken'')\<rparr>"

section \<open>Auxiliary facts\<close>

subsection \<open>The pairing loop\<close>

lemma py_range_even: "py_range 0 (int n - 1) 2 = map (\<lambda>k. 2 * int k) [0 ..< n div 2]"
proof -
  have "nat ((int n - 1 - 0 + 2 - 1) div 2) = n div 2"
    by (simp add: nat_div_distrib)
  then show ?thesis
    by (simp add: py_range_def mult.commute)
qed

lemma py_index_nat: "k < length xs \<Longrightarrow> py_index xs (int k) = Inr (xs ! k)"
  by (simp add: py_index_def)

lemma pair_loop_upt:
  "2 * b \<le> length cs \<Longrightarrow>
   pair_loop cs (map (\<lambda>k. 2 * int k) [a ..< b]) acc
     = Inr (acc @ map (\<lambda>k. [cs ! (2 * k + 1), cs ! (2 * k)]) [a ..< b])"
proof (induction "b - a" arbitrary: a acc)
  case 0
  then show ?case by simp
next
  case (Suc d)
  then have ab: "a < b" and d: "d = b - Suc a" by linarith+
  have i0: "py_index cs (2 * int a) = Inr (cs ! (2 * a))"
    using py_index_nat [of "2 * a" cs] ab Suc.prems by simp
  have i1: "py_index cs (2 * int a + 1) = Inr (cs ! (2 * a + 1))"
    using py_index_nat [of "2 * a + 1" cs] ab Suc.prems by (simp add: add.commute)
  show ?case
    using Suc.hyps(1) [OF d Suc.prems, of "acc @ [[cs ! (2 * a + 1), cs ! (2 * a)]]"] ab
    by (simp add: upt_conv_Cons i0 i1 bind_exn_def)
qed

lemma lon_lat_pairs_nth:
  "lon_lat_pairs cs = map (\<lambda>k. [cs ! (2 * k + 1), cs ! (2 * k)]) [0 ..< length cs div 2]"
proof (induction cs rule: lon_lat_pairs.induct)
  case (1 lat lon rest)
  have "map (\<lambda>k. [(lat # lon # rest) ! (2 * k + 1), (lat # lon # rest) ! (2 * k)])
          [0 ..< Suc (length rest div 2)]
        = [lon, lat] # map (\<lambda>k. [rest ! (2 * k + 1), rest ! (2 * k)]) [0 ..< length rest div 2]"
    by (simp add: map_upt_Suc del: upt_Suc)
  with 1 show ?case by simp
qed simp_all

lemma pair_loop_eq:
  "pair_loop cs (py_range 0 (int (length cs) - 1) 2) [] = Inr (lon_lat_pairs cs)"
  using pair_loop_upt [of "length cs div 2" cs 0 "[]"]
  by (simp add: py_range_even lon_lat_pairs_nth)

lemma length_lon_lat_pairs: "length (lon_lat_pairs cs) = length cs div 2"
  by (simp add: lon_lat_pairs_nth)

lemma lon_lat_pairs_odd: "odd (length cs) \<Longrightarrow> lon_lat_pairs cs = lon_lat_pairs (butlast cs)"
  by (induction cs rule: lon_lat_pairs.induct) auto

lemma map_exn_index0:
  "map_exn (\<lambda>p. py_index p 0) (lon_lat_pairs cs) = Inr (map (\<lambda>p. p ! 0) (lon_lat_pairs cs))"
  by (induction cs rule: lon_lat_pairs.induct) (simp_all add: py_index_def bind_exn_def)

lemma map_exn_index1:
  "map_exn (\<lambda>p. py_index p 1) (lon_lat_pairs cs) = Inr (map (\<lambda>p. p ! 1) (lon_lat_pairs cs))"
  by (induction cs rule: lon_lat_pairs.induct) (simp_all add: py_index_def bind_exn_def)

subsection \<open>Division by a list length never divides by zero\<close>

lemma bit_length_pos: "0 < n \<Longrightarrow> bit_length n = 1 + bit_length (n div 2)"
  by (subst bit_length.simps) simp

lemma bit_length_nonpos: "n \<le> 0 \<Longrightarrow> bit_length n = 0"
  by (subst bit_length.simps) simp

lemma bit_length_ge0: "0 \<le> bit_length n"
proof (induction n rule: bit_length.induct)
  case (1 n)
  then show ?case
    by (cases "n \<le> 0") (simp_all add: bit_length_nonpos bit_length_pos)
qed

lemma bit_length_lower: "0 < n \<Longrightarrow> 2 ^ nat (bit_length n - 1) \<le> n"
proof (induction n rule: bit_length.induct)
  case (1 n)
  show ?case
  proof (cases "n = 1")
    case True
    then show ?thesis by (simp add: bit_length_pos bit_length_nonpos)
  next
    case False
    with 1(2) have h: "0 < n div 2" by simp
    have ih: "2 ^ nat (bit_length (n div 2) - 1) \<le> n div 2"
      using 1(1) h 1(2) by simp
    have bp: "1 \<le> bit_length (n div 2)"
      using h bit_length_ge0 [of "n div 2 div 2"] by (simp add: bit_length_pos)
    have "nat (bit_length n - 1) = Suc (nat (bit_length (n div 2) - 1))"
      using bp 1(2) by (simp add: bit_length_pos)
    then have "(2::int) ^ nat (bit_length n - 1) = 2 * 2 ^ nat (bit_length (n div 2) - 1)"
      by simp
    also have "\<dots> \<le> 2 * (n div 2)" using ih by simp
    also have "\<dots> \<le> n" by simp
    finally show ?thesis .
  qed
qed

lemma floor_log2_nat:
  assumes "0 < n"
  shows "floor_log2 n 1 < 0 \<or> 2 ^ nat (floor_log2 n 1) \<le> n"
proof -
  have b1: "bit_length 1 = 1" by (simp add: bit_length_pos bit_length_nonpos)
  have k0: "0 \<le> bit_length n - 1"
    using assms bit_length_ge0 [of "n div 2"] by (simp add: bit_length_pos)
  show ?thesis
    using bit_length_lower [OF assms] k0 by (auto simp: floor_log2_def floor_log2_from_def b1)
qed

lemma round_half_even_ge: "num div den \<le> round_half_even num den"
  by (simp add: round_half_even_def nearest_even_def)

lemma pack_float_nonzero:
  "1 \<le> m \<Longrightarrow> pack_float neg m e \<noteq> NaN \<and> (\<forall>s e'. pack_float neg m e \<noteq> Fin s 0 e')"
  by (simp add: pack_float_def)

lemma float_of_nat_nonzero:
  assumes "0 < n"
  shows "float_of_nat n \<noteq> NaN \<and> (\<forall>s e. float_of_nat n \<noteq> Fin s 0 e)"
proof -
  define N where "N = int n"
  have N: "0 < N" using assms by (simp add: N_def)
  define e where "e = max (floor_log2 N 1 - 52) (- 1074)"
  define num where "num = (if e < 0 then N * 2 ^ nat (- e) else N)"
  define den where "den = (if e < 0 then (1::int) else 1 * 2 ^ nat e)"
  have den0: "0 < den" by (simp add: den_def)
  have "den \<le> num"
  proof (cases "e < 0")
    case True
    have "1 * 1 \<le> N * 2 ^ nat (- e)"
      using N by (intro mult_mono) auto
    then show ?thesis using True by (simp add: num_def den_def)
  next
    case False
    then have "0 \<le> floor_log2 N 1" "e \<le> floor_log2 N 1" by (auto simp: e_def)
    with floor_log2_nat [OF N] have c: "2 ^ nat (floor_log2 N 1) \<le> N" by simp
    have p: "(2::int) ^ nat e \<le> 2 ^ nat (floor_log2 N 1)"
      using \<open>e \<le> floor_log2 N 1\<close> by (intro power_increasing) auto
    have "2 ^ nat e \<le> N" using p c by linarith
    then show ?thesis using False by (simp add: num_def den_def)
  qed
  then have "0 < num div den"
    using den0 by (simp add: pos_imp_zdiv_pos_iff)
  then have m: "1 \<le> round_half_even num den"
    using round_half_even_ge [of num den] by linarith
  have "float_of_nat n = pack_float False (round_half_even num den) e"
    using N unfolding float_of_nat_def round_ratio_def round_at_def N_def [symmetric]
      e_def num_def den_def by simp
  then show ?thesis using pack_float_nonzero [OF m] by simp
qed

lemma fdiv_float_of_nat: "0 < n \<Longrightarrow> \<exists>q. fdiv x (float_of_nat n) = Inr q"
  using float_of_nat_nonzero [of n]
  by (cases "float_of_nat n"; cases x) auto

subsection \<open>The feature extractor, unfolded\<close>

lemma strptime_ymd_raises: "strptime_ymd s = Inl e \<Longrightarrow> e = ValueError"
  by (auto simp: strptime_ymd_def Let_def split: if_splits)

lemma parse_fire_date_value: "parse_fire_date s = Inr (fire_date_value s)"
  by (auto simp: parse_fire_date_def fire_date_value_def split: sum.splits
      dest: strptime_ymd_raises)

lemma float_mean_total: "xs \<noteq> [] \<Longrightarrow> \<exists>q. float_mean rt xs = Inr q"
  unfolding float_mean_def by (rule fdiv_float_of_nat) simp

lemma try_no_posList:
  "posList_text elem = None \<Longrightarrow> parse_burnt_area_feature_try rt elem yr = Inr None"
  by (auto simp: parse_burnt_area_feature_try_def posList_text_def Let_def
      split: option.splits if_splits)

lemma try_posList:
  assumes "posList_text elem = Some txt"
  shows "parse_burnt_area_feature_try rt elem yr =
     bind_exn (map_exn py_float (split (strip txt))) (\<lambda>coords_list.
       if length (lon_lat_pairs coords_list) < 3 then Inr None
       else
         bind_exn (py_float (area_text elem)) (\<lambda>area_ha.
         bind_exn (float_mean rt (lons_of (lon_lat_pairs coords_list))) (\<lambda>centroid_lon.
         bind_exn (float_mean rt (lats_of (lon_lat_pairs coords_list))) (\<lambda>centroid_lat.
         Inr (Some \<lparr>fid = get_attr elem gml_id [],
                    centroid = [centroid_lon, centroid_lat],
                    boundaryPoints = lon_lat_pairs coords_list,
                    areaHectares = area_ha,
                    fireDate = fire_date_value (firedate_text elem),
                    seasonYear = yr\<rparr>)))))"
proof -
  obtain ce where ce: "find_elem elem gml_posList = Some ce" "elem_text ce = Some txt" "txt \<noteq> []"
    using assms by (auto simp: posList_text_def split: option.splits if_splits)
  show ?thesis
    unfolding parse_burnt_area_feature_try_def Let_def
    by (simp add: ce pair_loop_eq parse_fire_date_value map_exn_index0 map_exn_index1
        bind_exn_def area_text_def firedate_text_def float_mean_def lons_of_def lats_of_def
        length_lon_lat_pairs
        split: sum.splits)
qed

lemma parse_feature_None:
  "posList_text elem = None \<Longrightarrow> parse_burnt_area_feature rt elem yr = None"
  by (simp add: parse_burnt_area_feature_def try_no_posList)

lemma lons_of_nonempty: "points \<noteq> [] \<Longrightarrow> lons_of points \<noteq> []"
  by (simp add: lons_of_def)

lemma lats_of_nonempty: "points \<noteq> [] \<Longrightarrow> lats_of points \<noteq> []"
  by (simp add: lats_of_def)

lemma parse_feature_some:
  assumes "posList_text elem = Some txt"
    and "map_exn py_float (split (strip txt)) = Inr coords"
    and "6 \<le> length coords"
    and "py_float (area_text elem) = Inr a"
  shows "\<exists>clon clat.
           float_mean rt (lons_of (lon_lat_pairs coords)) = Inr clon \<and>
           float_mean rt (lats_of (lon_lat_pairs coords)) = Inr clat \<and>
           parse_burnt_area_feature rt elem yr =
             Some \<lparr>fid = get_attr elem gml_id [],
                   centroid = [clon, clat],
                   boundaryPoints = lon_lat_pairs coords,
                   areaHectares = a,
                   fireDate = fire_date_value (firedate_text elem),
                   seasonYear = yr\<rparr>"
proof -
  have n: "\<not> length (lon_lat_pairs coords) < 3"
    using assms(3) by (simp add: length_lon_lat_pairs)
  then have ne: "lon_lat_pairs coords \<noteq> []" by auto
  obtain clon where clon: "float_mean rt (lons_of (lon_lat_pairs coords)) = Inr clon"
    using float_mean_total [OF lons_of_nonempty [OF ne]] by blast
  obtain clat where clat: "float_mean rt (lats_of (lon_lat_pairs coords)) = Inr clat"
    using float_mean_total [OF lats_of_nonempty [OF ne]] by blast
  show ?thesis
    using n by (simp add: parse_burnt_area_feature_def try_posList [OF assms(1)] assms(2,4)
        clon clat bind_exn_def)
qed

lemma parse_feature_SomeD:
  assumes "parse_burnt_area_feature rt elem yr = Some f"
  shows "\<exists>txt coords a clon clat.
           posList_text elem = Some txt \<and>
           map_exn py_float (split (strip txt)) = Inr coords \<and>
           6 \<le> length coords \<and>
           py_float (area_text elem) = Inr a \<and>
           float_mean rt (lons_of (lon_lat_pairs coords)) = Inr clon \<and>
           float_mean rt (lats_of (lon_lat_pairs coords)) = Inr clat \<and>
           f = \<lparr>fid = get_attr elem gml_id [],
                 centroid = [clon, clat],
                 boundaryPoints = lon_lat_pairs coords,
                 areaHectares = a,
                 fireDate = fire_date_value (firedate_text elem),
                 seasonYear = yr\<rparr>"
proof (cases "posList_text elem")
  case None
  with assms show ?thesis by (simp add: parse_feature_None)
next
  case (Some ptext)
  show ?thesis
  proof (cases "map_exn py_float (split (strip ptext))")
    case (Inl e)
    with assms Some show ?thesis
      by (simp add: parse_burnt_area_feature_def try_posList bind_exn_def)
  next
    case (Inr coords)
    show ?thesis
    proof (cases "length (lon_lat_pairs coords) < 3")
      case True
      with assms Some Inr show ?thesis
        by (simp add: parse_burnt_area_feature_def try_posList bind_exn_def)
    next
      case False
      then have six: "6 \<le> length coords" by (simp add: length_lon_lat_pairs)
      show ?thesis
      proof (cases "py_float (area_text elem)")
        case (Inl e)
        with assms Some Inr False show ?thesis
          by (simp add: parse_burnt_area_feature_def try_posList bind_exn_def)
      next
        case a: (Inr a)
        from parse_feature_some [OF Some Inr six a, of rt yr] assms
        show ?thesis using Some Inr six a by auto
      qed
    qed
  qed
qed

lemma member_loop_all:
  "\<forall>f \<in> set feats. P f \<Longrightarrow>
   \<forall>elem f. parse_burnt_area_feature rt elem yr = Some f \<longrightarrow> P f \<Longrightarrow>
   \<forall>f \<in> set (member_loop rt yr members feats). P f"
proof (induction members arbitrary: feats)
  case Nil
  then show ?case by simp
next
  case (Cons m ms)
  show ?case
  proof (cases "find_elem m (ba_burnt_area yr)")
    case None
    then show ?thesis using Cons by simp
  next
    case (Some ba_elem)
    show ?thesis
    proof (cases "parse_burnt_area_feature rt ba_elem yr")
      case None
      then show ?thesis using Cons Some by simp
    next
      case f: (Some f)
      have "\<forall>g \<in> set (feats @ [f]). P g"
        using Cons.prems f by auto
      from Cons.IH [OF this Cons.prems(2)] show ?thesis
        using Some f by simp
    qed
  qed
qed

subsection \<open>The examples, evaluated\<close>

text \<open>
  Rewrite rules that evaluate the model on concrete inputs. The recursive equations of
  \<open>bit_length\<close> and \<open>str_nat\<close> are used on numerals only.
\<close>

lemma bit_length_numeral:
  "bit_length 0 = 0"
  "bit_length 1 = 1"
  "bit_length (numeral (Num.Bit0 k)) = 1 + bit_length (numeral k)"
  "bit_length (numeral (Num.Bit1 k)) = 1 + bit_length (numeral k)"
  "bit_length (- numeral k) = 0"
proof -
  show "bit_length 0 = 0" "bit_length (- numeral k) = 0"
    by (simp_all add: bit_length_nonpos)
  show "bit_length 1 = 1"
    by (simp add: bit_length_pos bit_length_nonpos)
  have "(numeral (Num.Bit0 k) :: int) div 2 = numeral k"
    by simp
  then show "bit_length (numeral (Num.Bit0 k)) = 1 + bit_length (numeral k)"
    by (simp add: bit_length_pos [of "numeral (Num.Bit0 k)"])
  have "(numeral (Num.Bit1 k) :: int) div 2 = numeral k"
    by simp
  then show "bit_length (numeral (Num.Bit1 k)) = 1 + bit_length (numeral k)"
    by (simp add: bit_length_pos [of "numeral (Num.Bit1 k)"])
qed

lemma str_nat_numeral:
  "str_nat 0 = ''0''"
  "str_nat 1 = ''1''"
  "str_nat (numeral k) =
     (if numeral k < (10::nat) then [digit_char (numeral k)]
      else str_nat (numeral k div 10) @ [digit_char (numeral k mod 10)])"
  by (subst str_nat.simps, simp add: digit_char_def)+

lemmas string_eval = split_def strip_def isspace_def

lemmas rounding_eval = round_signed_def round_scaled_def round_ratio_def round_at_def
  floor_log2_def floor_log2_from_def round_half_even_def nearest_even_def pack_float_def
  bit_length_numeral signed_def

lemmas float_eval = py_float_def float_strip_def float_space_def isdigit_def parse_decimal_def
  parse_exponent_def Let_def ascii_lower_def int_of_digits_def digit_val_def rounding_eval

lemmas arith_eval = float_mean_def rounding_eval float_of_nat_def zero_float_def
  sum_sequential_def fsub_def lons_of_def lats_of_def

lemmas xml_eval = find_elem_def findall_def findtext_def get_attr_def gml_id_def
  gml_posList_def ba_area_ha_def ba_firedate_def ba_burnt_area_def wfs_member_def
  str_int_def str_nat_numeral digit_char_def or_str_def

lemmas date_eval = fire_date_value_def strptime_ymd_def month_field_def day_field_def
  days_in_month_def is_leap_def isoformat_def zfill_def int_of_digits_def digit_val_def
  isdigit_def str_int_def str_nat_numeral digit_char_def Let_def

lemma burnt_area_elem_posList:
  "posList_text (burnt_area_elem pos a d) = (if pos = [] then None else Some pos)"
  by (simp add: posList_text_def burnt_area_elem_def xml_eval)

lemma burnt_area_elem_area: "area_text (burnt_area_elem pos a d) = or_str a ''0''"
  by (simp add: area_text_def burnt_area_elem_def xml_eval)

lemma burnt_area_elem_firedate: "firedate_text (burnt_area_elem pos a d) = d"
  by (simp add: firedate_text_def burnt_area_elem_def xml_eval)

lemma burnt_area_elem_id: "get_attr (burnt_area_elem pos a d) gml_id [] = ''burnt_area_2025.17''"
  by (simp add: burnt_area_elem_def get_attr_def)

lemma burnt_area_elem_parse:
  assumes "pos \<noteq> []"
    and "map_exn py_float (split (strip pos)) = Inr coords"
    and "6 \<le> length coords"
    and "py_float (or_str a ''0'') = Inr av"
    and "float_mean rt (lons_of (lon_lat_pairs coords)) = Inr clon"
    and "float_mean rt (lats_of (lon_lat_pairs coords)) = Inr clat"
  shows "parse_burnt_area_feature rt (burnt_area_elem pos a d) yr =
     Some \<lparr>fid = ''burnt_area_2025.17'',
           centroid = [clon, clat],
           boundaryPoints = lon_lat_pairs coords,
           areaHectares = av,
           fireDate = fire_date_value d,
           seasonYear = yr\<rparr>"
proof -
  have p: "posList_text (burnt_area_elem pos a d) = Some pos"
    using assms(1) by (simp add: burnt_area_elem_posList)
  have ar: "py_float (area_text (burnt_area_elem pos a d)) = Inr av"
    using assms(4) by (simp add: burnt_area_elem_area)
  from parse_feature_some [OF p assms(2,3) ar, of rt yr] show ?thesis
    using assms(5,6) by (auto simp: burnt_area_elem_id burnt_area_elem_firedate)
qed

lemma float_tokens:
  "py_float ''49.1'' = Inr (Fin False 6910210678246605 (- 47))"
  "py_float ''-5.2'' = Inr (Fin True 5854679515581645 (- 50))"
  "py_float ''49.3'' = Inr (Fin False 6938358175917670 (- 47))"
  "py_float ''-5.0'' = Inr (Fin True 5629499534213120 (- 50))"
  "py_float ''49.2'' = Inr (Fin False 6924284427082138 (- 47))"
  "py_float ''-5.1'' = Inr (Fin True 5742089524897382 (- 50))"
  "py_float ''49.4'' = Inr (Fin False 6952431924753203 (- 47))"
  "py_float ''12.5'' = Inr (Fin False 7036874417766400 (- 49))"
  "py_float ''55.0'' = Inr (Fin False 7740561859543040 (- 47))"
  "py_float ''55.5'' = Inr (Fin False 7810930603720704 (- 47))"
  "py_float ''56.0'' = Inr (Fin False 7881299347898368 (- 47))"
  "py_float ''0.1'' = Inr (Fin False 7205759403792794 (- 56))"
  "py_float ''0.2'' = Inr (Fin False 7205759403792794 (- 55))"
  "py_float ''0.3'' = Inr (Fin False 5404319552844595 (- 54))"
  "py_float ''1.0'' = Inr (Fin False 4503599627370496 (- 52))"
  "py_float ''2.0'' = Inr (Fin False 4503599627370496 (- 51))"
  "py_float ''3.0'' = Inr (Fin False 6755399441055744 (- 51))"
  "py_float ''0'' = Inr (Fin False 0 (- 1074))"
  "py_float ''-1.0'' = Inr (Fin True 4503599627370496 (- 52))"
  "py_float ''9007199254740992.0'' = Inr (Fin False 4503599627370496 1)"
  "py_float ''1e+32'' = Inr (Fin False 5551115123125783 54)"
  "py_float ''n/a'' = Inl ValueError"
  by (simp_all add: float_eval)

lemma example_coords:
  "map_exn py_float (split (strip ''49.1 -5.2 49.3 -5.0 49.2 -5.1'')) =
     Inr [Fin False 6910210678246605 (- 47), Fin True 5854679515581645 (- 50),
          Fin False 6938358175917670 (- 47), Fin True 5629499534213120 (- 50),
          Fin False 6924284427082138 (- 47), Fin True 5742089524897382 (- 50)]"
  by (simp add: string_eval float_tokens bind_exn_def)

lemma example_means:
  "float_mean example_env
     [Fin True 5854679515581645 (- 50), Fin True 5629499534213120 (- 50),
      Fin True 5742089524897382 (- 50)]
     = Inr (Fin True 5742089524897382 (- 50))"
  "float_mean example_env
     [Fin False 6910210678246605 (- 47), Fin False 6938358175917670 (- 47),
      Fin False 6924284427082138 (- 47)]
     = Inr (Fin False 6924284427082139 (- 47))"
  by (simp_all add: example_env_def arith_eval)

lemma example_dates:
  "fire_date_value ''2025-04-03 00:00:00'' = Some ''2025-04-03''"
  "fire_date_value ''2025-04-03'' = Some ''2025-04-03''"
  "fire_date_value ''unknown'' = None"
  "strptime_ymd (take 10 ''unknown'') = Inl ValueError"
  by (simp_all add: date_eval)

lemma example_parse:
  "parse_burnt_area_feature example_env example_elem 2025 = Some example_feature"
proof -
  have "parse_burnt_area_feature example_env
          (burnt_area_elem ''49.1 -5.2 49.3 -5.0 49.2 -5.1'' ''12.5'' ''2025-04-03 00:00:00'') 2025
        = Some \<lparr>fid = ''burnt_area_2025.17'',
            centroid = [Fin True 5742089524897382 (- 50), Fin False 6924284427082139 (- 47)],
            boundaryPoints = lon_lat_pairs
              [Fin False 6910210678246605 (- 47), Fin True 5854679515581645 (- 50),
               Fin False 6938358175917670 (- 47), Fin True 5629499534213120 (- 50),
               Fin False 6924284427082138 (- 47), Fin True 5742089524897382 (- 50)],
            areaHectares = Fin False 7036874417766400 (- 49),
            fireDate = fire_date_value ''2025-04-03 00:00:00'',
            seasonYear = 2025\<rparr>"
    by (rule burnt_area_elem_parse [OF _ example_coords])
      (simp_all add: or_str_def float_tokens example_means lons_of_def lats_of_def)
  then show ?thesis
    by (simp add: example_elem_def example_feature_def example_dates)
qed

lemma exact_forward_parse:
  "parse_burnt_area_feature example_env exact_forward_elem 2025 =
     Some exact_forward_feature"
proof -
  have c: "map_exn py_float (split (strip ''55.0 1.0 55.5 2.0 56.0 3.0'')) =
      Inr [Fin False 7740561859543040 (- 47), Fin False 4503599627370496 (- 52),
           Fin False 7810930603720704 (- 47), Fin False 4503599627370496 (- 51),
           Fin False 7881299347898368 (- 47), Fin False 6755399441055744 (- 51)]"
    by (simp add: string_eval float_tokens bind_exn_def)
  have m: "float_mean example_env [Fin False 4503599627370496 (- 52), Fin False 4503599627370496 (- 51),
         Fin False 6755399441055744 (- 51)]
        = Inr (Fin False 4503599627370496 (- 51))"
    "float_mean example_env [Fin False 7740561859543040 (- 47), Fin False 7810930603720704 (- 47),
         Fin False 7881299347898368 (- 47)]
        = Inr (Fin False 7810930603720704 (- 47))"
    by (simp_all add: example_env_def arith_eval)
  have "parse_burnt_area_feature example_env (burnt_area_elem ''55.0 1.0 55.5 2.0 56.0 3.0'' ''1.0'' ''2025-04-03'') 2025
      = Some \<lparr>fid = ''burnt_area_2025.17'',
          centroid = [Fin False 4503599627370496 (- 51), Fin False 7810930603720704 (- 47)],
          boundaryPoints = lon_lat_pairs
            [Fin False 7740561859543040 (- 47), Fin False 4503599627370496 (- 52),
             Fin False 7810930603720704 (- 47), Fin False 4503599627370496 (- 51),
             Fin False 7881299347898368 (- 47), Fin False 6755399441055744 (- 51)],
          areaHectares = Fin False 4503599627370496 (- 52),
          fireDate = fire_date_value ''2025-04-03'',
          seasonYear = 2025\<rparr>"
    by (rule burnt_area_elem_parse [OF _ c])
      (simp_all add: or_str_def float_tokens m lons_of_def lats_of_def)
  then show ?thesis
    by (simp add: exact_forward_elem_def example_dates example_feature_def
        exact_forward_feature_def exact_reversed_feature_def)
qed

lemma exact_reversed_parse:
  "parse_burnt_area_feature example_env exact_reversed_elem 2025 =
     Some exact_reversed_feature"
proof -
  have c: "map_exn py_float (split (strip ''56.0 3.0 55.5 2.0 55.0 1.0'')) =
      Inr [Fin False 7881299347898368 (- 47), Fin False 6755399441055744 (- 51),
           Fin False 7810930603720704 (- 47), Fin False 4503599627370496 (- 51),
           Fin False 7740561859543040 (- 47), Fin False 4503599627370496 (- 52)]"
    by (simp add: string_eval float_tokens bind_exn_def)
  have m: "float_mean example_env [Fin False 6755399441055744 (- 51), Fin False 4503599627370496 (- 51),
         Fin False 4503599627370496 (- 52)]
        = Inr (Fin False 4503599627370496 (- 51))"
    "float_mean example_env [Fin False 7881299347898368 (- 47), Fin False 7810930603720704 (- 47),
         Fin False 7740561859543040 (- 47)]
        = Inr (Fin False 7810930603720704 (- 47))"
    by (simp_all add: example_env_def arith_eval)
  have "parse_burnt_area_feature example_env (burnt_area_elem ''56.0 3.0 55.5 2.0 55.0 1.0'' ''1.0'' ''2025-04-03'') 2025
      = Some \<lparr>fid = ''burnt_area_2025.17'',
          centroid = [Fin False 4503599627370496 (- 51), Fin False 7810930603720704 (- 47)],
          boundaryPoints = lon_lat_pairs
            [Fin False 7881299347898368 (- 47), Fin False 6755399441055744 (- 51),
             Fin False 7810930603720704 (- 47), Fin False 4503599627370496 (- 51),
             Fin False 7740561859543040 (- 47), Fin False 4503599627370496 (- 52)],
          areaHectares = Fin False 4503599627370496 (- 52),
          fireDate = fire_date_value ''2025-04-03'',
          seasonYear = 2025\<rparr>"
    by (rule burnt_area_elem_parse [OF _ c])
      (simp_all add: or_str_def float_tokens m lons_of_def lats_of_def)
  then show ?thesis
    by (simp add: exact_reversed_elem_def example_dates example_feature_def
        exact_forward_feature_def exact_reversed_feature_def)
qed

lemma forward_parse:
  "parse_burnt_area_feature example_env forward_elem 2025 =
     Some \<lparr>fid = ''burnt_area_2025.17'',
       centroid = [Fin False 7205759403792795 (- 55), Fin False 7740561859543040 (- 47)],
       boundaryPoints =
         [[Fin False 7205759403792794 (- 56), Fin False 7740561859543040 (- 47)],
          [Fin False 7205759403792794 (- 55), Fin False 7740561859543040 (- 47)],
          [Fin False 5404319552844595 (- 54), Fin False 7740561859543040 (- 47)]],
       areaHectares = Fin False 4503599627370496 (- 52),
       fireDate = Some ''2025-04-03'', seasonYear = 2025\<rparr>"
proof -
  have c: "map_exn py_float (split (strip ''55.0 0.1 55.0 0.2 55.0 0.3'')) =
      Inr [Fin False 7740561859543040 (- 47), Fin False 7205759403792794 (- 56),
           Fin False 7740561859543040 (- 47), Fin False 7205759403792794 (- 55),
           Fin False 7740561859543040 (- 47), Fin False 5404319552844595 (- 54)]"
    by (simp add: string_eval float_tokens bind_exn_def)
  have m: "float_mean example_env [Fin False 7205759403792794 (- 56), Fin False 7205759403792794 (- 55),
         Fin False 5404319552844595 (- 54)]
        = Inr (Fin False 7205759403792795 (- 55))"
    "float_mean example_env [Fin False 7740561859543040 (- 47), Fin False 7740561859543040 (- 47),
         Fin False 7740561859543040 (- 47)]
        = Inr (Fin False 7740561859543040 (- 47))"
    by (simp_all add: example_env_def arith_eval)
  have "parse_burnt_area_feature example_env (burnt_area_elem ''55.0 0.1 55.0 0.2 55.0 0.3'' ''1.0'' ''2025-04-03'') 2025
      = Some \<lparr>fid = ''burnt_area_2025.17'',
          centroid = [Fin False 7205759403792795 (- 55), Fin False 7740561859543040 (- 47)],
          boundaryPoints = lon_lat_pairs
            [Fin False 7740561859543040 (- 47), Fin False 7205759403792794 (- 56),
             Fin False 7740561859543040 (- 47), Fin False 7205759403792794 (- 55),
             Fin False 7740561859543040 (- 47), Fin False 5404319552844595 (- 54)],
          areaHectares = Fin False 4503599627370496 (- 52),
          fireDate = fire_date_value ''2025-04-03'',
          seasonYear = 2025\<rparr>"
    by (rule burnt_area_elem_parse [OF _ c])
      (simp_all add: or_str_def float_tokens m lons_of_def lats_of_def)
  then show ?thesis
    by (simp add: forward_elem_def example_dates example_feature_def
        exact_forward_feature_def exact_reversed_feature_def)
qed

lemma reversed_parse:
  "parse_burnt_area_feature example_env reversed_elem 2025 =
     Some \<lparr>fid = ''burnt_area_2025.17'',
       centroid = [Fin False 7205759403792793 (- 55), Fin False 7740561859543040 (- 47)],
       boundaryPoints =
         [[Fin False 5404319552844595 (- 54), Fin False 7740561859543040 (- 47)],
          [Fin False 7205759403792794 (- 55), Fin False 7740561859543040 (- 47)],
          [Fin False 7205759403792794 (- 56), Fin False 7740561859543040 (- 47)]],
       areaHectares = Fin False 4503599627370496 (- 52),
       fireDate = Some ''2025-04-03'', seasonYear = 2025\<rparr>"
proof -
  have c: "map_exn py_float (split (strip ''55.0 0.3 55.0 0.2 55.0 0.1'')) =
      Inr [Fin False 7740561859543040 (- 47), Fin False 5404319552844595 (- 54),
           Fin False 7740561859543040 (- 47), Fin False 7205759403792794 (- 55),
           Fin False 7740561859543040 (- 47), Fin False 7205759403792794 (- 56)]"
    by (simp add: string_eval float_tokens bind_exn_def)
  have m: "float_mean example_env [Fin False 5404319552844595 (- 54), Fin False 7205759403792794 (- 55),
         Fin False 7205759403792794 (- 56)]
        = Inr (Fin False 7205759403792793 (- 55))"
    "float_mean example_env [Fin False 7740561859543040 (- 47), Fin False 7740561859543040 (- 47),
         Fin False 7740561859543040 (- 47)]
        = Inr (Fin False 7740561859543040 (- 47))"
    by (simp_all add: example_env_def arith_eval)
  have "parse_burnt_area_feature example_env (burnt_area_elem ''55.0 0.3 55.0 0.2 55.0 0.1'' ''1.0'' ''2025-04-03'') 2025
      = Some \<lparr>fid = ''burnt_area_2025.17'',
          centroid = [Fin False 7205759403792793 (- 55), Fin False 7740561859543040 (- 47)],
          boundaryPoints = lon_lat_pairs
            [Fin False 7740561859543040 (- 47), Fin False 5404319552844595 (- 54),
             Fin False 7740561859543040 (- 47), Fin False 7205759403792794 (- 55),
             Fin False 7740561859543040 (- 47), Fin False 7205759403792794 (- 56)],
          areaHectares = Fin False 4503599627370496 (- 52),
          fireDate = fire_date_value ''2025-04-03'',
          seasonYear = 2025\<rparr>"
    by (rule burnt_area_elem_parse [OF _ c])
      (simp_all add: or_str_def float_tokens m lons_of_def lats_of_def)
  then show ?thesis
    by (simp add: reversed_elem_def example_dates example_feature_def
        exact_forward_feature_def exact_reversed_feature_def)
qed

lemma wide_forward_parse:
  "parse_burnt_area_feature compensated_env wide_forward_elem 2025 =
     Some \<lparr>fid = ''burnt_area_2025.17'',
       centroid = [Fin False 7401486830834377 52, Fin False 0 (- 1074)],
       boundaryPoints =
         [[Fin True 4503599627370496 (- 52), Fin False 0 (- 1074)],
          [Fin False 4503599627370496 1, Fin False 0 (- 1074)],
          [Fin False 5551115123125783 54, Fin False 0 (- 1074)]],
       areaHectares = Fin False 4503599627370496 (- 52),
       fireDate = Some ''2025-04-03'', seasonYear = 2025\<rparr>"
proof -
  have c: "map_exn py_float (split (strip ''0 -1.0 0 9007199254740992.0 0 1e+32'')) =
      Inr [Fin False 0 (- 1074), Fin True 4503599627370496 (- 52), Fin False 0 (- 1074),
           Fin False 4503599627370496 1, Fin False 0 (- 1074),
           Fin False 5551115123125783 54]"
    by (simp add: string_eval float_tokens bind_exn_def)
  have m: "float_mean compensated_env [Fin True 4503599627370496 (- 52), Fin False 4503599627370496 1,
         Fin False 5551115123125783 54]
        = Inr (Fin False 7401486830834377 52)"
    "float_mean compensated_env [Fin False 0 (- 1074), Fin False 0 (- 1074), Fin False 0 (- 1074)]
        = Inr (Fin False 0 (- 1074))"
    by (simp_all add: compensated_env_def example_env_def arith_eval)
  have "parse_burnt_area_feature compensated_env (burnt_area_elem ''0 -1.0 0 9007199254740992.0 0 1e+32'' ''1.0'' ''2025-04-03'') 2025
      = Some \<lparr>fid = ''burnt_area_2025.17'',
          centroid = [Fin False 7401486830834377 52, Fin False 0 (- 1074)],
          boundaryPoints = lon_lat_pairs
            [Fin False 0 (- 1074), Fin True 4503599627370496 (- 52),
             Fin False 0 (- 1074), Fin False 4503599627370496 1, Fin False 0 (- 1074),
             Fin False 5551115123125783 54],
          areaHectares = Fin False 4503599627370496 (- 52),
          fireDate = fire_date_value ''2025-04-03'',
          seasonYear = 2025\<rparr>"
    by (rule burnt_area_elem_parse [OF _ c])
      (simp_all add: or_str_def float_tokens m lons_of_def lats_of_def)
  then show ?thesis
    by (simp add: wide_forward_elem_def example_dates example_feature_def
        exact_forward_feature_def exact_reversed_feature_def)
qed

lemma wide_reversed_parse:
  "parse_burnt_area_feature compensated_env wide_reversed_elem 2025 =
     Some \<lparr>fid = ''burnt_area_2025.17'',
       centroid = [Fin False 7401486830834379 52, Fin False 0 (- 1074)],
       boundaryPoints =
         [[Fin False 5551115123125783 54, Fin False 0 (- 1074)],
          [Fin False 4503599627370496 1, Fin False 0 (- 1074)],
          [Fin True 4503599627370496 (- 52), Fin False 0 (- 1074)]],
       areaHectares = Fin False 4503599627370496 (- 52),
       fireDate = Some ''2025-04-03'', seasonYear = 2025\<rparr>"
proof -
  have c: "map_exn py_float (split (strip ''0 1e+32 0 9007199254740992.0 0 -1.0'')) =
      Inr [Fin False 0 (- 1074), Fin False 5551115123125783 54, Fin False 0 (- 1074),
           Fin False 4503599627370496 1, Fin False 0 (- 1074),
           Fin True 4503599627370496 (- 52)]"
    by (simp add: string_eval float_tokens bind_exn_def)
  have m: "float_mean compensated_env [Fin False 5551115123125783 54, Fin False 4503599627370496 1,
         Fin True 4503599627370496 (- 52)]
        = Inr (Fin False 7401486830834379 52)"
    "float_mean compensated_env [Fin False 0 (- 1074), Fin False 0 (- 1074), Fin False 0 (- 1074)]
        = Inr (Fin False 0 (- 1074))"
    by (simp_all add: compensated_env_def example_env_def arith_eval)
  have "parse_burnt_area_feature compensated_env (burnt_area_elem ''0 1e+32 0 9007199254740992.0 0 -1.0'' ''1.0'' ''2025-04-03'') 2025
      = Some \<lparr>fid = ''burnt_area_2025.17'',
          centroid = [Fin False 7401486830834379 52, Fin False 0 (- 1074)],
          boundaryPoints = lon_lat_pairs
            [Fin False 0 (- 1074), Fin False 5551115123125783 54, Fin False 0 (- 1074),
             Fin False 4503599627370496 1, Fin False 0 (- 1074),
             Fin True 4503599627370496 (- 52)],
          areaHectares = Fin False 4503599627370496 (- 52),
          fireDate = fire_date_value ''2025-04-03'',
          seasonYear = 2025\<rparr>"
    by (rule burnt_area_elem_parse [OF _ c])
      (simp_all add: or_str_def float_tokens m lons_of_def lats_of_def)
  then show ?thesis
    by (simp add: wide_reversed_elem_def example_dates example_feature_def
        exact_forward_feature_def exact_reversed_feature_def)
qed

lemma short_date_parse:
  "parse_burnt_area_feature example_env short_date_elem 2025 =
     Some (example_feature\<lparr>fireDate := None\<rparr>)"
proof -
  have c: "map_exn py_float (split (strip ''49.1 -5.2 49.3 -5.0 49.2 -5.1'')) =
      Inr [Fin False 6910210678246605 (- 47), Fin True 5854679515581645 (- 50),
           Fin False 6938358175917670 (- 47), Fin True 5629499534213120 (- 50),
           Fin False 6924284427082138 (- 47), Fin True 5742089524897382 (- 50)]"
    by (simp add: string_eval float_tokens bind_exn_def)
  have m: "float_mean example_env [Fin True 5854679515581645 (- 50), Fin True 5629499534213120 (- 50),
         Fin True 5742089524897382 (- 50)]
        = Inr (Fin True 5742089524897382 (- 50))"
    "float_mean example_env [Fin False 6910210678246605 (- 47), Fin False 6938358175917670 (- 47),
         Fin False 6924284427082138 (- 47)]
        = Inr (Fin False 6924284427082139 (- 47))"
    by (simp_all add: example_env_def arith_eval)
  have "parse_burnt_area_feature example_env (burnt_area_elem ''49.1 -5.2 49.3 -5.0 49.2 -5.1'' ''12.5'' ''unknown'') 2025
      = Some \<lparr>fid = ''burnt_area_2025.17'',
          centroid = [Fin True 5742089524897382 (- 50), Fin False 6924284427082139 (- 47)],
          boundaryPoints = lon_lat_pairs
            [Fin False 6910210678246605 (- 47), Fin True 5854679515581645 (- 50),
             Fin False 6938358175917670 (- 47), Fin True 5629499534213120 (- 50),
             Fin False 6924284427082138 (- 47), Fin True 5742089524897382 (- 50)],
          areaHectares = Fin False 7036874417766400 (- 49),
          fireDate = fire_date_value ''unknown'',
          seasonYear = 2025\<rparr>"
    by (rule burnt_area_elem_parse [OF _ c])
      (simp_all add: or_str_def float_tokens m lons_of_def lats_of_def)
  then show ?thesis
    by (simp add: short_date_elem_def example_dates example_feature_def
        exact_forward_feature_def exact_reversed_feature_def)
qed

lemma odd_parse:
  "parse_burnt_area_feature example_env odd_elem 2025 =
     Some example_feature"
proof -
  have c: "map_exn py_float (split (strip ''49.1 -5.2 49.3 -5.0 49.2 -5.1 49.4'')) =
      Inr [Fin False 6910210678246605 (- 47), Fin True 5854679515581645 (- 50),
           Fin False 6938358175917670 (- 47), Fin True 5629499534213120 (- 50),
           Fin False 6924284427082138 (- 47), Fin True 5742089524897382 (- 50),
           Fin False 6952431924753203 (- 47)]"
    by (simp add: string_eval float_tokens bind_exn_def)
  have m: "float_mean example_env [Fin True 5854679515581645 (- 50), Fin True 5629499534213120 (- 50),
         Fin True 5742089524897382 (- 50)]
        = Inr (Fin True 5742089524897382 (- 50))"
    "float_mean example_env [Fin False 6910210678246605 (- 47), Fin False 6938358175917670 (- 47),
         Fin False 6924284427082138 (- 47)]
        = Inr (Fin False 6924284427082139 (- 47))"
    by (simp_all add: example_env_def arith_eval)
  have "parse_burnt_area_feature example_env (burnt_area_elem ''49.1 -5.2 49.3 -5.0 49.2 -5.1 49.4'' ''12.5'' ''2025-04-03'') 2025
      = Some \<lparr>fid = ''burnt_area_2025.17'',
          centroid = [Fin True 5742089524897382 (- 50), Fin False 6924284427082139 (- 47)],
          boundaryPoints = lon_lat_pairs
            [Fin False 6910210678246605 (- 47), Fin True 5854679515581645 (- 50),
             Fin False 6938358175917670 (- 47), Fin True 5629499534213120 (- 50),
             Fin False 6924284427082138 (- 47), Fin True 5742089524897382 (- 50),
             Fin False 6952431924753203 (- 47)],
          areaHectares = Fin False 7036874417766400 (- 49),
          fireDate = fire_date_value ''2025-04-03'',
          seasonYear = 2025\<rparr>"
    by (rule burnt_area_elem_parse [OF _ c])
      (simp_all add: or_str_def float_tokens m lons_of_def lats_of_def)
  then show ?thesis
    by (simp add: odd_elem_def example_dates example_feature_def
        exact_forward_feature_def exact_reversed_feature_def)
qed

lemma example_posList:
  "posList_text example_elem = Some ''49.1 -5.2 49.3 -5.0 49.2 -5.1''"
  by (simp add: example_elem_def burnt_area_elem_posList)

lemma odd_posList:
  "posList_text odd_elem = Some ''49.1 -5.2 49.3 -5.0 49.2 -5.1 49.4''"
  by (simp add: odd_elem_def burnt_area_elem_posList)

lemma odd_coords:
  "map_exn py_float (split (strip ''49.1 -5.2 49.3 -5.0 49.2 -5.1 49.4'')) =
     Inr [Fin False 6910210678246605 (- 47), Fin True 5854679515581645 (- 50),
          Fin False 6938358175917670 (- 47), Fin True 5629499534213120 (- 50),
          Fin False 6924284427082138 (- 47), Fin True 5742089524897382 (- 50),
          Fin False 6952431924753203 (- 47)]"
  by (simp add: string_eval float_tokens bind_exn_def)

lemma two_point_posList: "posList_text two_point_elem = Some ''49.1 -5.2 49.3 -5.0''"
  by (simp add: two_point_elem_def burnt_area_elem_posList)

lemma two_point_coords:
  "map_exn py_float (split (strip ''49.1 -5.2 49.3 -5.0'')) =
     Inr [Fin False 6910210678246605 (- 47), Fin True 5854679515581645 (- 50),
          Fin False 6938358175917670 (- 47), Fin True 5629499534213120 (- 50)]"
  by (simp add: string_eval float_tokens bind_exn_def)

lemma two_point_parse: "parse_burnt_area_feature rt two_point_elem yr = None"
proof (cases "parse_burnt_area_feature rt two_point_elem yr")
  case None
  then show ?thesis .
next
  case (Some f)
  from parse_feature_SomeD [OF this] show ?thesis
    by (auto simp: two_point_posList two_point_coords)
qed

lemma bad_area_parse: "parse_burnt_area_feature rt bad_area_elem yr = None"
proof (cases "parse_burnt_area_feature rt bad_area_elem yr")
  case None
  then show ?thesis .
next
  case (Some f)
  from parse_feature_SomeD [OF this] show ?thesis
    by (auto simp: bad_area_elem_def burnt_area_elem_area or_str_def float_tokens)
qed

lemma no_area_texts:
  "posList_text no_area_elem = Some ''49.1 -5.2 49.3 -5.0 49.2 -5.1''"
  "find_elem no_area_elem ba_area_ha = None"
  "find_elem no_area_elem ba_firedate = None"
  "area_text no_area_elem = ''0''"
  "firedate_text no_area_elem = []"
  "get_attr no_area_elem gml_id [] = []"
  by (simp_all add: no_area_elem_def posList_text_def area_text_def firedate_text_def xml_eval)

lemma no_area_parse:
  "parse_burnt_area_feature example_env no_area_elem 2025 =
     Some (example_feature\<lparr>fid := [], areaHectares := Fin False 0 (- 1074), fireDate := None\<rparr>)"
  using parse_feature_some [OF no_area_texts(1) example_coords, of "Fin False 0 (- 1074)"
      example_env 2025]
  by (simp add: no_area_texts float_tokens example_means lons_of_def lats_of_def
      example_feature_def fire_date_value_def)

lemma example_members:
  "findall example_root wfs_member =
     [Element wfs_member [] None [example_elem], Element wfs_member [] None [two_point_elem]]"
  "find_elem (Element wfs_member [] None [example_elem]) (ba_burnt_area 2025) = Some example_elem"
  "find_elem (Element wfs_member [] None [two_point_elem]) (ba_burnt_area 2025)
     = Some two_point_elem"
  by (simp_all add: example_root_def example_elem_def two_point_elem_def burnt_area_elem_def
      xml_eval)

lemma example_response:
  "parse_gml_response example_env ''<wfs:FeatureCollection/>'' 2025 = Inr [example_feature]"
proof -
  have "fromstring example_env ''<wfs:FeatureCollection/>'' = Inr example_root"
    by (simp add: example_env_def)
  then show ?thesis
    by (simp add: parse_gml_response_def example_members example_parse two_point_parse)
qed

subsection \<open>What the body of the \<open>try\<close> block can raise\<close>

lemma py_float_raises: "py_float s = Inl e \<Longrightarrow> e = ValueError"
  by (auto simp: py_float_def Let_def split: if_splits option.splits)

lemma map_exn_py_float_raises: "map_exn py_float ts = Inl e \<Longrightarrow> e = ValueError"
proof (induction ts)
  case Nil
  then show ?case by simp
next
  case (Cons t ts)
  then show ?case
    by (auto simp: bind_exn_def split: sum.splits dest: py_float_raises)
qed

lemma try_raises_ValueError:
  assumes "parse_burnt_area_feature_try rt elem yr = Inl e"
  shows "e = ValueError"
proof (cases "posList_text elem")
  case None
  with assms show ?thesis by (simp add: try_no_posList)
next
  case (Some ptext)
  show ?thesis
  proof (cases "map_exn py_float (split (strip ptext))")
    case (Inl e')
    with assms Some have "e' = e"
      by (simp add: try_posList bind_exn_def)
    with Inl show ?thesis
      using map_exn_py_float_raises by blast
  next
    case (Inr coords)
    show ?thesis
    proof (cases "length (lon_lat_pairs coords) < 3")
      case True
      with assms Some Inr show ?thesis
        by (simp add: try_posList bind_exn_def)
    next
      case False
      then have six: "6 \<le> length coords" by (simp add: length_lon_lat_pairs)
      show ?thesis
      proof (cases "py_float (area_text elem)")
        case (Inl e')
        with assms Some Inr False have "e' = e"
          by (simp add: try_posList bind_exn_def)
        with Inl show ?thesis
          using py_float_raises by blast
      next
        case a: (Inr a)
        from parse_feature_some [OF Some Inr six a, of rt yr] assms
        show ?thesis
          by (auto simp: parse_burnt_area_feature_def)
      qed
    qed
  qed
qed

lemma try_short_posList:
  assumes "posList_text elem = Some ptext"
    and "map_exn py_float (split (strip ptext)) = Inr coords"
    and "length coords < 6"
  shows "parse_burnt_area_feature_try rt elem yr = Inr None"
proof -
  have "length (lon_lat_pairs coords) < 3"
    using assms(3) by (simp add: length_lon_lat_pairs)
  then show ?thesis
    by (simp add: try_posList [OF assms(1)] assms(2) bind_exn_def)
qed

lemma lon_lat_pairs_odd_take:
  "length xs = 2 * n + 1 \<Longrightarrow>
   lon_lat_pairs xs = lon_lat_pairs (take (2 * n) xs) \<and> length (lon_lat_pairs xs) = n"
proof -
  assume len: "length xs = 2 * n + 1"
  then have "odd (length xs)" by simp
  moreover have "butlast xs = take (2 * n) xs"
    using len by (simp add: butlast_conv_take)
  ultimately show ?thesis
    using lon_lat_pairs_odd [of xs] len by (simp add: length_lon_lat_pairs)
qed

lemma example_area:
  "py_float (area_text example_elem) = Inr (Fin False 7036874417766400 (- 49))"
  "py_float (area_text odd_elem) = Inr (Fin False 7036874417766400 (- 49))"
  by (simp_all add: example_elem_def odd_elem_def burnt_area_elem_area or_str_def float_tokens)

subsection \<open>\<open>save_bundle\<close> and the loop of \<open>main\<close>\<close>

lemma perform_ok: "\<not> os_refuses rt ef \<Longrightarrow> perform rt ef log = Inr (log @ [ef])"
  by (simp add: perform_def)

lemma save_bundle_cases:
  "save_bundle rt feats yr output_dir log =
     (if os_refuses rt (WriteJson (bundle_path output_dir yr) (make_bundle rt feats yr))
      then (Inl OSError, log)
      else if os_refuses rt (GetSize (bundle_path output_dir yr))
      then (Inl OSError, log @ [WriteJson (bundle_path output_dir yr) (make_bundle rt feats yr)])
      else (Inr (bundle_path output_dir yr),
            log @ [WriteJson (bundle_path output_dir yr) (make_bundle rt feats yr),
                   GetSize (bundle_path output_dir yr)]))"
  by (simp add: save_bundle_def perform_def Let_def)


text \<open>
  Whatever the loop adds to the operations performed is the bundle of a year whose fetch
  gave features, or the size of its file asked for.
\<close>

lemma year_loop_effects:
  "ef \<in> set (snd (year_loop rt output_dir yrs log)) \<Longrightarrow>
   ef \<in> set log \<or>
   (\<exists>yr feats. yr \<in> set yrs \<and> fetch_burnt_areas rt yr = Inr feats \<and> feats \<noteq> []
      \<and> (ef = WriteJson (bundle_path output_dir yr) (make_bundle rt feats yr)
           \<or> ef = GetSize (bundle_path output_dir yr)))"
proof (induction yrs arbitrary: log)
  case Nil
  then show ?case by simp
next
  case (Cons yr yrs)
  show ?case
  proof (cases "fetch_burnt_areas rt yr")
    case (Inl e)
    with Cons.prems show ?thesis by simp
  next
    case (Inr feats)
    show ?thesis
    proof (cases "feats = []")
      case True
      with Inr Cons.prems have "ef \<in> set (snd (year_loop rt output_dir yrs log))"
        by simp
      from Cons.IH [OF this] show ?thesis by auto
    next
      case False
      show ?thesis
      proof (cases "os_refuses rt (WriteJson (bundle_path output_dir yr) (make_bundle rt feats yr))")
        case True
        with Inr False Cons.prems show ?thesis
          by (simp add: save_bundle_cases)
      next
        case wr: False
        show ?thesis
        proof (cases "os_refuses rt (GetSize (bundle_path output_dir yr))")
          case True
          with wr Inr False Cons.prems show ?thesis
            by (auto simp: save_bundle_cases)
        next
          case sz: False
          with wr Inr False Cons.prems
          have "ef \<in> set (snd (year_loop rt output_dir yrs
                  (log @ [WriteJson (bundle_path output_dir yr) (make_bundle rt feats yr),
                          GetSize (bundle_path output_dir yr)])))"
            by (simp add: save_bundle_cases)
          from Cons.IH [OF this] Inr False show ?thesis by auto
        qed
      qed
    qed
  qed
qed

lemma main_effects:
  assumes "ef \<in> set (snd (main rt))"
  shows "ef = MakeDirs (output_dir_of rt)
     \<or> (\<exists>path. github_output rt = Some path
           \<and> ef = AppendText path (github_lines (now_year rt) (now_year rt - 1)))
     \<or> (\<exists>yr feats. yr \<in> {now_year rt - 1, now_year rt}
           \<and> fetch_burnt_areas rt yr = Inr feats \<and> feats \<noteq> []
           \<and> (ef = WriteJson (bundle_path (output_dir_of rt) yr) (make_bundle rt feats yr)
                \<or> ef = GetSize (bundle_path (output_dir_of rt) yr)))"
proof (cases "os_refuses rt (MakeDirs (output_dir_of rt))")
  case True
  with assms show ?thesis
    by (simp add: main_def perform_def Let_def)
next
  case False
  obtain r log1 where yl: "year_loop rt (output_dir_of rt) [now_year rt - 1, now_year rt]
      [MakeDirs (output_dir_of rt)] = (r, log1)"
    by (cases "year_loop rt (output_dir_of rt) [now_year rt - 1, now_year rt]
      [MakeDirs (output_dir_of rt)]") blast
  have loop: "e \<in> set log1 \<Longrightarrow>
      e = MakeDirs (output_dir_of rt)
      \<or> (\<exists>yr feats. yr \<in> {now_year rt - 1, now_year rt}
           \<and> fetch_burnt_areas rt yr = Inr feats \<and> feats \<noteq> []
           \<and> (e = WriteJson (bundle_path (output_dir_of rt) yr) (make_bundle rt feats yr)
                \<or> e = GetSize (bundle_path (output_dir_of rt) yr)))" for e
    using year_loop_effects [of e rt "output_dir_of rt" "[now_year rt - 1, now_year rt]"
        "[MakeDirs (output_dir_of rt)]"] yl
    by auto
  have "ef \<in> set log1
      \<or> (\<exists>path. github_output rt = Some path
           \<and> ef = AppendText path (github_lines (now_year rt) (now_year rt - 1)))"
    using assms False yl
    by (auto simp: main_def perform_def Let_def split: sum.splits option.splits if_splits)
  with loop show ?thesis by blast
qed

lemma main_status: "fst (main rt) = Inr rc \<Longrightarrow> rc = 0"
  by (auto simp: main_def Let_def split: sum.splits option.splits if_splits prod.splits)

text \<open>\<open>main\<close> when the operating system refuses nothing and both fetches return.\<close>

lemma main_ok:
  assumes "\<forall>ef. \<not> os_refuses rt ef"
    and "fetch_burnt_areas rt (now_year rt - 1) = Inr fp"
    and "fetch_burnt_areas rt (now_year rt) = Inr fc"
  shows "main rt =
     (Inr 0, [MakeDirs (output_dir_of rt)]
             @ bundle_writes rt (output_dir_of rt) fp (now_year rt - 1)
             @ bundle_writes rt (output_dir_of rt) fc (now_year rt)
             @ github_writes rt)"
  using assms
  by (auto simp: main_def Let_def perform_def save_bundle_cases bundle_writes_def
      github_writes_def split: option.splits)

lemma is_write_simps:
  "is_write (WriteJson p b)" "\<not> is_write (MakeDirs p)" "\<not> is_write (GetSize p)"
  "\<not> is_write (AppendText p t)"
  by (simp_all add: is_write_def)

lemma filter_writes:
  "filter is_write (bundle_writes rt d feats yr) =
     (if feats = [] then [] else [WriteJson (bundle_path d yr) (make_bundle rt feats yr)])"
  "filter is_write (github_writes rt) = []"
  by (auto simp: bundle_writes_def github_writes_def is_write_def split: option.splits)

subsection \<open>The example run\<close>

lemma example_fetches:
  "fetch_burnt_areas example_env 2025 = Inr [example_feature]"
  "fetch_burnt_areas example_env 2026 = Inr []"
proof -
  have "requests_get example_env 2025 = Inr ''<wfs:FeatureCollection/>''"
    by (simp add: example_env_def)
  then show "fetch_burnt_areas example_env 2025 = Inr [example_feature]"
    by (simp add: fetch_burnt_areas_def example_response)
  have "requests_get example_env 2026 = Inl RequestException"
    by (simp add: example_env_def)
  then show "fetch_burnt_areas example_env 2026 = Inr []"
    by (simp add: fetch_burnt_areas_def)
qed

lemma example_env_fields:
  "now_year example_env = 2026"
  "now_year example_env - 1 = 2025"
  "\<forall>ef. \<not> os_refuses example_env ef"
  "github_output example_env = Some ''/tmp/github_output''"
  "requests_get example_env 2026 = Inl RequestException"
  "requests_get example_env 2025 = Inr ''<wfs:FeatureCollection/>''"
  "fromstring example_env ''<broken'' = Inl ParseError"
  by (simp_all add: example_env_def)

lemma example_paths:
  "output_dir_of example_env = ''/repo/scripts/../assets/cache''"
  "bundle_path ''/repo/scripts/../assets/cache'' 2025
     = ''/repo/scripts/../assets/cache/burnt_areas_2025_uk.json''"
  by (simp_all add: output_dir_of_def example_env_def path_join_def bundle_path_def
      str_int_def str_nat_numeral digit_char_def)

lemma example_main:
  "main example_env =
     (Inr 0, [MakeDirs ''/repo/scripts/../assets/cache'',
              WriteJson ''/repo/scripts/../assets/cache/burnt_areas_2025_uk.json''
                (make_bundle example_env [example_feature] 2025),
              GetSize ''/repo/scripts/../assets/cache/burnt_areas_2025_uk.json'',
              AppendText ''/tmp/github_output'' (github_lines 2026 2025)])"
  using main_ok [OF example_env_fields(3), of "[example_feature]" "[]"]
  by (simp add: example_env_fields example_fetches example_paths bundle_writes_def
      github_writes_def)

lemma other_env_fields:
  "requests_get offline_env y = Inl RequestException"
  "now_year offline_env = 2026"
  "\<forall>ef. \<not> os_refuses offline_env ef"
  "output_dir_of offline_env = ''/repo/scripts/../assets/cache''"
  "github_writes offline_env = [AppendText ''/tmp/github_output'' (github_lines 2026 2025)]"
  "requests_get broken_env y = Inr ''<broken''"
  "fromstring broken_env ''<broken'' = Inl ParseError"
  by (simp_all add: offline_env_def broken_env_def example_env_def output_dir_of_def
      path_join_def github_writes_def)

subsection \<open>Exact sums\<close>

lemma bit_length_upper: "0 \<le> n \<Longrightarrow> n < 2 ^ nat (bit_length n)"
proof (induction n rule: bit_length.induct)
  case (1 n)
  show ?case
  proof (cases "n = 0")
    case True
    then show ?thesis by (simp add: bit_length_nonpos)
  next
    case False
    with 1(2) have pos: "0 < n" by simp
    then have ih: "n div 2 < 2 ^ nat (bit_length (n div 2))"
      using 1(1) by simp
    have "nat (bit_length n) = Suc (nat (bit_length (n div 2)))"
      using pos bit_length_ge0 [of "n div 2"] by (simp add: bit_length_pos)
    then have "(2::int) ^ nat (bit_length n) = 2 * 2 ^ nat (bit_length (n div 2))"
      by simp
    with ih show ?thesis by linarith
  qed
qed

lemma bit_length_ge1: "0 < n \<Longrightarrow> 1 \<le> bit_length n"
  using bit_length_ge0 [of "n div 2"] by (simp add: bit_length_pos)

lemma bit_length_unique:
  assumes "2 ^ k \<le> n" and "n < 2 ^ Suc k"
  shows "bit_length n = int k + 1"
proof -
  have "0 < (2::int) ^ k" by simp
  with assms(1) have pos: "0 < n" by linarith
  have lo: "(2::int) ^ nat (bit_length n - 1) \<le> n"
    by (rule bit_length_lower [OF pos])
  have hi: "n < 2 ^ nat (bit_length n)"
    using bit_length_upper [of n] pos by simp
  have b1: "1 \<le> bit_length n"
    by (rule bit_length_ge1 [OF pos])
  have "(2::int) ^ k < 2 ^ nat (bit_length n)"
    using assms(1) hi by linarith
  then have "k < nat (bit_length n)"
    by (simp add: power_strict_increasing_iff)
  moreover have "(2::int) ^ nat (bit_length n - 1) < 2 ^ Suc k"
    using lo assms(2) by linarith
  then have "nat (bit_length n - 1) < Suc k"
    by (simp only: power_strict_increasing_iff [of 2] one_less_numeral_iff num.distinct
        semiring_norm)
  ultimately show ?thesis
    using b1 by linarith
qed

lemma bit_length_shift:
  assumes "0 < n"
  shows "bit_length (n * 2 ^ c) = bit_length n + int c"
proof -
  define k where "k = nat (bit_length n - 1)"
  have b1: "1 \<le> bit_length n"
    by (rule bit_length_ge1 [OF assms])
  have lo: "(2::int) ^ k \<le> n"
    unfolding k_def by (rule bit_length_lower [OF assms])
  have "n < 2 ^ nat (bit_length n)"
    using bit_length_upper [of n] assms by simp
  moreover have "nat (bit_length n) = Suc k"
    using b1 by (simp add: k_def)
  ultimately have hi: "n < 2 ^ Suc k" by simp
  have "(2::int) ^ (k + c) \<le> n * 2 ^ c"
    using lo by (simp add: power_add)
  moreover have "n * 2 ^ c < 2 ^ Suc (k + c)"
    using hi by (simp add: power_add)
  ultimately have "bit_length (n * 2 ^ c) = int (k + c) + 1"
    by (rule bit_length_unique)
  then show ?thesis
    using b1 by (simp add: k_def)
qed

lemma bit_length_power: "bit_length (2 ^ j) = int j + 1"
  by (rule bit_length_unique) simp_all

lemma bit_length_le_53: "0 < v \<Longrightarrow> v < 2 ^ 53 \<Longrightarrow> bit_length v \<le> 53"
proof -
  assume pos: "0 < v" and lt: "v < 2 ^ 53"
  have "(2::int) ^ nat (bit_length v - 1) < 2 ^ 53"
    using bit_length_lower [OF pos] lt by linarith
  then have "nat (bit_length v - 1) < 53"
    by (simp only: power_strict_increasing_iff [of 2] one_less_numeral_iff num.distinct
        semiring_norm)
  then show ?thesis by linarith
qed

lemma floor_log2_dyadic:
  assumes "0 < n"
  shows "floor_log2 n (2 ^ j) = bit_length n - 1 - int j"
proof -
  define k where "k = nat (bit_length n - 1)"
  have b1: "1 \<le> bit_length n"
    by (rule bit_length_ge1 [OF assms])
  have bl: "bit_length n = int k + 1"
    using b1 by (simp add: k_def)
  have lo: "(2::int) ^ k \<le> n"
    unfolding k_def by (rule bit_length_lower [OF assms])
  have d: "bit_length n - bit_length (2 ^ j) = int k - int j"
    by (simp add: bl bit_length_power)
  show ?thesis
  proof (cases "j \<le> k")
    case True
    then have e: "nat (int k - int j) = k - j" by simp
    have "(2::int) ^ j * 2 ^ (k - j) = 2 ^ k"
      using True by (simp flip: power_add)
    then have "(2::int) ^ j * 2 ^ (k - j) \<le> n"
      using lo by simp
    then have "floor_log2_from n (2 ^ j) (int k - int j) = int k - int j"
      using True by (simp add: floor_log2_from_def e)
    then show ?thesis
      unfolding floor_log2_def d by (simp add: bl)
  next
    case False
    then have e: "nat (- (int k - int j)) = j - k" "nat (int j - int k) = j - k" by simp_all
    have "(2::int) ^ j = 2 ^ k * 2 ^ (j - k)"
      using False by (simp flip: power_add)
    moreover have "(2::int) ^ k * 2 ^ (j - k) \<le> n * 2 ^ (j - k)"
      using lo by (simp add: mult_right_mono)
    ultimately have "(2::int) ^ j \<le> n * 2 ^ (j - k)"
      by simp
    then have "floor_log2_from n (2 ^ j) (int k - int j) = int k - int j"
      using False by (simp add: floor_log2_from_def e)
    then show ?thesis
      unfolding floor_log2_def d by (simp add: bl)
  qed
qed

lemma nearest_even_scale:
  "0 < k \<Longrightarrow> nearest_even (b * k) q (r * k) = nearest_even b q (r::int)"
proof -
  assume k: "0 < k"
  have "(b * k < 2 * (r * k)) = (b < 2 * r)"
    using k by (metis mult.assoc mult_less_cancel_right_pos)
  moreover have "(2 * (r * k) = b * k) = (2 * r = b)"
    using k by (metis less_numeral_extra(3) mult.assoc mult_cancel_right)
  ultimately show ?thesis
    by (simp only: nearest_even_def)
qed

lemma round_half_even_scale:
  assumes "0 < k"
  shows "round_half_even (a * k) (b * k) = round_half_even a b"
proof -
  have "a * k div (b * k) = a div b"
    using assms by simp
  moreover have "a * k mod (b * k) = (a mod b) * k"
    by (rule mod_mult_mult2)
  ultimately show ?thesis
    by (simp only: round_half_even_def nearest_even_scale [OF assms])
qed

lemma round_half_even_exact: "0 < d \<Longrightarrow> round_half_even (q * d) d = q"
  by (simp add: round_half_even_def nearest_even_def)

lemma round_at_scale:
  assumes "0 < k"
  shows "round_at neg (n * k) (d * k) e = round_at neg n d e"
proof (cases "e < 0")
  case True
  have "n * k * 2 ^ nat (- e) = n * 2 ^ nat (- e) * k"
    by (simp add: mult_ac)
  then show ?thesis
    using True by (simp only: round_at_def round_half_even_scale [OF assms] if_True)
next
  case False
  have "d * k * 2 ^ nat e = d * 2 ^ nat e * k"
    by (simp add: mult_ac)
  then show ?thesis
    using False by (simp only: round_at_def round_half_even_scale [OF assms] if_False)
qed

lemma round_ratio_dyadic_scale:
  assumes "0 < n"
  shows "round_ratio neg (n * 2 ^ c) (2 ^ j * 2 ^ c) = round_ratio neg n (2 ^ j)"
proof -
  have pos: "0 < n * 2 ^ c"
    using assms by simp
  have "floor_log2 (n * 2 ^ c) (2 ^ (j + c)) = bit_length (n * 2 ^ c) - 1 - int (j + c)"
    by (rule floor_log2_dyadic [OF pos])
  also have "\<dots> = bit_length n - 1 - int j"
    by (simp add: bit_length_shift [OF assms])
  also have "\<dots> = floor_log2 n (2 ^ j)"
    by (rule floor_log2_dyadic [OF assms, symmetric])
  finally have fl: "floor_log2 (n * 2 ^ c) (2 ^ j * 2 ^ c) = floor_log2 n (2 ^ j)"
    by (simp add: power_add)
  have k: "0 < (2::int) ^ c" by simp
  show ?thesis
    using assms pos
    by (simp only: round_ratio_def fl round_at_scale [OF k]) simp
qed

lemma round_scaled_shift:
  assumes "0 < v"
  shows "round_scaled neg (v * 2 ^ c) (e - int c) = round_scaled neg v e"
proof -
  consider "0 \<le> e - int c" | "e < 0" | "0 \<le> e" "e - int c < 0"
    by linarith
  then show ?thesis
  proof cases
    case 1
    then have "nat e = c + nat (e - int c)" by linarith
    then have "(2::int) ^ nat e = 2 ^ c * 2 ^ nat (e - int c)"
      by (simp add: power_add)
    then have q: "v * 2 ^ c * 2 ^ nat (e - int c) = v * 2 ^ nat e"
      by simp
    have "0 \<le> e" using 1 by linarith
    with 1 show ?thesis
      by (simp only: round_scaled_def q if_True)
  next
    case 2
    then have "nat (int c - e) = nat (- e) + c" by linarith
    then have p: "(2::int) ^ nat (int c - e) = 2 ^ nat (- e) * 2 ^ c"
      by (simp add: power_add)
    from 2 have "round_scaled neg (v * 2 ^ c) (e - int c)
        = round_ratio neg (v * 2 ^ c) (2 ^ nat (- e) * 2 ^ c)"
      by (simp add: round_scaled_def p)
    also have "\<dots> = round_ratio neg v (2 ^ nat (- e))"
      by (rule round_ratio_dyadic_scale [OF assms])
    also have "\<dots> = round_scaled neg v e"
      using 2 by (simp add: round_scaled_def)
    finally show ?thesis .
  next
    case 3
    define c' where "c' = nat (int c - e)"
    have c: "c = nat e + c'"
      using 3 by (simp add: c'_def)
    have pos: "0 < v * 2 ^ nat e"
      using assms by simp
    have "round_scaled neg (v * 2 ^ c) (e - int c)
        = round_ratio neg (v * 2 ^ c) (2 ^ c')"
      using 3 by (simp add: round_scaled_def c'_def)
    also have "\<dots> = round_ratio neg (v * 2 ^ nat e * 2 ^ c') (2 ^ 0 * 2 ^ c')"
      by (simp add: c power_add mult.assoc)
    also have "\<dots> = round_ratio neg (v * 2 ^ nat e) (2 ^ 0)"
      by (rule round_ratio_dyadic_scale [OF pos])
    also have "\<dots> = round_scaled neg v e"
      using 3 by (simp add: round_scaled_def)
    finally show ?thesis .
  qed
qed

lemma round_signed_shift: "round_signed (w * 2 ^ c) (e - int c) = round_signed w e"
proof (cases "w = 0")
  case True
  then show ?thesis by (simp add: round_signed_def)
next
  case False
  then have pos: "0 < \<bar>w\<bar>" by simp
  have "\<bar>w * 2 ^ c\<bar> = \<bar>w\<bar> * 2 ^ c"
    by (simp add: abs_mult)
  moreover have "(w * 2 ^ c < 0) = (w < 0)"
    by (simp add: mult_less_0_iff)
  ultimately show ?thesis
    using False by (simp add: round_signed_def round_scaled_shift [OF pos])
qed

lemma bit_length_53: "2 ^ 52 \<le> m \<Longrightarrow> m < 2 ^ 53 \<Longrightarrow> bit_length m = 53"
  using bit_length_unique [of 52 m] by simp

lemma bit_length_le_52: "0 < m \<Longrightarrow> m < 2 ^ 52 \<Longrightarrow> bit_length m \<le> 52"
proof -
  assume pos: "0 < m" and lt: "m < 2 ^ 52"
  have "(2::int) ^ nat (bit_length m - 1) < 2 ^ 52"
    using bit_length_lower [OF pos] lt by linarith
  then have "nat (bit_length m - 1) < 52"
    by (simp only: power_strict_increasing_iff [of 2] one_less_numeral_iff num.distinct
        semiring_norm)
  then show ?thesis by linarith
qed

text \<open>Rounding a mantissa and an exponent in normal form gives the same float back.\<close>

lemma round_scaled_normal:
  assumes "normal_form m e"
  shows "round_scaled neg m e = Fin neg m e"
proof -
  have pos: "0 < m" and lt: "m < 2 ^ 53" and lo: "- 1074 \<le> e" and hi: "e \<le> 971"
    using assms by (auto simp: normal_form_def)
  have ex: "max (bit_length m + e - 53) (- 1074) = e"
  proof (cases "2 ^ 52 \<le> m")
    case True
    then show ?thesis using lo lt by (simp add: bit_length_53)
  next
    case False
    then have "m < 2 ^ 52" "e = - 1074"
      using assms by (auto simp: normal_form_def)
    then show ?thesis
      using bit_length_le_52 [OF pos] by simp
  qed
  have pk: "pack_float neg m e = Fin neg m e"
    using lt hi by (simp add: pack_float_def)
  show ?thesis
  proof (cases "0 \<le> e")
    case True
    have mp: "0 < m * 2 ^ nat e" using pos by simp
    have "floor_log2 (m * 2 ^ nat e) (2 ^ 0) = bit_length (m * 2 ^ nat e) - 1 - int 0"
      by (rule floor_log2_dyadic [OF mp])
    then have fl: "floor_log2 (m * 2 ^ nat e) 1 = bit_length m + e - 1"
      using True by (simp add: bit_length_shift [OF pos])
    have "max (floor_log2 (m * 2 ^ nat e) 1 - 52) (- 1074) = e"
      using ex by (simp add: fl)
    moreover have "round_at neg (m * 2 ^ nat e) 1 e = Fin neg m e"
      using True round_half_even_exact [of "2 ^ nat e" m] by (simp add: round_at_def pk)
    ultimately show ?thesis
      using True pos by (simp add: round_scaled_def round_ratio_def)
  next
    case False
    have "floor_log2 m (2 ^ nat (- e)) = bit_length m - 1 - int (nat (- e))"
      by (rule floor_log2_dyadic [OF pos])
    then have fl: "floor_log2 m (2 ^ nat (- e)) = bit_length m + e - 1"
      using False by simp
    have "max (floor_log2 m (2 ^ nat (- e)) - 52) (- 1074) = e"
      using ex by (simp add: fl)
    moreover have "round_at neg m (2 ^ nat (- e)) e = Fin neg m e"
      using False round_half_even_exact [of "2 ^ nat (- e)" m] by (simp add: round_at_def pk)
    ultimately show ?thesis
      using False pos by (simp add: round_scaled_def round_ratio_def)
  qed
qed

lemma signed_abs: "signed (a < 0) \<bar>a\<bar> = a"
  by (simp add: signed_def)

lemma signed_props:
  "0 < m \<Longrightarrow> (signed s m < 0) = s"
  "0 \<le> m \<Longrightarrow> \<bar>signed s m\<bar> = m"
  "0 < m \<Longrightarrow> signed s m \<noteq> 0"
  "signed s (m * k) = signed s m * k"
  by (simp_all add: signed_def)

text \<open>A float on the grid is the rounding of its own multiple of \<open>2\<^sup>g\<close>.\<close>

lemma round_signed_units:
  assumes "on_grid g x"
  shows "round_signed (grid_units g x) g = x"
proof (cases x)
  case (Fin s m e)
  show ?thesis
  proof (cases "m = 0")
    case True
    with assms Fin show ?thesis
      by (simp add: round_signed_def signed_def)
  next
    case False
    with assms Fin have nf: "normal_form m e"
      and dv: "g \<le> e \<or> m mod 2 ^ nat (g - e) = 0"
      by simp_all
    from nf have pos: "0 < m" by (auto simp: normal_form_def)
    show ?thesis
    proof (cases "g \<le> e")
      case True
      define c where "c = nat (e - g)"
      have g: "g = e - int c" using True by (simp add: c_def)
      have mp: "0 < m * 2 ^ c" using pos by simp
      have u: "grid_units g x = signed s (m * 2 ^ c)"
        using True Fin by (simp add: c_def)
      have "round_signed (grid_units g x) g = round_scaled s (m * 2 ^ c) g"
        using mp by (simp add: u round_signed_def signed_props(1,2,3))
      also have "\<dots> = round_scaled s (m * 2 ^ c) (e - int c)"
        using g by simp
      also have "\<dots> = round_scaled s m e"
        by (rule round_scaled_shift [OF pos])
      finally show ?thesis
        using Fin by (simp add: round_scaled_normal [OF nf])
    next
      case False
      define c where "c = nat (g - e)"
      define q where "q = m div 2 ^ c"
      have m: "m = q * 2 ^ c"
        using dv False by (auto simp: q_def c_def)
      have qp: "0 < q"
        using pos m by (metis mult_pos_pos not_less zero_less_mult_pos2 zero_less_numeral
            zero_less_power)
      have e: "e = g - int c" using False by (simp add: c_def)
      have u: "grid_units g x = signed s q"
        using False Fin by (simp add: c_def q_def)
      have "round_signed (grid_units g x) g = round_scaled s q g"
        using qp by (simp add: u round_signed_def signed_props(1,2,3))
      also have "\<dots> = round_scaled s (q * 2 ^ c) (g - int c)"
        by (rule round_scaled_shift [OF qp, symmetric])
      finally show ?thesis
        using Fin by (simp add: round_scaled_normal [OF nf] m [symmetric] e [symmetric])
    qed
  qed
next
  case (Inf s)
  with assms show ?thesis by simp
next
  case NaN
  with assms show ?thesis by simp
qed

text \<open>
  The rounding of a multiple of \<open>2\<^sup>g\<close> below \<open>2\<^sup>5\<^sup>3\<close> in absolute value is exact: it is on the
  grid, and it is that multiple.
\<close>

lemma round_signed_on_grid:
  assumes "\<bar>a\<bar> < 2 ^ 53" and "- 1074 \<le> g" and "g \<le> 971"
  shows "on_grid g (round_signed a g) \<and> grid_units g (round_signed a g) = a"
proof (cases "a = 0")
  case True
  then show ?thesis
    by (simp add: round_signed_def signed_def)
next
  case False
  define v where "v = \<bar>a\<bar>"
  have pos: "0 < v" and lt: "v < 2 ^ 53"
    using False assms(1) by (simp_all add: v_def)
  define E where "E = max (bit_length v + g - 53) (- 1074)"
  have b53: "bit_length v \<le> 53"
    by (rule bit_length_le_53 [OF pos lt])
  have Eg: "E \<le> g" and E0: "- 1074 \<le> E"
    using b53 assms(2) by (simp_all add: E_def)
  define c where "c = nat (g - E)"
  define M where "M = v * 2 ^ c"
  have Mp: "0 < M" using pos by (simp add: M_def)
  have bM: "bit_length M = bit_length v + int c"
    unfolding M_def by (rule bit_length_shift [OF pos])
  have nf: "normal_form M E"
  proof (cases "- 1074 \<le> bit_length v + g - 53")
    case True
    then have "E = bit_length v + g - 53" by (simp add: E_def)
    then have "bit_length M = 53"
      using bM Eg by (simp add: c_def)
    then have "2 ^ 52 \<le> M" "M < 2 ^ 53"
      using bit_length_lower [OF Mp] bit_length_upper [of M] Mp by simp_all
    then show ?thesis
      using E0 Eg assms(3) by (simp add: normal_form_def)
  next
    case False
    then have "E = - 1074" by (simp add: E_def)
    then have "bit_length M \<le> 52"
      using bM False assms(2) by (simp add: c_def)
    then have "nat (bit_length M) \<le> 52" by simp
    then have "(2::int) ^ nat (bit_length M) \<le> 2 ^ 52"
      by (rule power_increasing) simp
    then have "M < 2 ^ 52"
      using bit_length_upper [of M] Mp by linarith
    then show ?thesis
      using Mp \<open>E = - 1074\<close> by (simp add: normal_form_def)
  qed
  have Ec: "E = g - int c" using Eg by (simp add: c_def)
  have "round_scaled (a < 0) v g = round_scaled (a < 0) (v * 2 ^ c) (g - int c)"
    by (rule round_scaled_shift [OF pos, symmetric])
  also have "\<dots> = Fin (a < 0) M E"
    using round_scaled_normal [OF nf] by (simp add: M_def Ec)
  finally have r: "round_signed a g = Fin (a < 0) M E"
    using False by (simp add: round_signed_def v_def)
  have dv: "M mod 2 ^ nat (g - E) = 0" and q: "M div 2 ^ nat (g - E) = v"
    by (simp_all add: M_def c_def)
  have "g \<le> E \<Longrightarrow> M * 2 ^ nat (E - g) = v"
    using Eg by (simp add: M_def c_def)
  then have "grid_units g (Fin (a < 0) M E) = signed (a < 0) v"
    using q by simp
  then have u: "grid_units g (Fin (a < 0) M E) = a"
    by (simp add: v_def signed_abs)
  have "on_grid g (Fin (a < 0) M E)"
    using Mp nf dv by simp
  with u r show ?thesis by simp
qed

lemma units_scaled:
  assumes "on_grid g (Fin s m e)" and "lo \<le> e" and "lo \<le> g"
  shows "signed s m * 2 ^ nat (e - lo) = grid_units g (Fin s m e) * 2 ^ nat (g - lo)"
proof (cases "m = 0")
  case True
  then show ?thesis by (simp add: signed_def)
next
  case False
  with assms(1) have dv: "g \<le> e \<or> m mod 2 ^ nat (g - e) = 0" by simp
  show ?thesis
  proof (cases "g \<le> e")
    case True
    then have "nat (e - lo) = nat (e - g) + nat (g - lo)"
      using assms(3) by linarith
    then have "(2::int) ^ nat (e - lo) = 2 ^ nat (e - g) * 2 ^ nat (g - lo)"
      by (simp add: power_add)
    then show ?thesis
      using True by (simp add: signed_props(4))
  next
    case False
    define q where "q = m div 2 ^ nat (g - e)"
    have m: "m = q * 2 ^ nat (g - e)"
      using dv False by (auto simp: q_def)
    have "nat (g - lo) = nat (g - e) + nat (e - lo)"
      using False assms(2) by linarith
    then have p: "(2::int) ^ nat (g - lo) = 2 ^ nat (g - e) * 2 ^ nat (e - lo)"
      by (simp add: power_add)
    have "signed s m * 2 ^ nat (e - lo) = signed s q * 2 ^ nat (g - e) * 2 ^ nat (e - lo)"
      by (subst m) (simp add: signed_props(4))
    also have "\<dots> = signed s q * 2 ^ nat (g - lo)"
      by (simp add: p)
    finally show ?thesis
      using False by (simp add: q_def)
  qed
qed

text \<open>Adding two floats on the grid rounds the exact sum of their multiples.\<close>

lemma fadd_on_grid:
  assumes "on_grid g x" and "on_grid g y"
  shows "fadd x y = round_signed (grid_units g x + grid_units g y) g"
proof -
  obtain s1 m1 e1 where x: "x = Fin s1 m1 e1"
    using assms(1) by (cases x) simp_all
  obtain s2 m2 e2 where y: "y = Fin s2 m2 e2"
    using assms(2) by (cases y) simp_all
  have zero: "grid_units g (Fin s 0 e) = 0" for s e
    by (simp add: signed_def)
  consider "m1 = 0" "m2 = 0" | "m1 = 0" "m2 \<noteq> 0" | "m1 \<noteq> 0" "m2 = 0" | "m1 \<noteq> 0" "m2 \<noteq> 0"
    by blast
  then show ?thesis
  proof cases
    case 1
    with assms x y show ?thesis
      by (simp add: round_signed_def signed_def)
  next
    case 2
    then have "fadd x y = y" by (simp add: x y)
    moreover have "grid_units g x = 0" using 2 x zero by simp
    ultimately show ?thesis
      using round_signed_units [OF assms(2)] by simp
  next
    case 3
    then have "fadd x y = x" by (simp add: x y)
    moreover have "grid_units g y = 0" using 3 y zero by simp
    ultimately show ?thesis
      using round_signed_units [OF assms(1)] by simp
  next
    case 4
    define em where "em = min e1 e2"
    define lo where "lo = min em g"
    define V where "V = signed s1 m1 * 2 ^ nat (e1 - em) + signed s2 m2 * 2 ^ nat (e2 - em)"
    define W where "W = grid_units g x + grid_units g y"
    define c1 where "c1 = nat (em - lo)"
    define c2 where "c2 = nat (g - lo)"
    have f: "fadd x y = round_signed V em"
      using 4 by (simp add: x y V_def em_def)
    have le: "lo \<le> e1" "lo \<le> e2" "lo \<le> g" "lo \<le> em" "em \<le> e1" "em \<le> e2"
      unfolding lo_def em_def by linarith+
    have p1: "(2::int) ^ nat (e1 - lo) = 2 ^ nat (e1 - em) * 2 ^ c1"
    proof -
      have "nat (e1 - lo) = nat (e1 - em) + c1"
        using le by (simp add: c1_def)
      then show ?thesis by (simp add: power_add)
    qed
    have p2: "(2::int) ^ nat (e2 - lo) = 2 ^ nat (e2 - em) * 2 ^ c1"
    proof -
      have "nat (e2 - lo) = nat (e2 - em) + c1"
        using le by (simp add: c1_def)
      then show ?thesis by (simp add: power_add)
    qed
    have "V * 2 ^ c1 = signed s1 m1 * 2 ^ nat (e1 - lo) + signed s2 m2 * 2 ^ nat (e2 - lo)"
      by (simp add: V_def p1 p2 distrib_right mult.assoc)
    also have "\<dots> = grid_units g x * 2 ^ c2 + grid_units g y * 2 ^ c2"
      using units_scaled [OF assms(1) [unfolded x] le(1) le(3)]
        units_scaled [OF assms(2) [unfolded y] le(2) le(3)]
      by (simp add: x y c2_def)
    also have "\<dots> = W * 2 ^ c2"
      by (simp add: W_def distrib_right)
    finally have eq: "V * 2 ^ c1 = W * 2 ^ c2" .
    have "round_signed V em = round_signed (V * 2 ^ c1) (em - int c1)"
      by (rule round_signed_shift [symmetric])
    also have "em - int c1 = lo"
      using le by (simp add: c1_def)
    also have "round_signed (V * 2 ^ c1) lo = round_signed (W * 2 ^ c2) (g - int c2)"
      using le by (simp add: eq c2_def)
    also have "\<dots> = round_signed W g"
      by (rule round_signed_shift)
    finally show ?thesis
      by (simp add: f W_def)
  qed
qed

lemma zero_float_grid: "zero_float = round_signed 0 g"
  by (simp add: zero_float_def round_signed_def)

lemma fadd_exact:
  assumes "\<bar>a\<bar> < 2 ^ 53" and "- 1074 \<le> g" and "g \<le> 971" and "on_grid g x"
  shows "fadd (round_signed a g) x = round_signed (a + grid_units g x) g"
  using fadd_on_grid [OF round_signed_on_grid [OF assms(1,2,3), THEN conjunct1] assms(4)]
    round_signed_on_grid [OF assms(1,2,3), THEN conjunct2]
  by simp

lemma foldl_fadd_exact:
  assumes "- 1074 \<le> g" and "g \<le> 971"
  shows "list_all (on_grid g) xs \<Longrightarrow>
     \<bar>a\<bar> + sum_list (map (\<lambda>x. \<bar>grid_units g x\<bar>) xs) < 2 ^ 53 \<Longrightarrow>
     foldl fadd (round_signed a g) xs = round_signed (a + sum_list (map (grid_units g) xs)) g"
proof (induction xs arbitrary: a)
  case Nil
  then show ?case by simp
next
  case (Cons x xs)
  have nn: "0 \<le> sum_list (map (\<lambda>x. \<bar>grid_units g x\<bar>) xs)"
    by (rule sum_list_nonneg) auto
  have a: "\<bar>a\<bar> < 2 ^ 53"
    using Cons.prems(2) nn by simp
  have x: "on_grid g x" and xs: "list_all (on_grid g) xs"
    using Cons.prems(1) by simp_all
  have step: "fadd (round_signed a g) x = round_signed (a + grid_units g x) g"
    by (rule fadd_exact [OF a assms x])
  have "\<bar>a + grid_units g x\<bar> + sum_list (map (\<lambda>x. \<bar>grid_units g x\<bar>) xs) < 2 ^ 53"
    using Cons.prems(2) by simp
  from Cons.IH [OF xs this] show ?case
    by (simp add: step add.assoc)
qed

text \<open>On an exact list \<open>sum\<close>, adding in list order, returns the float of the exact sum.\<close>

lemma sum_sequential_exact:
  assumes "exact_on_grid g xs"
  shows "sum_sequential xs = round_signed (sum_list (map (grid_units g) xs)) g"
proof -
  have g: "- 1074 \<le> g" "g \<le> 971" and xs: "list_all (on_grid g) xs"
    and b: "\<bar>0\<bar> + sum_list (map (\<lambda>x. \<bar>grid_units g x\<bar>) xs) < 2 ^ 53"
    using assms by (simp_all add: exact_on_grid_def)
  from foldl_fadd_exact [OF g xs b] show ?thesis
    by (simp add: sum_sequential_def zero_float_grid [of g])
qed

lemma fsub_on_grid:
  assumes "on_grid g x" and "on_grid g y"
  shows "fsub x y = round_signed (grid_units g x - grid_units g y) g"
proof -
  obtain s1 m1 e1 where x: "x = Fin s1 m1 e1"
    using assms(1) by (cases x) simp_all
  obtain s2 m2 e2 where y: "y = Fin s2 m2 e2"
    using assms(2) by (cases y) simp_all
  show ?thesis
  proof (cases "m2 = 0")
    case True
    then have uy: "grid_units g y = 0" by (simp add: y signed_def)
    show ?thesis
    proof (cases "m1 = 0")
      case m1: True
      with True assms x y show ?thesis
        by (simp add: fsub_def round_signed_def signed_def)
    next
      case False
      with True have "fsub x y = x" by (simp add: fsub_def x y)
      then show ?thesis
        using round_signed_units [OF assms(1)] uy by simp
    qed
  next
    case False
    with assms(2) have "on_grid g (fneg y)"
      by (simp add: y)
    moreover have "grid_units g (fneg y) = - grid_units g y"
      by (simp add: y signed_def)
    ultimately show ?thesis
      using fadd_on_grid [OF assms(1), of "fneg y"] by (simp add: fsub_def)
  qed
qed

lemma compensated_step_exact:
  assumes "- 1074 \<le> g" and "g \<le> 971" and "on_grid g x"
    and "\<bar>a\<bar> + \<bar>grid_units g x\<bar> < 2 ^ 53"
  shows "compensated_step (round_signed a g, round_signed 0 g) x
     = (round_signed (a + grid_units g x) g, round_signed 0 g)"
proof -
  define u where "u = grid_units g x"
  have bounds: "\<bar>a\<bar> < 2 ^ 53" "\<bar>a + u\<bar> < 2 ^ 53" "\<bar>- u\<bar> < 2 ^ 53" "\<bar>- a\<bar> < 2 ^ 53"
    "\<bar>0::int\<bar> < 2 ^ 53"
    using assms(4) by (simp_all add: u_def)
  note og = round_signed_on_grid [OF _ assms(1,2)]
  have t: "fadd (round_signed a g) x = round_signed (a + u) g"
    unfolding u_def by (rule fadd_exact [OF bounds(1) assms(1,2,3)])
  have d1: "fsub (round_signed a g) (round_signed (a + u) g) = round_signed (- u) g"
    using fsub_on_grid [OF og [OF bounds(1), THEN conjunct1] og [OF bounds(2), THEN conjunct1]]
      og [OF bounds(1), THEN conjunct2] og [OF bounds(2), THEN conjunct2]
    by simp
  have d2: "fsub x (round_signed (a + u) g) = round_signed (- a) g"
    using fsub_on_grid [OF assms(3) og [OF bounds(2), THEN conjunct1]]
      og [OF bounds(2), THEN conjunct2]
    by (simp add: u_def)
  have r1: "fadd (round_signed (- u) g) x = round_signed 0 g"
    using fadd_exact [OF bounds(3) assms(1,2,3)] by (simp add: u_def)
  have r2: "fadd (round_signed (- a) g) (round_signed a g) = round_signed 0 g"
    using fadd_exact [OF bounds(4) assms(1,2) og [OF bounds(1), THEN conjunct1]]
      og [OF bounds(1), THEN conjunct2]
    by simp
  have z: "fadd (round_signed 0 g) (round_signed 0 g) = round_signed 0 g"
    by (simp add: round_signed_def)
  show ?thesis
    by (simp add: t d1 d2 r1 r2 z u_def [symmetric])
qed

lemma foldl_compensated_exact:
  assumes "- 1074 \<le> g" and "g \<le> 971"
  shows "list_all (on_grid g) xs \<Longrightarrow>
     \<bar>a\<bar> + sum_list (map (\<lambda>x. \<bar>grid_units g x\<bar>) xs) < 2 ^ 53 \<Longrightarrow>
     foldl compensated_step (round_signed a g, round_signed 0 g) xs
       = (round_signed (a + sum_list (map (grid_units g) xs)) g, round_signed 0 g)"
proof (induction xs arbitrary: a)
  case Nil
  then show ?case by simp
next
  case (Cons x xs)
  have nn: "0 \<le> sum_list (map (\<lambda>x. \<bar>grid_units g x\<bar>) xs)"
    by (rule sum_list_nonneg) auto
  have x: "on_grid g x" and xs: "list_all (on_grid g) xs"
    using Cons.prems(1) by simp_all
  have "\<bar>a\<bar> + \<bar>grid_units g x\<bar> < 2 ^ 53"
    using Cons.prems(2) nn by simp
  note step = compensated_step_exact [OF assms x this]
  have "\<bar>a + grid_units g x\<bar> + sum_list (map (\<lambda>x. \<bar>grid_units g x\<bar>) xs) < 2 ^ 53"
    using Cons.prems(2) by simp
  from Cons.IH [OF xs this] show ?case
    by (simp add: step add.assoc del: compensated_step.simps)
qed

text \<open>So does the compensated \<open>sum\<close>: its compensation term stays zero.\<close>

lemma sum_compensated_exact:
  assumes "exact_on_grid g xs"
  shows "sum_compensated xs = round_signed (sum_list (map (grid_units g) xs)) g"
proof (cases xs)
  case Nil
  then show ?thesis by (simp add: zero_float_grid [of g])
next
  case (Cons x rest)
  have g: "- 1074 \<le> g" "g \<le> 971" and x: "on_grid g x" and rest: "list_all (on_grid g) rest"
    and b: "\<bar>grid_units g x\<bar> + sum_list (map (\<lambda>x. \<bar>grid_units g x\<bar>) rest) < 2 ^ 53"
    using assms Cons by (simp_all add: exact_on_grid_def)
  have nn: "0 \<le> sum_list (map (\<lambda>x. \<bar>grid_units g x\<bar>) rest)"
    by (rule sum_list_nonneg) auto
  have first: "fadd (round_signed 0 g) x = round_signed (grid_units g x) g"
    using fadd_exact [OF _ g x, of 0] by simp
  have z0: "round_signed 0 g = Fin False 0 (- 1074)"
    by (simp add: round_signed_def)
  have run: "foldl compensated_step (round_signed (grid_units g x) g, round_signed 0 g) rest
      = (round_signed (grid_units g x + sum_list (map (grid_units g) rest)) g, round_signed 0 g)"
    by (rule foldl_compensated_exact [OF g rest b])
  have "sum_compensated xs
      = add_compensation (foldl compensated_step (fadd zero_float x, zero_float) rest)"
    by (simp add: Cons)
  also have "\<dots> = add_compensation
      (foldl compensated_step (round_signed (grid_units g x) g, round_signed 0 g) rest)"
    by (simp only: zero_float_grid [of g] first)
  also have "\<dots> = add_compensation
      (round_signed (grid_units g x + sum_list (map (grid_units g) rest)) g, round_signed 0 g)"
    by (simp only: run)
  also have "\<dots> = add_compensation
      (round_signed (grid_units g x + sum_list (map (grid_units g) rest)) g, Fin False 0 (- 1074))"
    by (simp only: z0)
  also have "\<dots> = round_signed (grid_units g x + sum_list (map (grid_units g) rest)) g"
    by simp
  finally show ?thesis
    by (simp add: Cons)
qed

lemma sum_list_mset_cong:
  fixes f :: "'a \<Rightarrow> int"
  shows "mset xs = mset ys \<Longrightarrow> sum_list (map f xs) = sum_list (map f ys)"
proof -
  assume "mset xs = mset ys"
  then have "mset (map f xs) = mset (map f ys)" by simp
  then have "sum_mset (mset (map f xs)) = sum_mset (mset (map f ys))" by simp
  then show ?thesis by (simp only: sum_mset_sum_list)
qed

lemma exact_on_grid_mset:
  assumes "mset xs = mset ys"
  shows "exact_on_grid g xs = exact_on_grid g ys"
    and "sum_list (map (grid_units g) xs) = sum_list (map (grid_units g) ys)"
proof -
  have "set xs = set ys"
    using assms by (rule mset_eq_setD)
  then have "list_all (on_grid g) xs = list_all (on_grid g) ys"
    by (simp add: list_all_iff)
  moreover have "sum_list (map (\<lambda>x. \<bar>grid_units g x\<bar>) xs)
      = sum_list (map (\<lambda>x. \<bar>grid_units g x\<bar>) ys)"
    using assms by (rule sum_list_mset_cong)
  ultimately show "exact_on_grid g xs = exact_on_grid g ys"
    by (simp add: exact_on_grid_def)
  show "sum_list (map (grid_units g) xs) = sum_list (map (grid_units g) ys)"
    using assms by (rule sum_list_mset_cong)
qed

text \<open>
  On an exact list both versions of \<open>sum\<close> return the float of the exact sum, so their
  result does not depend on the order of the elements.
\<close>

lemma builtin_sum_exact:
  assumes "builtin_sum rt = sum_sequential \<or> builtin_sum rt = sum_compensated"
    and "exact_on_grid g xs"
  shows "builtin_sum rt xs = round_signed (sum_list (map (grid_units g) xs)) g"
  using assms sum_sequential_exact [of g xs] sum_compensated_exact [of g xs] by auto

lemma builtin_sum_reordered:
  assumes "builtin_sum rt = sum_sequential \<or> builtin_sum rt = sum_compensated"
    and "exact_on_grid g xs" and "mset ys = mset xs"
  shows "builtin_sum rt ys = builtin_sum rt xs"
proof -
  have "exact_on_grid g ys"
    using exact_on_grid_mset(1) [OF assms(3), of g] assms(2) by simp
  then show ?thesis
    using builtin_sum_exact [OF assms(1), of g ys] builtin_sum_exact [OF assms(1,2)]
      exact_on_grid_mset(2) [OF assms(3), of g]
    by simp
qed

text \<open>\<open>floor_log2 n d\<close> is the integer \<open>k\<close> with \<open>2\<^sup>k \<le> n / d < 2\<^sup>k\<^sup>+\<^sup>1\<close>.\<close>

lemma floor_log2_bounds:
  assumes "0 < n" and "0 < d"
  shows "if 0 \<le> floor_log2 n d
         then d * 2 ^ nat (floor_log2 n d) \<le> n \<and> n < d * 2 ^ nat (floor_log2 n d + 1)
         else d \<le> n * 2 ^ nat (- floor_log2 n d) \<and> n * 2 ^ nat (- floor_log2 n d - 1) < d"
proof -
  define a where "a = nat (bit_length n - 1)"
  define b where "b = nat (bit_length d - 1)"
  have bn: "bit_length n = int a + 1"
    using bit_length_ge1 [OF assms(1)] by (simp add: a_def)
  have bd: "bit_length d = int b + 1"
    using bit_length_ge1 [OF assms(2)] by (simp add: b_def)
  have nlo: "2 ^ a \<le> n"
    unfolding a_def by (rule bit_length_lower [OF assms(1)])
  have dlo: "2 ^ b \<le> d"
    unfolding b_def by (rule bit_length_lower [OF assms(2)])
  have nhi: "n < 2 ^ Suc a"
    using bit_length_upper [of n] assms(1) by (simp add: bn nat_add_distrib)
  have dhi: "d < 2 ^ Suc b"
    using bit_length_upper [of d] assms(2) by (simp add: bd nat_add_distrib)
  have fl: "floor_log2 n d = floor_log2_from n d (int a - int b)"
    by (simp add: floor_log2_def bn bd)
  show ?thesis
  proof (cases "b \<le> a")
    case True
    define c where "c = a - b"
    have a: "a = b + c" using True by (simp add: c_def)
    have k0: "int a - int b = int c" using True by (simp add: c_def)
    show ?thesis
    proof (cases "d * 2 ^ c \<le> n")
      case t: True
      then have k: "floor_log2 n d = int c"
        by (simp add: fl k0 floor_log2_from_def)
      have "n < 2 ^ b * 2 ^ Suc c"
        using nhi by (simp add: a power_add)
      also have "\<dots> \<le> d * 2 ^ Suc c"
        using dlo by (simp add: mult_right_mono)
      finally have "n < d * 2 ^ Suc c" .
      then show ?thesis
        using t by (simp add: k nat_add_distrib)
    next
      case f: False
      then have k: "floor_log2 n d = int c - 1"
        by (simp add: fl k0 floor_log2_from_def)
      show ?thesis
      proof (cases c)
        case 0
        have "d < 2 * 2 ^ a"
          using dhi 0 by (simp add: a)
        then have "d \<le> n * 2"
          using nlo by linarith
        then show ?thesis
          using f 0 by (simp add: k)
      next
        case (Suc c')
        have "d * 2 ^ c' < 2 ^ Suc b * 2 ^ c'"
          using dhi by (simp add: mult_strict_right_mono)
        also have "\<dots> = 2 ^ a"
          by (simp add: a Suc power_add)
        finally have "d * 2 ^ c' \<le> n"
          using nlo by linarith
        then show ?thesis
          using f Suc by (simp add: k nat_add_distrib)
      qed
    qed
  next
    case False
    define c where "c = b - a"
    have b: "b = a + c" and c1: "1 \<le> c" using False by (simp_all add: c_def)
    have k0: "int a - int b = - int c" using False by (simp add: c_def)
    have neg: "\<not> 0 \<le> - int c" using c1 by simp
    show ?thesis
    proof (cases "d \<le> n * 2 ^ c")
      case t: True
      then have k: "floor_log2 n d = - int c"
        using neg by (simp add: fl k0 floor_log2_from_def)
      obtain c' where c': "c = Suc c'"
        using c1 by (cases c) simp_all
      have "n * 2 ^ c' < 2 ^ Suc a * 2 ^ c'"
        using nhi by (simp add: mult_strict_right_mono)
      also have "\<dots> = 2 ^ b"
        by (simp add: b c' power_add)
      finally have "n * 2 ^ c' < d"
        using dlo by linarith
      moreover have "nat (int c' + 1) = Suc c'" "nat (1 + int c') = Suc c'" "nat (int c') = c'"
        by simp_all
      ultimately show ?thesis
        using t neg by (simp add: k c')
    next
      case f: False
      then have k: "floor_log2 n d = - int c - 1"
        using neg by (simp add: fl k0 floor_log2_from_def)
      have "d < 2 ^ a * 2 ^ Suc c"
        using dhi by (simp add: b power_add)
      also have "\<dots> \<le> n * 2 ^ Suc c"
        using nlo by (simp add: mult_right_mono)
      finally have "d \<le> n * 2 ^ Suc c" by simp
      moreover have "nat (1 + int c) = Suc c" "nat (int c + 1) = Suc c" by simp_all
      ultimately show ?thesis
        using f by (simp add: k)
    qed
  qed
qed

lemma round_half_even_bounds:
  assumes "0 < den" and "lo * den \<le> num" and "num < hi * den"
  shows "lo \<le> round_half_even num den" and "round_half_even num den \<le> hi"
proof -
  define q where "q = num div den"
  define r where "r = num mod den"
  have m: "num = q * den + r"
    by (simp add: q_def r_def)
  have r: "0 \<le> r" "r < den"
    using assms(1) by (simp_all add: r_def)
  have "lo * den < q * den + den"
    using assms(2) m r by linarith
  then have "lo * den < (q + 1) * den"
    by (simp add: distrib_right)
  then have l: "lo \<le> q"
    using assms(1) by (simp add: mult_less_cancel_right)
  have "q * den < hi * den"
    using assms(3) m r by linarith
  then have h: "q < hi"
    using assms(1) by (simp add: mult_less_cancel_right)
  show "lo \<le> round_half_even num den"
    using l by (simp add: round_half_even_def nearest_even_def q_def)
  show "round_half_even num den \<le> hi"
    using h by (simp add: round_half_even_def nearest_even_def q_def)
qed

lemma pack_float_well_formed:
  assumes "0 \<le> m" and "- 1074 \<le> e"
    and "(2 ^ 52 \<le> m \<and> m \<le> 2 ^ 53) \<or> (e = - 1074 \<and> m \<le> 2 ^ 52)"
  shows "well_formed (pack_float neg m e)"
  using assms by (auto simp: pack_float_def normal_form_def)

text \<open>Rounding produces the normal form of the format, a zero or an infinity.\<close>

lemma round_ratio_well_formed:
  assumes "0 < n" and "0 < d"
  shows "well_formed (round_ratio neg n d)"
proof -
  define k where "k = floor_log2 n d"
  define e where "e = max (k - 52) (- 1074)"
  have e0: "- 1074 \<le> e" by (simp add: e_def)
  note fb = floor_log2_bounds [OF assms, folded k_def]
  have rr: "round_ratio neg n d = round_at neg n d e"
    using assms(1) by (simp add: round_ratio_def e_def k_def)
  have p2: "(0::int) < 2 ^ j" for j by simp
  show ?thesis
  proof (cases "- 1074 \<le> k - 52")
    case True
    then have ek: "e = k - 52" by (simp add: e_def)
    show ?thesis
    proof (cases "0 \<le> e")
      case e_pos: True
      define j where "j = nat e"
      have k0: "0 \<le> k" using e_pos ek by simp
      have lo: "d * 2 ^ nat k \<le> n" and hi: "n < d * 2 ^ nat (k + 1)"
        using fb k0 by simp_all
      have j1: "nat k = 52 + j" and j2: "nat (k + 1) = 53 + j"
        using e_pos ek by (simp_all add: j_def)
      have pk: "(2::int) ^ nat k = 2 ^ 52 * 2 ^ j" "(2::int) ^ nat (k + 1) = 2 ^ 53 * 2 ^ j"
        by (subst j1, simp only: power_add) (subst j2, simp only: power_add)
      have den: "0 < d * 2 ^ j" using assms(2) by simp
      have b1: "2 ^ 52 * (d * 2 ^ j) \<le> n"
        using lo by (simp only: pk mult_ac)
      have b2: "n < 2 ^ 53 * (d * 2 ^ j)"
        using hi by (simp only: pk mult_ac)
      have b0: "0 * (d * 2 ^ j) \<le> n" using assms(1) by simp
      have "well_formed (pack_float neg (round_half_even n (d * 2 ^ j)) e)"
        using round_half_even_bounds [OF den b1 b2] round_half_even_bounds(1) [OF den b0 b2] e0
        by (intro pack_float_well_formed) simp_all
      then show ?thesis
        using e_pos by (simp add: rr round_at_def j_def)
    next
      case e_neg: False
      define j where "j = nat (- e)"
      have den: "0 < d" by (rule assms(2))
      have b0: "0 * d \<le> n * 2 ^ j" using assms(1) by simp
      have b: "2 ^ 52 * d \<le> n * 2 ^ j \<and> n * 2 ^ j < 2 ^ 53 * d"
      proof (cases "0 \<le> k")
        case True
        have lo: "d * 2 ^ nat k \<le> n" and hi: "n < d * 2 ^ nat (k + 1)"
          using fb True by simp_all
        have j1: "52 = nat k + j" and j2: "53 = nat (k + 1) + j"
          using True e_neg ek by (simp_all add: j_def)
        have pk: "(2::int) ^ 52 = 2 ^ nat k * 2 ^ j" "(2::int) ^ 53 = 2 ^ nat (k + 1) * 2 ^ j"
          by (subst j1, simp only: power_add) (subst j2, simp only: power_add)
        have "d * 2 ^ nat k * 2 ^ j \<le> n * 2 ^ j"
          using lo by (simp add: mult_right_mono)
        moreover have "n * 2 ^ j < d * 2 ^ nat (k + 1) * 2 ^ j"
          using hi by (simp add: mult_strict_right_mono)
        ultimately show ?thesis
          by (simp only: pk mult_ac)
      next
        case False
        have lo: "d \<le> n * 2 ^ nat (- k)" and hi: "n * 2 ^ nat (- k - 1) < d"
          using fb False by simp_all
        have j1: "j = nat (- k) + 52" and j2: "j = nat (- k - 1) + 53"
          using False ek by (simp_all add: j_def)
        have pk: "(2::int) ^ j = 2 ^ nat (- k) * 2 ^ 52"
          "(2::int) ^ j = 2 ^ nat (- k - 1) * 2 ^ 53"
          by (subst j1, simp only: power_add) (subst j2, simp only: power_add)
        have "d * 2 ^ 52 \<le> n * 2 ^ nat (- k) * 2 ^ 52"
          using lo by (simp add: mult_right_mono)
        then have "2 ^ 52 * d \<le> n * 2 ^ j"
          by (simp only: pk(1) mult_ac)
        moreover have "n * 2 ^ nat (- k - 1) * 2 ^ 53 < d * 2 ^ 53"
          using hi by (simp add: mult_strict_right_mono)
        then have "n * 2 ^ j < 2 ^ 53 * d"
          by (simp only: pk(2) mult_ac)
        ultimately show ?thesis by simp
      qed
      have "well_formed (pack_float neg (round_half_even (n * 2 ^ j) d) e)"
        using round_half_even_bounds [OF den b [THEN conjunct1] b [THEN conjunct2]]
          round_half_even_bounds(1) [OF den b0 b [THEN conjunct2]] e0
        by (intro pack_float_well_formed) simp_all
      then show ?thesis
        using e_neg by (simp add: rr round_at_def j_def)
    qed
  next
    case False
    then have ek: "e = - 1074" by (simp add: e_def)
    have kneg: "\<not> 0 \<le> k" using False by simp
    have hi: "n * 2 ^ nat (- k - 1) < d"
      using fb kneg by simp
    have den: "0 < d" by (rule assms(2))
    have b0: "0 * d \<le> n * 2 ^ 1074" using assms(1) by simp
    have b2: "n * 2 ^ 1074 < 2 ^ 52 * d"
    proof (cases "1074 \<le> nat (- k - 1)")
      case True
      then have "(2::int) ^ 1074 \<le> 2 ^ nat (- k - 1)"
        by (intro power_increasing) simp_all
      then have "n * 2 ^ 1074 \<le> n * 2 ^ nat (- k - 1)"
        using assms(1) by (simp add: mult_left_mono)
      also have "\<dots> < d" by (rule hi)
      also have "d \<le> 2 ^ 52 * d" using den by simp
      finally show ?thesis .
    next
      case small: False
      define j where "j = 1074 - nat (- k - 1)"
      have j: "1074 = nat (- k - 1) + j" using small by (simp add: j_def)
      have "j \<le> 52" using False by (simp add: j_def)
      then have j52: "(2::int) ^ j \<le> 2 ^ 52"
        by (intro power_increasing) simp_all
      have "(2::int) ^ 1074 = 2 ^ nat (- k - 1) * 2 ^ j"
        by (subst j) (simp only: power_add)
      then have "n * 2 ^ 1074 = n * 2 ^ nat (- k - 1) * 2 ^ j"
        by (simp only: mult.assoc)
      also have "\<dots> < d * 2 ^ j"
        using hi by (simp add: mult_strict_right_mono)
      also have "\<dots> \<le> d * 2 ^ 52"
        using j52 den by (simp add: mult_left_mono)
      finally show ?thesis by (simp add: mult.commute)
    qed
    have "well_formed (pack_float neg (round_half_even (n * 2 ^ 1074) d) e)"
      using round_half_even_bounds(2) [OF den b0 b2] round_half_even_bounds(1) [OF den b0 b2] ek
      by (intro pack_float_well_formed) simp_all
    then show ?thesis
      by (simp add: rr round_at_def ek)
  qed
qed

lemma digit_val_nonneg: "isdigit c \<Longrightarrow> 0 \<le> digit_val c"
  by (auto simp: isdigit_def digit_val_def)

lemma int_of_digits_nonneg: "list_all isdigit ds \<Longrightarrow> 0 \<le> int_of_digits ds"
proof -
  have "list_all isdigit ds \<Longrightarrow> 0 \<le> a \<Longrightarrow> 0 \<le> foldl (\<lambda>a c. 10 * a + digit_val c) a ds" for a
  proof (induction ds arbitrary: a)
    case Nil
    then show ?case by simp
  next
    case (Cons c cs)
    then have "0 \<le> 10 * a + digit_val c"
      using digit_val_nonneg [of c] by simp
    with Cons show ?case by simp
  qed
  then show "list_all isdigit ds \<Longrightarrow> 0 \<le> int_of_digits ds"
    by (simp add: int_of_digits_def)
qed

lemma parse_decimal_nonneg: "parse_decimal s = Some (d, x) \<Longrightarrow> 0 \<le> d"
proof -
  assume h: "parse_decimal s = Some (d, x)"
  define r1 where "r1 = dropWhile isdigit s"
  define ds2 where "ds2 = (if r1 \<noteq> [] \<and> hd r1 = CHR ''.'' then takeWhile isdigit (tl r1) else [])"
  have "list_all isdigit (takeWhile isdigit s @ ds2)"
    by (auto simp: ds2_def list_all_iff dest: set_takeWhileD)
  then have "0 \<le> int_of_digits (takeWhile isdigit s @ ds2)"
    by (rule int_of_digits_nonneg)
  moreover have "d = int_of_digits (takeWhile isdigit s @ ds2)"
    using h unfolding parse_decimal_def Let_def r1_def [symmetric] ds2_def [symmetric]
    by (auto split: if_splits option.splits)
  ultimately show ?thesis by simp
qed

lemma float_of_decimal_well_formed: "0 \<le> d \<Longrightarrow> well_formed (float_of_decimal neg (d, x))"
proof (cases "d = 0")
  case True
  then show ?thesis by (simp add: round_ratio_def)
next
  case False
  assume "0 \<le> d"
  with False have pos: "0 < d" by simp
  have a: "0 < d * 10 ^ nat x" using pos by simp
  have b: "(0::int) < 10 ^ nat (- x)" by simp
  show ?thesis
    using round_ratio_well_formed [OF a zero_less_one, of neg]
      round_ratio_well_formed [OF pos b, of neg]
    by simp
qed

text \<open>Every float that \<open>float\<close> returns is in normal form, a zero, an infinity or a NaN.\<close>

lemma py_float_well_formed: "py_float s = Inr x \<Longrightarrow> well_formed x"
  unfolding py_float_def Let_def
  by (auto split: if_splits option.splits
      intro: float_of_decimal_well_formed dest: parse_decimal_nonneg)

lemma map_exn_py_float_well_formed:
  "map_exn py_float ts = Inr xs \<Longrightarrow> list_all well_formed xs"
proof (induction ts arbitrary: xs)
  case Nil
  then show ?case by simp
next
  case (Cons t ts)
  then show ?case
    by (auto simp: bind_exn_def split: sum.splits dest: py_float_well_formed)
qed

lemma lon_lat_pairs_elements:
  "list_all P cs \<Longrightarrow> list_all P (map (\<lambda>p. p ! 0) (lon_lat_pairs cs))
     \<and> list_all P (map (\<lambda>p. p ! 1) (lon_lat_pairs cs))"
  by (induction cs rule: lon_lat_pairs.induct) simp_all

text \<open>So are the coordinates of every feature returned.\<close>

lemma feature_coordinates_well_formed:
  assumes "parse_burnt_area_feature rt elem yr = Some f"
  shows "list_all well_formed (lons_of (boundaryPoints f))"
    and "list_all well_formed (lats_of (boundaryPoints f))"
proof -
  from parse_feature_SomeD [OF assms] obtain ptext coords
    where c: "map_exn py_float (split (strip ptext)) = Inr coords"
      and b: "boundaryPoints f = lon_lat_pairs coords"
    by auto
  have "list_all well_formed coords"
    using c by (rule map_exn_py_float_well_formed)
  from lon_lat_pairs_elements [OF this]
  show "list_all well_formed (lons_of (boundaryPoints f))"
    and "list_all well_formed (lats_of (boundaryPoints f))"
    by (simp_all add: b lons_of_def lats_of_def)
qed

text \<open>For well-formed floats, and so for the coordinates of a feature, the two notions agree.\<close>

lemma on_grid_iff: "on_grid g x = (well_formed x \<and> multiple_of g x)"
  by (cases x) (auto simp: normal_form_def)

lemma exact_on_grid_iff:
  "list_all well_formed xs \<Longrightarrow> exact_on_grid g xs = exact_multiples g xs"
  by (auto simp: exact_on_grid_def exact_multiples_def list_all_iff on_grid_iff)

lemma feature_exact:
  assumes "parse_burnt_area_feature rt elem yr = Some f"
  shows "exact_on_grid g (lons_of (boundaryPoints f))
      = exact_multiples g (lons_of (boundaryPoints f))"
    and "exact_on_grid g (lats_of (boundaryPoints f))
      = exact_multiples g (lats_of (boundaryPoints f))"
  using feature_coordinates_well_formed [OF assms] by (simp_all add: exact_on_grid_iff)

text \<open>The polygon with longitudes 1, 2, 3 and latitudes 55, 55.5, 56 has exact sums.\<close>

lemma exact_example_grids:
  "exact_multiples 0 (lons_of (boundaryPoints exact_forward_feature))"
  "exact_multiples (- 1) (lats_of (boundaryPoints exact_forward_feature))"
  "list_all well_formed (lons_of (boundaryPoints exact_forward_feature))"
  "list_all well_formed (lats_of (boundaryPoints exact_forward_feature))"
  by (simp_all add: exact_multiples_def exact_forward_feature_def lons_of_def lats_of_def
      normal_form_def signed_def)

lemma exact_example_reversed:
  "boundaryPoints exact_reversed_feature = rev (boundaryPoints exact_forward_feature)"
  "mset (boundaryPoints exact_reversed_feature) = mset (boundaryPoints exact_forward_feature)"
  by (simp_all add: exact_forward_feature_def exact_reversed_feature_def)

lemma example_sums:
  "builtin_sum example_env = sum_sequential"
  "builtin_sum compensated_env = sum_compensated"
  by (simp_all add: example_env_def compensated_env_def)

lemma exact_forward_parse_compensated:
  "parse_burnt_area_feature compensated_env exact_forward_elem 2025 =
     Some exact_forward_feature"
proof -
  have c: "map_exn py_float (split (strip ''55.0 1.0 55.5 2.0 56.0 3.0'')) =
      Inr [Fin False 7740561859543040 (- 47), Fin False 4503599627370496 (- 52),
           Fin False 7810930603720704 (- 47), Fin False 4503599627370496 (- 51),
           Fin False 7881299347898368 (- 47), Fin False 6755399441055744 (- 51)]"
    by (simp add: string_eval float_tokens bind_exn_def)
  have m: "float_mean compensated_env [Fin False 4503599627370496 (- 52),
         Fin False 4503599627370496 (- 51), Fin False 6755399441055744 (- 51)]
        = Inr (Fin False 4503599627370496 (- 51))"
    "float_mean compensated_env [Fin False 7740561859543040 (- 47),
         Fin False 7810930603720704 (- 47), Fin False 7881299347898368 (- 47)]
        = Inr (Fin False 7810930603720704 (- 47))"
    by (simp_all add: compensated_env_def example_env_def arith_eval)
  have "parse_burnt_area_feature compensated_env
        (burnt_area_elem ''55.0 1.0 55.5 2.0 56.0 3.0'' ''1.0'' ''2025-04-03'') 2025
      = Some \<lparr>fid = ''burnt_area_2025.17'',
          centroid = [Fin False 4503599627370496 (- 51), Fin False 7810930603720704 (- 47)],
          boundaryPoints = lon_lat_pairs
            [Fin False 7740561859543040 (- 47), Fin False 4503599627370496 (- 52),
             Fin False 7810930603720704 (- 47), Fin False 4503599627370496 (- 51),
             Fin False 7881299347898368 (- 47), Fin False 6755399441055744 (- 51)],
          areaHectares = Fin False 4503599627370496 (- 52),
          fireDate = fire_date_value ''2025-04-03'',
          seasonYear = 2025\<rparr>"
    by (rule burnt_area_elem_parse [OF _ c])
      (simp_all add: or_str_def float_tokens m lons_of_def lats_of_def)
  then show ?thesis
    by (simp add: exact_forward_elem_def example_dates exact_forward_feature_def)
qed

lemma exact_reversed_parse_compensated:
  "parse_burnt_area_feature compensated_env exact_reversed_elem 2025 =
     Some exact_reversed_feature"
proof -
  have c: "map_exn py_float (split (strip ''56.0 3.0 55.5 2.0 55.0 1.0'')) =
      Inr [Fin False 7881299347898368 (- 47), Fin False 6755399441055744 (- 51),
           Fin False 7810930603720704 (- 47), Fin False 4503599627370496 (- 51),
           Fin False 7740561859543040 (- 47), Fin False 4503599627370496 (- 52)]"
    by (simp add: string_eval float_tokens bind_exn_def)
  have m: "float_mean compensated_env [Fin False 6755399441055744 (- 51),
         Fin False 4503599627370496 (- 51), Fin False 4503599627370496 (- 52)]
        = Inr (Fin False 4503599627370496 (- 51))"
    "float_mean compensated_env [Fin False 7881299347898368 (- 47),
         Fin False 7810930603720704 (- 47), Fin False 7740561859543040 (- 47)]
        = Inr (Fin False 7810930603720704 (- 47))"
    by (simp_all add: compensated_env_def example_env_def arith_eval)
  have "parse_burnt_area_feature compensated_env
        (burnt_area_elem ''56.0 3.0 55.5 2.0 55.0 1.0'' ''1.0'' ''2025-04-03'') 2025
      = Some \<lparr>fid = ''burnt_area_2025.17'',
          centroid = [Fin False 4503599627370496 (- 51), Fin False 7810930603720704 (- 47)],
          boundaryPoints = lon_lat_pairs
            [Fin False 7881299347898368 (- 47), Fin False 6755399441055744 (- 51),
             Fin False 7810930603720704 (- 47), Fin False 4503599627370496 (- 51),
             Fin False 7740561859543040 (- 47), Fin False 4503599627370496 (- 52)],
          areaHectares = Fin False 4503599627370496 (- 52),
          fireDate = fire_date_value ''2025-04-03'',
          seasonYear = 2025\<rparr>"
    by (rule burnt_area_elem_parse [OF _ c])
      (simp_all add: or_str_def float_tokens m lons_of_def lats_of_def)
  then show ?thesis
    by (simp add: exact_reversed_elem_def example_dates exact_reversed_feature_def)
qed

section \<open>The properties\<close>

text \<open>
  C1. When the text of the \<open>posList\<close> parses to the floats \<open>[lat1, lon1, lat2, lon2, ...]\<close>,
  at least six of them, and the area text is a float literal, \<open>parse_burnt_area_feature\<close>
  returns a feature, and its \<open>boundaryPoints\<close> are \<open>[[lon1, lat1], [lon2, lat2], ...]\<close>:
  consecutive values paired as (lat, lon), each pair emitted swapped. Whenever a feature is
  returned, these are its \<open>boundaryPoints\<close>. In particular the text
  \<open>49.1 -5.2 49.3 -5.0 49.2 -5.1\<close> yields \<open>[[-5.2, 49.1], [-5.0, 49.3], [-5.1, 49.2]]\<close> (the
  floats nearest to these decimals: \<open>-5.2\<close> is \<open>-5854679515581645 \<sqdot> 2\<^sup>-\<^sup>5\<^sup>0\<close>, \<open>49.1\<close> is
  \<open>6910210678246605 \<sqdot> 2\<^sup>-\<^sup>4\<^sup>7\<close>, and so on).
\<close>

theorem boundary_points_lon_lat:
  "(posList_text elem = Some ptext \<and> map_exn py_float (split (strip ptext)) = Inr coords
      \<and> 6 \<le> length coords \<and> py_float (area_text elem) = Inr a
    \<longrightarrow> (\<exists>f. parse_burnt_area_feature rt elem yr = Some f
              \<and> boundaryPoints f = lon_lat_pairs coords))
   \<and> (posList_text elem = Some ptext \<and> map_exn py_float (split (strip ptext)) = Inr coords
      \<and> parse_burnt_area_feature rt elem yr = Some f
    \<longrightarrow> boundaryPoints f = lon_lat_pairs coords)
   \<and> (posList_text elem' = Some ''49.1 -5.2 49.3 -5.0 49.2 -5.1''
      \<and> py_float (area_text elem') = Inr a'
    \<longrightarrow> (\<exists>f'. parse_burnt_area_feature rt' elem' yr' = Some f'
              \<and> boundaryPoints f' =
                  [[Fin True 5854679515581645 (- 50), Fin False 6910210678246605 (- 47)],
                   [Fin True 5629499534213120 (- 50), Fin False 6938358175917670 (- 47)],
                   [Fin True 5742089524897382 (- 50), Fin False 6924284427082138 (- 47)]]))
   \<and> (posList_text elem' = Some ''49.1 -5.2 49.3 -5.0 49.2 -5.1''
      \<and> parse_burnt_area_feature rt' elem' yr' = Some f'
    \<longrightarrow> boundaryPoints f' =
          [[Fin True 5854679515581645 (- 50), Fin False 6910210678246605 (- 47)],
           [Fin True 5629499534213120 (- 50), Fin False 6938358175917670 (- 47)],
           [Fin True 5742089524897382 (- 50), Fin False 6924284427082138 (- 47)]])"
proof -
  have produced: "\<exists>g. parse_burnt_area_feature r e y = Some g
        \<and> boundaryPoints g = lon_lat_pairs cs"
    if "posList_text e = Some t" "map_exn py_float (split (strip t)) = Inr cs"
      "6 \<le> length cs" "py_float (area_text e) = Inr b" for e t cs r y b
    using parse_feature_some [OF that, of r y] by auto
  have general: "boundaryPoints g = lon_lat_pairs cs"
    if "posList_text e = Some t" "map_exn py_float (split (strip t)) = Inr cs"
      "parse_burnt_area_feature r e y = Some g" for e t cs r y g
    using parse_feature_SomeD [OF that(3)] that(1,2) by auto
  have six: "6 \<le> length [Fin False 6910210678246605 (- 47), Fin True 5854679515581645 (- 50),
          Fin False 6938358175917670 (- 47), Fin True 5629499534213120 (- 50),
          Fin False 6924284427082138 (- 47), Fin True 5742089524897382 (- 50)]"
    by simp
  have pairs: "lon_lat_pairs [Fin False 6910210678246605 (- 47), Fin True 5854679515581645 (- 50),
          Fin False 6938358175917670 (- 47), Fin True 5629499534213120 (- 50),
          Fin False 6924284427082138 (- 47), Fin True 5742089524897382 (- 50)] =
          [[Fin True 5854679515581645 (- 50), Fin False 6910210678246605 (- 47)],
           [Fin True 5629499534213120 (- 50), Fin False 6938358175917670 (- 47)],
           [Fin True 5742089524897382 (- 50), Fin False 6924284427082138 (- 47)]]"
    by simp
  show ?thesis
  proof (intro conjI impI)
    assume "posList_text elem = Some ptext \<and> map_exn py_float (split (strip ptext)) = Inr coords
      \<and> 6 \<le> length coords \<and> py_float (area_text elem) = Inr a"
    then show "\<exists>f. parse_burnt_area_feature rt elem yr = Some f
              \<and> boundaryPoints f = lon_lat_pairs coords"
      using produced by blast
  next
    assume "posList_text elem = Some ptext \<and> map_exn py_float (split (strip ptext)) = Inr coords
      \<and> parse_burnt_area_feature rt elem yr = Some f"
    then show "boundaryPoints f = lon_lat_pairs coords"
      using general by blast
  next
    assume h: "posList_text elem' = Some ''49.1 -5.2 49.3 -5.0 49.2 -5.1''
      \<and> py_float (area_text elem') = Inr a'"
    from produced [OF h [THEN conjunct1] example_coords six h [THEN conjunct2], of rt' yr']
    show "\<exists>f'. parse_burnt_area_feature rt' elem' yr' = Some f'
              \<and> boundaryPoints f' =
                  [[Fin True 5854679515581645 (- 50), Fin False 6910210678246605 (- 47)],
                   [Fin True 5629499534213120 (- 50), Fin False 6938358175917670 (- 47)],
                   [Fin True 5742089524897382 (- 50), Fin False 6924284427082138 (- 47)]]"
      unfolding pairs .
  next
    assume h: "posList_text elem' = Some ''49.1 -5.2 49.3 -5.0 49.2 -5.1''
      \<and> parse_burnt_area_feature rt' elem' yr' = Some f'"
    from general [OF h [THEN conjunct1] example_coords h [THEN conjunct2]]
    show "boundaryPoints f' =
          [[Fin True 5854679515581645 (- 50), Fin False 6910210678246605 (- 47)],
           [Fin True 5629499534213120 (- 50), Fin False 6938358175917670 (- 47)],
           [Fin True 5742089524897382 (- 50), Fin False 6924284427082138 (- 47)]]"
      unfolding pairs .
  qed
qed

theorem boundary_points_lon_lat_witness:
  "posList_text example_elem = Some ''49.1 -5.2 49.3 -5.0 49.2 -5.1''
   \<and> map_exn py_float (split (strip ''49.1 -5.2 49.3 -5.0 49.2 -5.1'')) =
       Inr [Fin False 6910210678246605 (- 47), Fin True 5854679515581645 (- 50),
            Fin False 6938358175917670 (- 47), Fin True 5629499534213120 (- 50),
            Fin False 6924284427082138 (- 47), Fin True 5742089524897382 (- 50)]
   \<and> 6 \<le> length [Fin False 6910210678246605 (- 47), Fin True 5854679515581645 (- 50),
            Fin False 6938358175917670 (- 47), Fin True 5629499534213120 (- 50),
            Fin False 6924284427082138 (- 47), Fin True 5742089524897382 (- 50)]
   \<and> py_float (area_text example_elem) = Inr (Fin False 7036874417766400 (- 49))
   \<and> (\<exists>f. parse_burnt_area_feature example_env example_elem 2025 = Some f
         \<and> boundaryPoints f =
             lon_lat_pairs [Fin False 6910210678246605 (- 47), Fin True 5854679515581645 (- 50),
               Fin False 6938358175917670 (- 47), Fin True 5629499534213120 (- 50),
               Fin False 6924284427082138 (- 47), Fin True 5742089524897382 (- 50)])
   \<and> parse_burnt_area_feature example_env example_elem 2025 = Some example_feature
   \<and> boundaryPoints example_feature =
       lon_lat_pairs [Fin False 6910210678246605 (- 47), Fin True 5854679515581645 (- 50),
            Fin False 6938358175917670 (- 47), Fin True 5629499534213120 (- 50),
            Fin False 6924284427082138 (- 47), Fin True 5742089524897382 (- 50)]
   \<and> (\<exists>f. parse_burnt_area_feature example_env example_elem 2025 = Some f
         \<and> boundaryPoints f =
                  [[Fin True 5854679515581645 (- 50), Fin False 6910210678246605 (- 47)],
                   [Fin True 5629499534213120 (- 50), Fin False 6938358175917670 (- 47)],
                   [Fin True 5742089524897382 (- 50), Fin False 6924284427082138 (- 47)]])
   \<and> boundaryPoints example_feature =
          [[Fin True 5854679515581645 (- 50), Fin False 6910210678246605 (- 47)],
           [Fin True 5629499534213120 (- 50), Fin False 6938358175917670 (- 47)],
           [Fin True 5742089524897382 (- 50), Fin False 6924284427082138 (- 47)]]"
proof -
  have six: "6 \<le> length [Fin False 6910210678246605 (- 47), Fin True 5854679515581645 (- 50),
          Fin False 6938358175917670 (- 47), Fin True 5629499534213120 (- 50),
          Fin False 6924284427082138 (- 47), Fin True 5742089524897382 (- 50)]"
    by simp
  have ar: "py_float (area_text example_elem) = Inr (Fin False 7036874417766400 (- 49))"
    by (simp add: example_elem_def burnt_area_elem_area or_str_def float_tokens)
  note inst = boundary_points_lon_lat
    [where elem = example_elem and ptext = "''49.1 -5.2 49.3 -5.0 49.2 -5.1''"
       and coords = "[Fin False 6910210678246605 (- 47), Fin True 5854679515581645 (- 50),
            Fin False 6938358175917670 (- 47), Fin True 5629499534213120 (- 50),
            Fin False 6924284427082138 (- 47), Fin True 5742089524897382 (- 50)]"
       and a = "Fin False 7036874417766400 (- 49)"
       and rt = example_env and yr = 2025 and f = example_feature
       and elem' = example_elem and a' = "Fin False 7036874417766400 (- 49)"
       and rt' = example_env and yr' = 2025 and f' = example_feature]
  have c1: "\<exists>f. parse_burnt_area_feature example_env example_elem 2025 = Some f
         \<and> boundaryPoints f =
             lon_lat_pairs [Fin False 6910210678246605 (- 47), Fin True 5854679515581645 (- 50),
               Fin False 6938358175917670 (- 47), Fin True 5629499534213120 (- 50),
               Fin False 6924284427082138 (- 47), Fin True 5742089524897382 (- 50)]"
    by (rule inst [THEN conjunct1, rule_format]) (intro conjI example_posList example_coords six ar)
  have c2: "boundaryPoints example_feature =
       lon_lat_pairs [Fin False 6910210678246605 (- 47), Fin True 5854679515581645 (- 50),
            Fin False 6938358175917670 (- 47), Fin True 5629499534213120 (- 50),
            Fin False 6924284427082138 (- 47), Fin True 5742089524897382 (- 50)]"
    by (rule inst [THEN conjunct2, THEN conjunct1, rule_format])
      (intro conjI example_posList example_coords example_parse)
  have c3: "\<exists>f. parse_burnt_area_feature example_env example_elem 2025 = Some f
         \<and> boundaryPoints f =
                  [[Fin True 5854679515581645 (- 50), Fin False 6910210678246605 (- 47)],
                   [Fin True 5629499534213120 (- 50), Fin False 6938358175917670 (- 47)],
                   [Fin True 5742089524897382 (- 50), Fin False 6924284427082138 (- 47)]]"
    by (rule inst [THEN conjunct2, THEN conjunct2, THEN conjunct1, rule_format])
      (intro conjI example_posList ar)
  have c4: "boundaryPoints example_feature =
          [[Fin True 5854679515581645 (- 50), Fin False 6910210678246605 (- 47)],
           [Fin True 5629499534213120 (- 50), Fin False 6938358175917670 (- 47)],
           [Fin True 5742089524897382 (- 50), Fin False 6924284427082138 (- 47)]]"
    by (rule inst [THEN conjunct2, THEN conjunct2, THEN conjunct2, rule_format])
      (intro conjI example_posList example_parse)
  show ?thesis
    by (intro conjI example_posList example_coords six ar c1 example_parse c2 c3 c4)
qed

text \<open>
  C2 (as amended). When the text of the \<open>posList\<close> parses to at least six floats and the
  area text is a float literal, a feature is returned; and for every feature that
  \<open>parse_burnt_area_feature\<close> returns, with boundary points \<open>p1 .. pn\<close>, \<open>n\<close> is at least 3
  and the centroid is \<open>[sum(lons) / n, sum(lats) / n]\<close> in float arithmetic: the
  interpreter's \<open>sum\<close> of the first, respectively second, components in list order, divided
  by \<open>n\<close> as a float. The divisions do not raise.

  The centroid does not depend on the order of the boundary points when the two sums are
  exact: when, for some exponent \<open>g\<close>, every longitude is a finite float other than \<open>-0.0\<close>
  and an integer multiple of \<open>2\<^sup>g\<close>, and the absolute values of these integers add up to less
  than \<open>2\<^sup>5\<^sup>3\<close>; and likewise the latitudes for some exponent \<open>h\<close>. On such a list of
  well-formed floats \<open>sum\<close>, in both its versions (adding in list order, and with a
  compensation term), returns the float of the exact sum; and the coordinates of a feature
  returned are well-formed floats.
\<close>

theorem centroid_is_float_mean:
  "(posList_text elem = Some ptext \<and> map_exn py_float (split (strip ptext)) = Inr coords
      \<and> 6 \<le> length coords \<and> py_float (area_text elem) = Inr a
    \<longrightarrow> (\<exists>f clon clat. parse_burnt_area_feature rt elem yr = Some f
            \<and> boundaryPoints f = lon_lat_pairs coords
            \<and> centroid f = [clon, clat]
            \<and> fdiv (builtin_sum rt (lons_of (lon_lat_pairs coords)))
                 (float_of_nat (length (lon_lat_pairs coords))) = Inr clon
            \<and> fdiv (builtin_sum rt (lats_of (lon_lat_pairs coords)))
                 (float_of_nat (length (lon_lat_pairs coords))) = Inr clat))
   \<and> (parse_burnt_area_feature rt elem yr = Some f \<longrightarrow>
      3 \<le> length (boundaryPoints f)
      \<and> (\<exists>clon clat. centroid f = [clon, clat]
            \<and> fdiv (builtin_sum rt (lons_of (boundaryPoints f)))
                 (float_of_nat (length (boundaryPoints f))) = Inr clon
            \<and> fdiv (builtin_sum rt (lats_of (boundaryPoints f)))
                 (float_of_nat (length (boundaryPoints f))) = Inr clat))
   \<and> (parse_burnt_area_feature rt elem yr = Some f
      \<and> parse_burnt_area_feature rt elem' yr' = Some f'
      \<and> mset (boundaryPoints f') = mset (boundaryPoints f)
      \<and> (builtin_sum rt = sum_sequential \<or> builtin_sum rt = sum_compensated)
      \<and> exact_multiples g (lons_of (boundaryPoints f))
      \<and> exact_multiples h (lats_of (boundaryPoints f))
      \<longrightarrow> centroid f' = centroid f)
   \<and> (parse_burnt_area_feature rt elem yr = Some f \<longrightarrow>
      list_all well_formed (lons_of (boundaryPoints f))
      \<and> list_all well_formed (lats_of (boundaryPoints f)))
   \<and> ((builtin_sum rt = sum_sequential \<or> builtin_sum rt = sum_compensated)
      \<and> list_all well_formed xs \<and> exact_multiples g xs
      \<longrightarrow> builtin_sum rt xs = round_signed (sum_list (map (grid_units g) xs)) g)
   \<and> ((builtin_sum rt = sum_sequential \<or> builtin_sum rt = sum_compensated)
      \<and> list_all well_formed xs \<and> exact_multiples g xs \<and> mset ys = mset xs
      \<longrightarrow> builtin_sum rt ys = builtin_sum rt xs)"
proof -
  have mean: "3 \<le> length (boundaryPoints k)
      \<and> (\<exists>clon clat. centroid k = [clon, clat]
            \<and> fdiv (builtin_sum rt (lons_of (boundaryPoints k)))
                 (float_of_nat (length (boundaryPoints k))) = Inr clon
            \<and> fdiv (builtin_sum rt (lats_of (boundaryPoints k)))
                 (float_of_nat (length (boundaryPoints k))) = Inr clat)"
    if "parse_burnt_area_feature rt e y = Some k" for e y k
    using parse_feature_SomeD [OF that]
    by (auto simp: length_lon_lat_pairs float_mean_def lons_of_def lats_of_def)
  have c1: "posList_text elem = Some ptext \<and> map_exn py_float (split (strip ptext)) = Inr coords
      \<and> 6 \<le> length coords \<and> py_float (area_text elem) = Inr a
    \<longrightarrow> (\<exists>f clon clat. parse_burnt_area_feature rt elem yr = Some f
            \<and> boundaryPoints f = lon_lat_pairs coords
            \<and> centroid f = [clon, clat]
            \<and> fdiv (builtin_sum rt (lons_of (lon_lat_pairs coords)))
                 (float_of_nat (length (lon_lat_pairs coords))) = Inr clon
            \<and> fdiv (builtin_sum rt (lats_of (lon_lat_pairs coords)))
                 (float_of_nat (length (lon_lat_pairs coords))) = Inr clat)"
  proof
    assume h: "posList_text elem = Some ptext \<and> map_exn py_float (split (strip ptext)) = Inr coords
      \<and> 6 \<le> length coords \<and> py_float (area_text elem) = Inr a"
    then have p: "posList_text elem = Some ptext"
      "map_exn py_float (split (strip ptext)) = Inr coords" "6 \<le> length coords"
      "py_float (area_text elem) = Inr a"
      by simp_all
    from parse_feature_some [OF p, of rt yr]
    show "\<exists>f clon clat. parse_burnt_area_feature rt elem yr = Some f
            \<and> boundaryPoints f = lon_lat_pairs coords
            \<and> centroid f = [clon, clat]
            \<and> fdiv (builtin_sum rt (lons_of (lon_lat_pairs coords)))
                 (float_of_nat (length (lon_lat_pairs coords))) = Inr clon
            \<and> fdiv (builtin_sum rt (lats_of (lon_lat_pairs coords)))
                 (float_of_nat (length (lon_lat_pairs coords))) = Inr clat"
      by (auto simp: float_mean_def lons_of_def lats_of_def)
  qed
  have c2: "parse_burnt_area_feature rt elem yr = Some f \<longrightarrow>
      3 \<le> length (boundaryPoints f)
      \<and> (\<exists>clon clat. centroid f = [clon, clat]
            \<and> fdiv (builtin_sum rt (lons_of (boundaryPoints f)))
                 (float_of_nat (length (boundaryPoints f))) = Inr clon
            \<and> fdiv (builtin_sum rt (lats_of (boundaryPoints f)))
                 (float_of_nat (length (boundaryPoints f))) = Inr clat)"
    using mean [of elem yr f] by blast
  have c3: "parse_burnt_area_feature rt elem yr = Some f
      \<and> parse_burnt_area_feature rt elem' yr' = Some f'
      \<and> mset (boundaryPoints f') = mset (boundaryPoints f)
      \<and> (builtin_sum rt = sum_sequential \<or> builtin_sum rt = sum_compensated)
      \<and> exact_multiples g (lons_of (boundaryPoints f))
      \<and> exact_multiples h (lats_of (boundaryPoints f))
      \<longrightarrow> centroid f' = centroid f"
  proof
    assume h: "parse_burnt_area_feature rt elem yr = Some f
      \<and> parse_burnt_area_feature rt elem' yr' = Some f'
      \<and> mset (boundaryPoints f') = mset (boundaryPoints f)
      \<and> (builtin_sum rt = sum_sequential \<or> builtin_sum rt = sum_compensated)
      \<and> exact_multiples g (lons_of (boundaryPoints f))
      \<and> exact_multiples h (lats_of (boundaryPoints f))"
    then have pf: "parse_burnt_area_feature rt elem yr = Some f"
      and pf': "parse_burnt_area_feature rt elem' yr' = Some f'"
      and ms: "mset (boundaryPoints f') = mset (boundaryPoints f)"
      and su: "builtin_sum rt = sum_sequential \<or> builtin_sum rt = sum_compensated"
      and em: "exact_multiples g (lons_of (boundaryPoints f))"
        "exact_multiples h (lats_of (boundaryPoints f))"
      by blast+
    have ex: "exact_on_grid g (lons_of (boundaryPoints f))"
      "exact_on_grid h (lats_of (boundaryPoints f))"
      using em by (simp_all add: feature_exact [OF pf])
    have len: "length (boundaryPoints f') = length (boundaryPoints f)"
      using ms by (metis size_mset)
    have "mset (lons_of (boundaryPoints f')) = mset (lons_of (boundaryPoints f))"
      "mset (lats_of (boundaryPoints f')) = mset (lats_of (boundaryPoints f))"
      using ms by (simp_all add: lons_of_def lats_of_def)
    then have "builtin_sum rt (lons_of (boundaryPoints f'))
        = builtin_sum rt (lons_of (boundaryPoints f))"
      "builtin_sum rt (lats_of (boundaryPoints f'))
        = builtin_sum rt (lats_of (boundaryPoints f))"
      using builtin_sum_reordered [OF su ex(1)] builtin_sum_reordered [OF su ex(2)]
      by blast+
    then show "centroid f' = centroid f"
      using mean [OF pf] mean [OF pf'] len by auto
  qed
  have c4: "parse_burnt_area_feature rt elem yr = Some f \<longrightarrow>
      list_all well_formed (lons_of (boundaryPoints f))
      \<and> list_all well_formed (lats_of (boundaryPoints f))"
    using feature_coordinates_well_formed by blast
  have c5: "(builtin_sum rt = sum_sequential \<or> builtin_sum rt = sum_compensated)
      \<and> list_all well_formed xs \<and> exact_multiples g xs
      \<longrightarrow> builtin_sum rt xs = round_signed (sum_list (map (grid_units g) xs)) g"
    using builtin_sum_exact [of rt g xs] exact_on_grid_iff [of xs g] by blast
  have c6: "(builtin_sum rt = sum_sequential \<or> builtin_sum rt = sum_compensated)
      \<and> list_all well_formed xs \<and> exact_multiples g xs \<and> mset ys = mset xs
      \<longrightarrow> builtin_sum rt ys = builtin_sum rt xs"
    using builtin_sum_reordered [of rt g xs ys] exact_on_grid_iff [of xs g] by blast
  show ?thesis
    by (intro conjI c1 c2 c3 c4 c5 c6)
qed

theorem centroid_is_float_mean_witness:
  "posList_text example_elem = Some ''49.1 -5.2 49.3 -5.0 49.2 -5.1''
   \<and> py_float (area_text example_elem) = Inr (Fin False 7036874417766400 (- 49))
   \<and> (\<exists>f clon clat. parse_burnt_area_feature example_env example_elem 2025 = Some f
         \<and> boundaryPoints f =
             lon_lat_pairs [Fin False 6910210678246605 (- 47), Fin True 5854679515581645 (- 50),
               Fin False 6938358175917670 (- 47), Fin True 5629499534213120 (- 50),
               Fin False 6924284427082138 (- 47), Fin True 5742089524897382 (- 50)]
         \<and> centroid f = [clon, clat]
         \<and> fdiv (builtin_sum example_env (lons_of (lon_lat_pairs
               [Fin False 6910210678246605 (- 47), Fin True 5854679515581645 (- 50),
                Fin False 6938358175917670 (- 47), Fin True 5629499534213120 (- 50),
                Fin False 6924284427082138 (- 47), Fin True 5742089524897382 (- 50)])))
             (float_of_nat (length (lon_lat_pairs
               [Fin False 6910210678246605 (- 47), Fin True 5854679515581645 (- 50),
                Fin False 6938358175917670 (- 47), Fin True 5629499534213120 (- 50),
                Fin False 6924284427082138 (- 47), Fin True 5742089524897382 (- 50)]))) = Inr clon
         \<and> fdiv (builtin_sum example_env (lats_of (lon_lat_pairs
               [Fin False 6910210678246605 (- 47), Fin True 5854679515581645 (- 50),
                Fin False 6938358175917670 (- 47), Fin True 5629499534213120 (- 50),
                Fin False 6924284427082138 (- 47), Fin True 5742089524897382 (- 50)])))
             (float_of_nat (length (lon_lat_pairs
               [Fin False 6910210678246605 (- 47), Fin True 5854679515581645 (- 50),
                Fin False 6938358175917670 (- 47), Fin True 5629499534213120 (- 50),
                Fin False 6924284427082138 (- 47), Fin True 5742089524897382 (- 50)]))) = Inr clat)
   \<and> parse_burnt_area_feature example_env example_elem 2025 = Some example_feature
   \<and> (3 \<le> length (boundaryPoints example_feature)
      \<and> (\<exists>clon clat. centroid example_feature = [clon, clat]
            \<and> fdiv (builtin_sum example_env (lons_of (boundaryPoints example_feature)))
                 (float_of_nat (length (boundaryPoints example_feature))) = Inr clon
            \<and> fdiv (builtin_sum example_env (lats_of (boundaryPoints example_feature)))
                 (float_of_nat (length (boundaryPoints example_feature))) = Inr clat))
   \<and> parse_burnt_area_feature example_env exact_forward_elem 2025 = Some exact_forward_feature
   \<and> parse_burnt_area_feature example_env exact_reversed_elem 2025 = Some exact_reversed_feature
   \<and> boundaryPoints exact_reversed_feature = rev (boundaryPoints exact_forward_feature)
   \<and> mset (boundaryPoints exact_reversed_feature) = mset (boundaryPoints exact_forward_feature)
   \<and> builtin_sum example_env = sum_sequential
   \<and> exact_multiples 0 (lons_of (boundaryPoints exact_forward_feature))
   \<and> exact_multiples (- 1) (lats_of (boundaryPoints exact_forward_feature))
   \<and> centroid exact_reversed_feature = centroid exact_forward_feature
   \<and> list_all well_formed (lons_of (boundaryPoints exact_forward_feature))
   \<and> list_all well_formed (lats_of (boundaryPoints exact_forward_feature))
   \<and> parse_burnt_area_feature compensated_env exact_forward_elem 2025
        = Some exact_forward_feature
   \<and> parse_burnt_area_feature compensated_env exact_reversed_elem 2025
        = Some exact_reversed_feature
   \<and> builtin_sum compensated_env = sum_compensated
   \<and> builtin_sum example_env (lons_of (boundaryPoints exact_forward_feature))
        = round_signed
            (sum_list (map (grid_units 0) (lons_of (boundaryPoints exact_forward_feature)))) 0
   \<and> builtin_sum compensated_env (lats_of (boundaryPoints exact_reversed_feature))
        = builtin_sum compensated_env (lats_of (boundaryPoints exact_forward_feature))"
proof -
  have six: "6 \<le> length [Fin False 6910210678246605 (- 47), Fin True 5854679515581645 (- 50),
          Fin False 6938358175917670 (- 47), Fin True 5629499534213120 (- 50),
          Fin False 6924284427082138 (- 47), Fin True 5742089524897382 (- 50)]"
    by simp
  have produced: "\<exists>f clon clat. parse_burnt_area_feature example_env example_elem 2025 = Some f
         \<and> boundaryPoints f =
             lon_lat_pairs [Fin False 6910210678246605 (- 47), Fin True 5854679515581645 (- 50),
               Fin False 6938358175917670 (- 47), Fin True 5629499534213120 (- 50),
               Fin False 6924284427082138 (- 47), Fin True 5742089524897382 (- 50)]
         \<and> centroid f = [clon, clat]
         \<and> fdiv (builtin_sum example_env (lons_of (lon_lat_pairs
               [Fin False 6910210678246605 (- 47), Fin True 5854679515581645 (- 50),
                Fin False 6938358175917670 (- 47), Fin True 5629499534213120 (- 50),
                Fin False 6924284427082138 (- 47), Fin True 5742089524897382 (- 50)])))
             (float_of_nat (length (lon_lat_pairs
               [Fin False 6910210678246605 (- 47), Fin True 5854679515581645 (- 50),
                Fin False 6938358175917670 (- 47), Fin True 5629499534213120 (- 50),
                Fin False 6924284427082138 (- 47), Fin True 5742089524897382 (- 50)]))) = Inr clon
         \<and> fdiv (builtin_sum example_env (lats_of (lon_lat_pairs
               [Fin False 6910210678246605 (- 47), Fin True 5854679515581645 (- 50),
                Fin False 6938358175917670 (- 47), Fin True 5629499534213120 (- 50),
                Fin False 6924284427082138 (- 47), Fin True 5742089524897382 (- 50)])))
             (float_of_nat (length (lon_lat_pairs
               [Fin False 6910210678246605 (- 47), Fin True 5854679515581645 (- 50),
                Fin False 6938358175917670 (- 47), Fin True 5629499534213120 (- 50),
                Fin False 6924284427082138 (- 47), Fin True 5742089524897382 (- 50)]))) = Inr clat"
    by (rule centroid_is_float_mean
        [where rt = example_env and elem = example_elem and yr = 2025
           and ptext = "''49.1 -5.2 49.3 -5.0 49.2 -5.1''"
           and a = "Fin False 7036874417766400 (- 49)"
           and coords = "[Fin False 6910210678246605 (- 47), Fin True 5854679515581645 (- 50),
             Fin False 6938358175917670 (- 47), Fin True 5629499534213120 (- 50),
             Fin False 6924284427082138 (- 47), Fin True 5742089524897382 (- 50)]",
          THEN conjunct1, rule_format])
      (intro conjI example_posList example_coords six example_area(1))
  have first: "3 \<le> length (boundaryPoints example_feature)
      \<and> (\<exists>clon clat. centroid example_feature = [clon, clat]
            \<and> fdiv (builtin_sum example_env (lons_of (boundaryPoints example_feature)))
                 (float_of_nat (length (boundaryPoints example_feature))) = Inr clon
            \<and> fdiv (builtin_sum example_env (lats_of (boundaryPoints example_feature)))
                 (float_of_nat (length (boundaryPoints example_feature))) = Inr clat)"
    by (rule centroid_is_float_mean
        [where rt = example_env and elem = example_elem and yr = 2025 and f = example_feature,
          THEN conjunct2, THEN conjunct1, rule_format, OF example_parse])
  have second: "centroid exact_reversed_feature = centroid exact_forward_feature"
    by (rule centroid_is_float_mean
        [where rt = example_env and elem = exact_forward_elem and yr = 2025
           and f = exact_forward_feature and elem' = exact_reversed_elem and yr' = 2025
           and f' = exact_reversed_feature and g = 0 and h = "- 1",
          THEN conjunct2, THEN conjunct2, THEN conjunct1, rule_format])
      (intro conjI exact_forward_parse exact_reversed_parse exact_example_reversed(2)
        disjI1 example_sums(1) exact_example_grids(1) exact_example_grids(2))
  have wf: "list_all well_formed (lons_of (boundaryPoints exact_forward_feature))
      \<and> list_all well_formed (lats_of (boundaryPoints exact_forward_feature))"
    by (rule centroid_is_float_mean
        [where rt = example_env and elem = exact_forward_elem and yr = 2025
           and f = exact_forward_feature,
          THEN conjunct2, THEN conjunct2, THEN conjunct2, THEN conjunct1, rule_format,
          OF exact_forward_parse])
  have third: "centroid exact_reversed_feature = centroid exact_forward_feature"
    by (rule centroid_is_float_mean
        [where rt = compensated_env and elem = exact_forward_elem and yr = 2025
           and f = exact_forward_feature and elem' = exact_reversed_elem and yr' = 2025
           and f' = exact_reversed_feature and g = 0 and h = "- 1",
          THEN conjunct2, THEN conjunct2, THEN conjunct1, rule_format])
      (intro conjI exact_forward_parse_compensated exact_reversed_parse_compensated
        exact_example_reversed(2) disjI2 example_sums(2) exact_example_grids(1)
        exact_example_grids(2))
  have fourth: "builtin_sum example_env (lons_of (boundaryPoints exact_forward_feature))
        = round_signed
            (sum_list (map (grid_units 0) (lons_of (boundaryPoints exact_forward_feature)))) 0"
    by (rule centroid_is_float_mean
        [where rt = example_env and g = 0
           and xs = "lons_of (boundaryPoints exact_forward_feature)",
          THEN conjunct2, THEN conjunct2, THEN conjunct2, THEN conjunct2, THEN conjunct1,
          rule_format])
      (intro conjI disjI1 example_sums(1) exact_example_grids(3) exact_example_grids(1))
  have lats: "mset (lats_of (boundaryPoints exact_reversed_feature))
      = mset (lats_of (boundaryPoints exact_forward_feature))"
    using exact_example_reversed(2) by (simp add: lats_of_def)
  have fifth: "builtin_sum compensated_env (lats_of (boundaryPoints exact_reversed_feature))
        = builtin_sum compensated_env (lats_of (boundaryPoints exact_forward_feature))"
    by (rule centroid_is_float_mean
        [where rt = compensated_env and g = "- 1"
           and xs = "lats_of (boundaryPoints exact_forward_feature)"
           and ys = "lats_of (boundaryPoints exact_reversed_feature)",
          THEN conjunct2, THEN conjunct2, THEN conjunct2, THEN conjunct2, THEN conjunct2,
          rule_format])
      (intro conjI disjI2 example_sums(2) exact_example_grids(4) exact_example_grids(2) lats)
  show ?thesis
    by (intro conjI example_posList example_area(1) produced example_parse
        first [THEN conjunct1] first [THEN conjunct2]
        exact_forward_parse exact_reversed_parse exact_example_reversed example_sums(1)
        exact_example_grids(1) exact_example_grids(2) second
        wf [THEN conjunct1] wf [THEN conjunct2] exact_forward_parse_compensated
        exact_reversed_parse_compensated example_sums(2) fourth fifth)
qed

text \<open>
  The claim as stated (the centroid is unchanged under any reordering of the boundary
  points) fails. With \<open>sum\<close> adding in list order, the polygon with longitudes
  \<open>0.1, 0.2, 0.3\<close> has the centroid longitude \<open>0.20000000000000004\<close> and the same polygon
  traversed backwards \<open>0.19999999999999998\<close>. With the compensated \<open>sum\<close>, the longitudes
  \<open>-1.0, 9007199254740992.0, 1e+32\<close> give \<open>3.3333333333333334e+31\<close> forwards and
  \<open>3.3333333333333343e+31\<close> backwards.
\<close>

theorem centroid_changes_with_order:
  "map_option boundaryPoints (parse_burnt_area_feature example_env reversed_elem 2025)
     = map_option (\<lambda>f. rev (boundaryPoints f))
         (parse_burnt_area_feature example_env forward_elem 2025)
   \<and> map_option centroid (parse_burnt_area_feature example_env forward_elem 2025)
     = Some [Fin False 7205759403792795 (- 55), Fin False 7740561859543040 (- 47)]
   \<and> map_option centroid (parse_burnt_area_feature example_env reversed_elem 2025)
     = Some [Fin False 7205759403792793 (- 55), Fin False 7740561859543040 (- 47)]
   \<and> map_option boundaryPoints (parse_burnt_area_feature compensated_env wide_reversed_elem 2025)
     = map_option (\<lambda>f. rev (boundaryPoints f))
         (parse_burnt_area_feature compensated_env wide_forward_elem 2025)
   \<and> map_option centroid (parse_burnt_area_feature compensated_env wide_forward_elem 2025)
     = Some [Fin False 7401486830834377 52, Fin False 0 (- 1074)]
   \<and> map_option centroid (parse_burnt_area_feature compensated_env wide_reversed_elem 2025)
     = Some [Fin False 7401486830834379 52, Fin False 0 (- 1074)]"
  by (simp add: forward_parse reversed_parse wide_forward_parse wide_reversed_parse)

text \<open>
  C3. The bundle that \<open>save_bundle\<close> builds from a feature list and a year has that list as
  its \<open>features\<close> and the length of the list as its \<open>featureCount\<close>. What \<open>save_bundle\<close>
  writes is this bundle, to the file of the year, and nothing else; it writes it whenever the
  operating system lets it open the file; when it returns, it returns the path of the file,
  having written the bundle and asked for the size of the file; when it raises, it raises
  \<open>OSError\<close>. So in every bundle written during a run of \<open>main\<close>, \<open>featureCount\<close> is the
  length of \<open>features\<close>.
\<close>

theorem feature_count_is_length:
  "featureCount (make_bundle rt feats yr) = int (length (features (make_bundle rt feats yr)))
   \<and> features (make_bundle rt feats yr) = feats
   \<and> (WriteJson q b \<in> set (snd (save_bundle rt feats yr output_dir log))
        \<and> WriteJson q b \<notin> set log \<longrightarrow>
        q = bundle_path output_dir yr \<and> b = make_bundle rt feats yr
        \<and> features b = feats \<and> featureCount b = int (length feats))
   \<and> (\<not> os_refuses rt (WriteJson (bundle_path output_dir yr) (make_bundle rt feats yr)) \<longrightarrow>
        WriteJson (bundle_path output_dir yr) (make_bundle rt feats yr)
          \<in> set (snd (save_bundle rt feats yr output_dir log)))
   \<and> (fst (save_bundle rt feats yr output_dir log) = Inr p \<longrightarrow>
        p = bundle_path output_dir yr
        \<and> snd (save_bundle rt feats yr output_dir log)
            = log @ [WriteJson p (make_bundle rt feats yr), GetSize p])
   \<and> (fst (save_bundle rt feats yr output_dir log) = Inl e \<longrightarrow> e = OSError)
   \<and> (WriteJson q b \<in> set (snd (main rt)) \<longrightarrow>
        featureCount b = int (length (features b)))"
proof -
  have c1: "featureCount (make_bundle rt feats yr)
      = int (length (features (make_bundle rt feats yr)))"
    by (simp add: make_bundle_def)
  have c2: "features (make_bundle rt feats yr) = feats"
    by (simp add: make_bundle_def)
  have c3: "WriteJson q b \<in> set (snd (save_bundle rt feats yr output_dir log))
        \<and> WriteJson q b \<notin> set log \<longrightarrow>
        q = bundle_path output_dir yr \<and> b = make_bundle rt feats yr
        \<and> features b = feats \<and> featureCount b = int (length feats)"
    by (auto simp: save_bundle_cases make_bundle_def split: if_splits)
  have c4: "\<not> os_refuses rt (WriteJson (bundle_path output_dir yr) (make_bundle rt feats yr)) \<longrightarrow>
        WriteJson (bundle_path output_dir yr) (make_bundle rt feats yr)
          \<in> set (snd (save_bundle rt feats yr output_dir log))"
    by (simp add: save_bundle_cases)
  have c5: "fst (save_bundle rt feats yr output_dir log) = Inr p \<longrightarrow>
        p = bundle_path output_dir yr
        \<and> snd (save_bundle rt feats yr output_dir log)
            = log @ [WriteJson p (make_bundle rt feats yr), GetSize p]"
    by (auto simp: save_bundle_cases split: if_splits)
  have c6: "fst (save_bundle rt feats yr output_dir log) = Inl e \<longrightarrow> e = OSError"
    by (auto simp: save_bundle_cases split: if_splits)
  have c7: "WriteJson q b \<in> set (snd (main rt)) \<longrightarrow>
        featureCount b = int (length (features b))"
  proof
    assume "WriteJson q b \<in> set (snd (main rt))"
    from main_effects [OF this] obtain y fs where "b = make_bundle rt fs y"
      by auto
    then show "featureCount b = int (length (features b))"
      by (simp add: make_bundle_def)
  qed
  show ?thesis
    by (intro conjI c1 c2 c3 c4 c5 c6 c7)
qed

theorem feature_count_is_length_witness:
  "WriteJson ''/repo/scripts/../assets/cache/burnt_areas_2025_uk.json''
        (make_bundle example_env [example_feature] 2025)
      \<in> set (snd (save_bundle example_env [example_feature] 2025
                    ''/repo/scripts/../assets/cache'' []))
   \<and> WriteJson ''/repo/scripts/../assets/cache/burnt_areas_2025_uk.json''
        (make_bundle example_env [example_feature] 2025) \<notin> set []
   \<and> features (make_bundle example_env [example_feature] 2025) = [example_feature]
   \<and> featureCount (make_bundle example_env [example_feature] 2025)
        = int (length [example_feature])
   \<and> fst (save_bundle example_env [example_feature] 2025 ''/repo/scripts/../assets/cache'' [])
        = Inr ''/repo/scripts/../assets/cache/burnt_areas_2025_uk.json''
   \<and> snd (save_bundle example_env [example_feature] 2025 ''/repo/scripts/../assets/cache'' [])
        = [] @ [WriteJson ''/repo/scripts/../assets/cache/burnt_areas_2025_uk.json''
                  (make_bundle example_env [example_feature] 2025),
                GetSize ''/repo/scripts/../assets/cache/burnt_areas_2025_uk.json'']
   \<and> WriteJson ''/repo/scripts/../assets/cache/burnt_areas_2025_uk.json''
        (make_bundle example_env [example_feature] 2025) \<in> set (snd (main example_env))
   \<and> featureCount (make_bundle example_env [example_feature] 2025)
        = int (length (features (make_bundle example_env [example_feature] 2025)))"
proof -
  note inst = feature_count_is_length
    [where rt = example_env and feats = "[example_feature]" and yr = 2025
       and output_dir = "''/repo/scripts/../assets/cache''" and log = "[]"
       and q = "''/repo/scripts/../assets/cache/burnt_areas_2025_uk.json''"
       and p = "''/repo/scripts/../assets/cache/burnt_areas_2025_uk.json''"
       and b = "make_bundle example_env [example_feature] 2025"]
  have allowed: "\<not> os_refuses example_env
      (WriteJson (bundle_path ''/repo/scripts/../assets/cache'' 2025)
         (make_bundle example_env [example_feature] 2025))"
    using example_env_fields(3) by blast
  have fresh: "WriteJson ''/repo/scripts/../assets/cache/burnt_areas_2025_uk.json''
        (make_bundle example_env [example_feature] 2025) \<notin> set []"
    by simp
  have inside: "WriteJson ''/repo/scripts/../assets/cache/burnt_areas_2025_uk.json''
        (make_bundle example_env [example_feature] 2025)
      \<in> set (snd (save_bundle example_env [example_feature] 2025
                    ''/repo/scripts/../assets/cache'' []))"
    using inst [THEN conjunct2, THEN conjunct2, THEN conjunct2, THEN conjunct1,
        rule_format, OF allowed]
    by (simp only: example_paths)
  have this_one: "''/repo/scripts/../assets/cache/burnt_areas_2025_uk.json''
          = bundle_path ''/repo/scripts/../assets/cache'' 2025
        \<and> make_bundle example_env [example_feature] 2025
            = make_bundle example_env [example_feature] 2025
        \<and> features (make_bundle example_env [example_feature] 2025) = [example_feature]
        \<and> featureCount (make_bundle example_env [example_feature] 2025)
            = int (length [example_feature])"
    by (rule inst [THEN conjunct2, THEN conjunct2, THEN conjunct1, rule_format])
      (intro conjI inside fresh)
  have returned: "fst (save_bundle example_env [example_feature] 2025
        ''/repo/scripts/../assets/cache'' [])
        = Inr ''/repo/scripts/../assets/cache/burnt_areas_2025_uk.json''"
    using example_env_fields(3) by (simp add: save_bundle_cases example_paths)
  have log: "snd (save_bundle example_env [example_feature] 2025
        ''/repo/scripts/../assets/cache'' [])
        = [] @ [WriteJson ''/repo/scripts/../assets/cache/burnt_areas_2025_uk.json''
                  (make_bundle example_env [example_feature] 2025),
                GetSize ''/repo/scripts/../assets/cache/burnt_areas_2025_uk.json'']"
    by (rule inst [THEN conjunct2, THEN conjunct2, THEN conjunct2, THEN conjunct2,
          THEN conjunct1, rule_format, OF returned, THEN conjunct2])
  have written: "WriteJson ''/repo/scripts/../assets/cache/burnt_areas_2025_uk.json''
        (make_bundle example_env [example_feature] 2025) \<in> set (snd (main example_env))"
    by (simp add: example_main)
  have counted: "featureCount (make_bundle example_env [example_feature] 2025)
        = int (length (features (make_bundle example_env [example_feature] 2025)))"
    by (rule inst [THEN conjunct2, THEN conjunct2, THEN conjunct2, THEN conjunct2,
          THEN conjunct2, THEN conjunct2, rule_format, OF written])
  show ?thesis
    by (intro conjI inside fresh this_one [THEN conjunct2, THEN conjunct2, THEN conjunct1]
        this_one [THEN conjunct2, THEN conjunct2, THEN conjunct2] returned log written counted)
qed

lemma area_text_absent:
  "find_elem elem ba_area_ha = None
   \<or> (find_elem elem ba_area_ha = Some ae \<and> (elem_text ae = None \<or> elem_text ae = Some []))
   \<Longrightarrow> area_text elem = ''0''"
  by (auto simp: area_text_def findtext_def or_str_def)

text \<open>
  C4 (as amended). For an element with valid geometry (a \<open>posList\<close> whose text parses to at
  least six floats), \<open>areaHectares\<close> is \<open>0.0\<close> and the feature is returned when the
  \<open>ba:area_ha\<close> sub-element is absent or has no text or an empty one; when its text is a
  float literal, the feature is returned with that float. When the text is not a float
  literal, \<open>float\<close> raises inside the \<open>try\<close> block and \<open>None\<close> is returned: the feature is
  skipped.
\<close>

theorem area_defaults_to_zero:
  "(posList_text elem = Some ptext \<and> map_exn py_float (split (strip ptext)) = Inr coords
      \<and> 6 \<le> length coords
      \<and> (find_elem elem ba_area_ha = None
           \<or> (find_elem elem ba_area_ha = Some ae
               \<and> (elem_text ae = None \<or> elem_text ae = Some [])))
    \<longrightarrow> (\<exists>f. parse_burnt_area_feature rt elem yr = Some f
              \<and> areaHectares f = Fin False 0 (- 1074)))
   \<and> (posList_text elem = Some ptext \<and> map_exn py_float (split (strip ptext)) = Inr coords
      \<and> 6 \<le> length coords
      \<and> py_float (or_str (findtext elem ba_area_ha ''0'') ''0'') = Inr a
    \<longrightarrow> (\<exists>f. parse_burnt_area_feature rt elem yr = Some f \<and> areaHectares f = a))
   \<and> (py_float (or_str (findtext elem ba_area_ha ''0'') ''0'') = Inl e
    \<longrightarrow> parse_burnt_area_feature rt elem yr = None)"
proof (intro conjI impI)
  assume h: "posList_text elem = Some ptext \<and> map_exn py_float (split (strip ptext)) = Inr coords
      \<and> 6 \<le> length coords
      \<and> (find_elem elem ba_area_ha = None
           \<or> (find_elem elem ba_area_ha = Some ae
               \<and> (elem_text ae = None \<or> elem_text ae = Some [])))"
  then have "area_text elem = ''0''"
    using area_text_absent [of elem ae] by blast
  then have z: "py_float (area_text elem) = Inr (Fin False 0 (- 1074))"
    by (simp add: float_tokens)
  from h have g: "posList_text elem = Some ptext"
    "map_exn py_float (split (strip ptext)) = Inr coords" "6 \<le> length coords"
    by blast+
  from parse_feature_some [OF g z, of rt yr]
  show "\<exists>f. parse_burnt_area_feature rt elem yr = Some f \<and> areaHectares f = Fin False 0 (- 1074)"
    by auto
next
  assume h: "posList_text elem = Some ptext \<and> map_exn py_float (split (strip ptext)) = Inr coords
      \<and> 6 \<le> length coords
      \<and> py_float (or_str (findtext elem ba_area_ha ''0'') ''0'') = Inr a"
  then have g: "posList_text elem = Some ptext"
    "map_exn py_float (split (strip ptext)) = Inr coords" "6 \<le> length coords"
    "py_float (area_text elem) = Inr a"
    by (simp_all add: area_text_def)
  from parse_feature_some [OF g, of rt yr]
  show "\<exists>f. parse_burnt_area_feature rt elem yr = Some f \<and> areaHectares f = a"
    by auto
next
  assume h: "py_float (or_str (findtext elem ba_area_ha ''0'') ''0'') = Inl e"
  show "parse_burnt_area_feature rt elem yr = None"
  proof (cases "parse_burnt_area_feature rt elem yr")
    case None
    then show ?thesis .
  next
    case (Some f)
    from parse_feature_SomeD [OF this] h show ?thesis
      by (auto simp: area_text_def)
  qed
qed

theorem area_defaults_to_zero_witness:
  "posList_text no_area_elem = Some ''49.1 -5.2 49.3 -5.0 49.2 -5.1''
   \<and> find_elem no_area_elem ba_area_ha = None
   \<and> (\<exists>f. parse_burnt_area_feature example_env no_area_elem 2025 = Some f
         \<and> areaHectares f = Fin False 0 (- 1074))
   \<and> posList_text example_elem = Some ''49.1 -5.2 49.3 -5.0 49.2 -5.1''
   \<and> py_float (or_str (findtext example_elem ba_area_ha ''0'') ''0'')
       = Inr (Fin False 7036874417766400 (- 49))
   \<and> (\<exists>f. parse_burnt_area_feature example_env example_elem 2025 = Some f
         \<and> areaHectares f = Fin False 7036874417766400 (- 49))
   \<and> py_float (or_str (findtext bad_area_elem ba_area_ha ''0'') ''0'') = Inl ValueError
   \<and> parse_burnt_area_feature example_env bad_area_elem 2025 = None"
proof -
  have six: "6 \<le> length [Fin False 6910210678246605 (- 47), Fin True 5854679515581645 (- 50),
          Fin False 6938358175917670 (- 47), Fin True 5629499534213120 (- 50),
          Fin False 6924284427082138 (- 47), Fin True 5742089524897382 (- 50)]"
    by simp
  have ex_area: "py_float (or_str (findtext example_elem ba_area_ha ''0'') ''0'')
       = Inr (Fin False 7036874417766400 (- 49))"
    using burnt_area_elem_area [of "''49.1 -5.2 49.3 -5.0 49.2 -5.1''" "''12.5''"
        "''2025-04-03 00:00:00''"]
    by (simp add: area_text_def example_elem_def or_str_def float_tokens)
  have bad_area: "py_float (or_str (findtext bad_area_elem ba_area_ha ''0'') ''0'') = Inl ValueError"
    using burnt_area_elem_area [of "''49.1 -5.2 49.3 -5.0 49.2 -5.1''" "''n/a''" "''2025-04-03''"]
    by (simp add: area_text_def bad_area_elem_def or_str_def float_tokens)
  have a: "\<exists>f. parse_burnt_area_feature example_env no_area_elem 2025 = Some f
         \<and> areaHectares f = Fin False 0 (- 1074)"
    by (rule area_defaults_to_zero
        [where elem = no_area_elem and rt = example_env and yr = 2025
          and ptext = "''49.1 -5.2 49.3 -5.0 49.2 -5.1''"
          and coords = "[Fin False 6910210678246605 (- 47), Fin True 5854679515581645 (- 50),
            Fin False 6938358175917670 (- 47), Fin True 5629499534213120 (- 50),
            Fin False 6924284427082138 (- 47), Fin True 5742089524897382 (- 50)]",
          THEN conjunct1, rule_format])
      (intro conjI no_area_texts(1) example_coords six disjI1 no_area_texts(2))
  have b: "\<exists>f. parse_burnt_area_feature example_env example_elem 2025 = Some f
         \<and> areaHectares f = Fin False 7036874417766400 (- 49)"
    by (rule area_defaults_to_zero
        [where elem = example_elem and rt = example_env and yr = 2025
          and ptext = "''49.1 -5.2 49.3 -5.0 49.2 -5.1''"
          and coords = "[Fin False 6910210678246605 (- 47), Fin True 5854679515581645 (- 50),
            Fin False 6938358175917670 (- 47), Fin True 5629499534213120 (- 50),
            Fin False 6924284427082138 (- 47), Fin True 5742089524897382 (- 50)]",
          THEN conjunct2, THEN conjunct1, rule_format])
      (intro conjI example_posList example_coords six ex_area)
  have c: "parse_burnt_area_feature example_env bad_area_elem 2025 = None"
    by (rule area_defaults_to_zero
        [where elem = bad_area_elem and rt = example_env and yr = 2025,
          THEN conjunct2, THEN conjunct2, rule_format, OF bad_area])
  show ?thesis
    by (intro conjI no_area_texts(1) no_area_texts(2) a example_posList ex_area b bad_area c)
qed

text \<open>
  The claim as stated fails where it says that an unparseable area text gives \<open>0.0\<close> and a
  returned feature: the element below has the specification's example polygon and the
  area text \<open>n/a\<close>, and it is skipped.
\<close>

theorem unparseable_area_skips_feature:
  "posList_text bad_area_elem = Some ''49.1 -5.2 49.3 -5.0 49.2 -5.1''
   \<and> map_exn py_float (split (strip ''49.1 -5.2 49.3 -5.0 49.2 -5.1'')) =
       Inr [Fin False 6910210678246605 (- 47), Fin True 5854679515581645 (- 50),
            Fin False 6938358175917670 (- 47), Fin True 5629499534213120 (- 50),
            Fin False 6924284427082138 (- 47), Fin True 5742089524897382 (- 50)]
   \<and> area_text bad_area_elem = ''n/a''
   \<and> py_float ''n/a'' = Inl ValueError
   \<and> parse_burnt_area_feature example_env bad_area_elem 2025 = None"
  by (simp add: bad_area_elem_def burnt_area_elem_posList burnt_area_elem_area or_str_def
      example_coords float_tokens bad_area_parse [unfolded bad_area_elem_def])

lemma firedate_text_absent:
  "find_elem elem ba_firedate = None
   \<or> (find_elem elem ba_firedate = Some de \<and> (elem_text de = None \<or> elem_text de = Some []))
   \<Longrightarrow> firedate_text elem = []"
  by (auto simp: firedate_text_def findtext_def or_str_def)

text \<open>
  C5 (as amended). For an element with valid geometry and a usable area, the feature is
  returned whatever the \<open>ba:firedate\<close> sub-element holds, and the fire-date lines never
  raise. \<open>fireDate\<close> is null when \<open>ba:firedate\<close> is absent or has no or an empty text; it
  is the ISO date when the first 10 characters parse as a date; when they do not, it is the
  raw string cut to 10 characters if the raw string has at least 10 characters, and null if
  it is shorter.
\<close>

theorem fire_date_fallback:
  "(posList_text elem = Some ptext \<and> map_exn py_float (split (strip ptext)) = Inr coords
      \<and> 6 \<le> length coords
      \<and> py_float (or_str (findtext elem ba_area_ha ''0'') ''0'') = Inr a
    \<longrightarrow> (\<exists>f. parse_burnt_area_feature rt elem yr = Some f
              \<and> fireDate f = fire_date_value (or_str (findtext elem ba_firedate []) [])))
   \<and> parse_fire_date s = Inr (fire_date_value s)
   \<and> (find_elem elem ba_firedate = None
        \<or> (find_elem elem ba_firedate = Some de
            \<and> (elem_text de = None \<or> elem_text de = Some []))
    \<longrightarrow> fire_date_value (or_str (findtext elem ba_firedate []) []) = None)
   \<and> (s \<noteq> [] \<and> strptime_ymd (take 10 s) = Inr d
    \<longrightarrow> fire_date_value s = Some (take 10 (isoformat d)))
   \<and> (s \<noteq> [] \<and> strptime_ymd (take 10 s) = Inl e \<and> 10 \<le> length s
    \<longrightarrow> fire_date_value s = Some (take 10 s))
   \<and> (s \<noteq> [] \<and> strptime_ymd (take 10 s) = Inl e \<and> length s < 10
    \<longrightarrow> fire_date_value s = None)"
proof (intro conjI impI)
  assume h: "posList_text elem = Some ptext \<and> map_exn py_float (split (strip ptext)) = Inr coords
      \<and> 6 \<le> length coords
      \<and> py_float (or_str (findtext elem ba_area_ha ''0'') ''0'') = Inr a"
  then have g: "posList_text elem = Some ptext"
    "map_exn py_float (split (strip ptext)) = Inr coords" "6 \<le> length coords"
    "py_float (area_text elem) = Inr a"
    by (simp_all add: area_text_def)
  from parse_feature_some [OF g, of rt yr]
  show "\<exists>f. parse_burnt_area_feature rt elem yr = Some f
          \<and> fireDate f = fire_date_value (or_str (findtext elem ba_firedate []) [])"
    by (auto simp: firedate_text_def)
next
  show "parse_fire_date s = Inr (fire_date_value s)"
    by (rule parse_fire_date_value)
next
  assume "find_elem elem ba_firedate = None
        \<or> (find_elem elem ba_firedate = Some de
            \<and> (elem_text de = None \<or> elem_text de = Some []))"
  then have "firedate_text elem = []"
    by (rule firedate_text_absent)
  then show "fire_date_value (or_str (findtext elem ba_firedate []) []) = None"
    by (simp add: firedate_text_def fire_date_value_def)
next
  assume "s \<noteq> [] \<and> strptime_ymd (take 10 s) = Inr d"
  then show "fire_date_value s = Some (take 10 (isoformat d))"
    by (simp add: fire_date_value_def)
next
  assume "s \<noteq> [] \<and> strptime_ymd (take 10 s) = Inl e \<and> 10 \<le> length s"
  then show "fire_date_value s = Some (take 10 s)"
    by (simp add: fire_date_value_def)
next
  assume "s \<noteq> [] \<and> strptime_ymd (take 10 s) = Inl e \<and> length s < 10"
  then show "fire_date_value s = None"
    by (clarsimp simp: fire_date_value_def)
qed

theorem fire_date_fallback_witness:
  "posList_text example_elem = Some ''49.1 -5.2 49.3 -5.0 49.2 -5.1''
   \<and> (\<exists>f. parse_burnt_area_feature example_env example_elem 2025 = Some f
         \<and> fireDate f = fire_date_value (or_str (findtext example_elem ba_firedate []) []))
   \<and> find_elem no_area_elem ba_firedate = None
   \<and> fire_date_value (or_str (findtext no_area_elem ba_firedate []) []) = None
   \<and> strptime_ymd (take 10 ''2025-04-03 00:00:00'') = Inr (2025, 4, 3)
   \<and> fire_date_value ''2025-04-03 00:00:00'' = Some (take 10 (isoformat (2025, 4, 3)))
   \<and> take 10 (isoformat (2025, 4, 3)) = ''2025-04-03''
   \<and> strptime_ymd (take 10 ''03/04/2025 10:00'') = Inl ValueError
   \<and> fire_date_value ''03/04/2025 10:00'' = Some (take 10 ''03/04/2025 10:00'')
   \<and> take 10 ''03/04/2025 10:00'' = ''03/04/2025''
   \<and> strptime_ymd (take 10 ''unknown'') = Inl ValueError
   \<and> fire_date_value ''unknown'' = None"
proof -
  have six: "6 \<le> length [Fin False 6910210678246605 (- 47), Fin True 5854679515581645 (- 50),
          Fin False 6938358175917670 (- 47), Fin True 5629499534213120 (- 50),
          Fin False 6924284427082138 (- 47), Fin True 5742089524897382 (- 50)]"
    by simp
  have ex_area: "py_float (or_str (findtext example_elem ba_area_ha ''0'') ''0'')
       = Inr (Fin False 7036874417766400 (- 49))"
    using burnt_area_elem_area [of "''49.1 -5.2 49.3 -5.0 49.2 -5.1''" "''12.5''"
        "''2025-04-03 00:00:00''"]
    by (simp add: area_text_def example_elem_def or_str_def float_tokens)
  have a: "\<exists>f. parse_burnt_area_feature example_env example_elem 2025 = Some f
         \<and> fireDate f = fire_date_value (or_str (findtext example_elem ba_firedate []) [])"
    by (rule fire_date_fallback
        [where elem = example_elem and rt = example_env and yr = 2025
           and ptext = "''49.1 -5.2 49.3 -5.0 49.2 -5.1''"
           and a = "Fin False 7036874417766400 (- 49)"
           and coords = "[Fin False 6910210678246605 (- 47), Fin True 5854679515581645 (- 50),
             Fin False 6938358175917670 (- 47), Fin True 5629499534213120 (- 50),
             Fin False 6924284427082138 (- 47), Fin True 5742089524897382 (- 50)]",
          THEN conjunct1, rule_format])
      (intro conjI example_posList example_coords six ex_area)
  have b: "fire_date_value (or_str (findtext no_area_elem ba_firedate []) []) = None"
    by (rule fire_date_fallback
        [where elem = no_area_elem, THEN conjunct2, THEN conjunct2, THEN conjunct1, rule_format])
      (rule disjI1, rule no_area_texts(3))
  have p1: "strptime_ymd (take 10 ''2025-04-03 00:00:00'') = Inr (2025, 4, 3)"
    by (simp add: date_eval)
  have p2: "strptime_ymd (take 10 ''03/04/2025 10:00'') = Inl ValueError"
    by (simp add: date_eval)
  have c: "fire_date_value ''2025-04-03 00:00:00'' = Some (take 10 (isoformat (2025, 4, 3)))"
    by (rule fire_date_fallback
        [where s = "''2025-04-03 00:00:00''" and d = "(2025, 4, 3)",
          THEN conjunct2, THEN conjunct2, THEN conjunct2, THEN conjunct1, rule_format])
      (intro conjI p1, simp)
  have d: "fire_date_value ''03/04/2025 10:00'' = Some (take 10 ''03/04/2025 10:00'')"
    by (rule fire_date_fallback
        [where s = "''03/04/2025 10:00''" and e = ValueError,
          THEN conjunct2, THEN conjunct2, THEN conjunct2, THEN conjunct2, THEN conjunct1,
          rule_format])
      (intro conjI p2, simp_all)
  have e: "fire_date_value ''unknown'' = None"
    by (rule fire_date_fallback
        [where s = "''unknown''" and e = ValueError,
          THEN conjunct2, THEN conjunct2, THEN conjunct2, THEN conjunct2, THEN conjunct2,
          rule_format])
      (intro conjI example_dates(4), simp_all)
  have i1: "take 10 (isoformat (2025, 4, 3)) = ''2025-04-03''"
    by (simp add: date_eval)
  have i2: "take 10 ''03/04/2025 10:00'' = ''03/04/2025''"
    by simp
  show ?thesis
    by (intro conjI example_posList a no_area_texts(3) b p1 c i1 p2 d i2 example_dates(4) e)
qed

text \<open>
  The claim as stated fails where it says that a string failing the strict parse always
  falls back to the raw string cut to 10 characters: the fire date \<open>unknown\<close> fails the
  parse, is its own first 10 characters, and gives a null \<open>fireDate\<close>.
\<close>

theorem short_unparseable_date_is_null:
  "firedate_text short_date_elem = ''unknown''
   \<and> take 10 ''unknown'' = ''unknown''
   \<and> strptime_ymd (take 10 ''unknown'') = Inl ValueError
   \<and> map_option fireDate (parse_burnt_area_feature example_env short_date_elem 2025) = Some None"
proof -
  have a: "firedate_text short_date_elem = ''unknown''"
    by (simp add: short_date_elem_def burnt_area_elem_firedate)
  have b: "take 10 ''unknown'' = ''unknown''"
    by simp
  have c: "map_option fireDate (parse_burnt_area_feature example_env short_date_elem 2025)
      = Some None"
    by (simp add: short_date_parse)
  show ?thesis
    by (intro conjI a b example_dates(4) c)
qed

text \<open>
  C6. \<open>parse_burnt_area_feature\<close> returns \<open>None\<close> when the element has no \<open>posList\<close>, when the
  \<open>posList\<close> has no text or an empty one, and when its text yields fewer than three
  coordinate pairs (fewer than six floats). So every feature it returns, and every feature
  in a list returned by \<open>parse_gml_response\<close>, has at least three boundary points.
\<close>

theorem fewer_than_three_points_dropped:
  "(find_elem elem gml_posList = None \<longrightarrow> parse_burnt_area_feature rt elem yr = None)
   \<and> (find_elem elem gml_posList = Some ce \<and> (elem_text ce = None \<or> elem_text ce = Some [])
        \<longrightarrow> parse_burnt_area_feature rt elem yr = None)
   \<and> (posList_text elem = Some ptext \<and> map_exn py_float (split (strip ptext)) = Inr coords
        \<and> length coords < 6 \<longrightarrow> parse_burnt_area_feature rt elem yr = None)
   \<and> (parse_burnt_area_feature rt elem yr = Some f \<longrightarrow> 3 \<le> length (boundaryPoints f))
   \<and> (parse_gml_response rt gml_text yr = Inr feats \<and> g \<in> set feats
        \<longrightarrow> 3 \<le> length (boundaryPoints g))"
proof -
  have three: "3 \<le> length (boundaryPoints h)"
    if "parse_burnt_area_feature rt e yr = Some h" for e h
    using parse_feature_SomeD [OF that] by (auto simp: length_lon_lat_pairs)
  have short: "parse_burnt_area_feature rt elem yr = None"
    if "posList_text elem = Some ptext" "map_exn py_float (split (strip ptext)) = Inr coords"
      "length coords < 6"
  proof (cases "parse_burnt_area_feature rt elem yr")
    case None
    then show ?thesis .
  next
    case (Some h)
    from parse_feature_SomeD [OF this] that show ?thesis by auto
  qed
  have response: "3 \<le> length (boundaryPoints g)"
    if "parse_gml_response rt gml_text yr = Inr feats" "g \<in> set feats"
  proof (cases "fromstring rt gml_text")
    case (Inl e)
    with that show ?thesis by (auto simp: parse_gml_response_def split: if_splits)
  next
    case (Inr root)
    have "\<forall>h \<in> set (member_loop rt yr (findall root wfs_member) []).
            3 \<le> length (boundaryPoints h)"
      by (rule member_loop_all) (auto intro: three)
    with that Inr show ?thesis by (auto simp: parse_gml_response_def)
  qed
  show ?thesis
    using three [of elem f] short response
    by (auto simp: parse_feature_None posList_text_def)
qed

theorem fewer_than_three_points_dropped_witness:
  "find_elem (Element ''x'' [] None []) gml_posList = None
   \<and> parse_burnt_area_feature example_env (Element ''x'' [] None []) 2025 = None
   \<and> find_elem (Element ''x'' [] None [Element gml_posList [] (Some []) []]) gml_posList
        = Some (Element gml_posList [] (Some []) [])
   \<and> parse_burnt_area_feature example_env
        (Element ''x'' [] None [Element gml_posList [] (Some []) []]) 2025 = None
   \<and> posList_text two_point_elem = Some ''49.1 -5.2 49.3 -5.0''
   \<and> parse_burnt_area_feature example_env two_point_elem 2025 = None
   \<and> parse_burnt_area_feature example_env example_elem 2025 = Some example_feature
   \<and> 3 \<le> length (boundaryPoints example_feature)
   \<and> parse_gml_response example_env ''<wfs:FeatureCollection/>'' 2025 = Inr [example_feature]
   \<and> example_feature \<in> set [example_feature]"
proof -
  have a: "find_elem (Element ''x'' [] None []) gml_posList = None"
    by (simp add: find_elem_def findall_def)
  have b: "find_elem (Element ''x'' [] None [Element gml_posList [] (Some []) []]) gml_posList
        = Some (Element gml_posList [] (Some []) [])"
    by (simp add: find_elem_def findall_def)
  show ?thesis
    using fewer_than_three_points_dropped
      [where elem = "Element ''x'' [] None []" and rt = example_env and yr = 2025]
      fewer_than_three_points_dropped
      [where elem = "Element ''x'' [] None [Element gml_posList [] (Some []) []]"
         and ce = "Element gml_posList [] (Some []) []" and rt = example_env and yr = 2025]
      fewer_than_three_points_dropped
      [where elem = two_point_elem and rt = example_env and yr = 2025
         and ptext = "''49.1 -5.2 49.3 -5.0''"
         and coords = "[Fin False 6910210678246605 (- 47), Fin True 5854679515581645 (- 50),
            Fin False 6938358175917670 (- 47), Fin True 5629499534213120 (- 50)]"
         and gml_text = "''<wfs:FeatureCollection/>''" and feats = "[example_feature]"
         and g = example_feature]
      fewer_than_three_points_dropped
      [where elem = example_elem and rt = example_env and yr = 2025 and f = example_feature]
      a b two_point_posList two_point_coords example_parse example_response
    by simp
qed



text \<open>
  C8. In the loop of \<open>main\<close>, a year whose fetch returns the empty list is passed over:
  \<open>save_bundle\<close> is not called (no operation is performed), and the loop goes on with the
  remaining years. Every bundle
  written during a run belongs to one of the two years and holds a non-empty list that the
  fetch for that year returned; so no bundle is written for a year whose fetch returned the
  empty list. When the operating system refuses nothing and both fetches return, the bundles
  written are, in this order, that of the previous year if its list is not empty and that of
  the current year if its list is not empty: an empty list for one year does not keep the
  other year's bundle from being written.
\<close>

theorem empty_fetch_writes_nothing:
  "(fetch_burnt_areas rt yr = Inr [] \<longrightarrow>
      year_loop rt output_dir (yr # yrs) log = year_loop rt output_dir yrs log)
   \<and> (WriteJson p b \<in> set (snd (main rt)) \<longrightarrow>
        (\<exists>y feats. (y = now_year rt - 1 \<or> y = now_year rt)
           \<and> fetch_burnt_areas rt y = Inr feats \<and> feats \<noteq> []
           \<and> p = bundle_path (output_dir_of rt) y \<and> b = make_bundle rt feats y))
   \<and> (fetch_burnt_areas rt yr = Inr [] \<and> WriteJson p b \<in> set (snd (main rt))
        \<longrightarrow> year b \<noteq> yr)
   \<and> ((\<forall>ef. \<not> os_refuses rt ef)
        \<and> fetch_burnt_areas rt (now_year rt - 1) = Inr fp
        \<and> fetch_burnt_areas rt (now_year rt) = Inr fc
        \<longrightarrow> filter is_write (snd (main rt)) =
              (if fp = [] then []
               else [WriteJson (bundle_path (output_dir_of rt) (now_year rt - 1))
                       (make_bundle rt fp (now_year rt - 1))])
              @ (if fc = [] then []
                 else [WriteJson (bundle_path (output_dir_of rt) (now_year rt))
                         (make_bundle rt fc (now_year rt))]))"
proof -
  have c1: "fetch_burnt_areas rt yr = Inr [] \<longrightarrow>
      year_loop rt output_dir (yr # yrs) log = year_loop rt output_dir yrs log"
    by simp
  have c2: "WriteJson p b \<in> set (snd (main rt)) \<longrightarrow>
        (\<exists>y feats. (y = now_year rt - 1 \<or> y = now_year rt)
           \<and> fetch_burnt_areas rt y = Inr feats \<and> feats \<noteq> []
           \<and> p = bundle_path (output_dir_of rt) y \<and> b = make_bundle rt feats y)"
  proof
    assume "WriteJson p b \<in> set (snd (main rt))"
    from main_effects [OF this]
    show "\<exists>y feats. (y = now_year rt - 1 \<or> y = now_year rt)
           \<and> fetch_burnt_areas rt y = Inr feats \<and> feats \<noteq> []
           \<and> p = bundle_path (output_dir_of rt) y \<and> b = make_bundle rt feats y"
      by auto
  qed
  have c3: "fetch_burnt_areas rt yr = Inr [] \<and> WriteJson p b \<in> set (snd (main rt))
        \<longrightarrow> year b \<noteq> yr"
  proof
    assume h: "fetch_burnt_areas rt yr = Inr [] \<and> WriteJson p b \<in> set (snd (main rt))"
    with c2 obtain y feats where y: "fetch_burnt_areas rt y = Inr feats" "feats \<noteq> []"
        "b = make_bundle rt feats y"
      by blast
    then have "year b = y" by (simp add: make_bundle_def)
    with y h show "year b \<noteq> yr" by auto
  qed
  have c4: "(\<forall>ef. \<not> os_refuses rt ef)
        \<and> fetch_burnt_areas rt (now_year rt - 1) = Inr fp
        \<and> fetch_burnt_areas rt (now_year rt) = Inr fc
        \<longrightarrow> filter is_write (snd (main rt)) =
              (if fp = [] then []
               else [WriteJson (bundle_path (output_dir_of rt) (now_year rt - 1))
                       (make_bundle rt fp (now_year rt - 1))])
              @ (if fc = [] then []
                 else [WriteJson (bundle_path (output_dir_of rt) (now_year rt))
                         (make_bundle rt fc (now_year rt))])"
  proof
    assume h: "(\<forall>ef. \<not> os_refuses rt ef)
        \<and> fetch_burnt_areas rt (now_year rt - 1) = Inr fp
        \<and> fetch_burnt_areas rt (now_year rt) = Inr fc"
    from main_ok [OF h [THEN conjunct1] h [THEN conjunct2, THEN conjunct1]
        h [THEN conjunct2, THEN conjunct2]]
    show "filter is_write (snd (main rt)) =
              (if fp = [] then []
               else [WriteJson (bundle_path (output_dir_of rt) (now_year rt - 1))
                       (make_bundle rt fp (now_year rt - 1))])
              @ (if fc = [] then []
                 else [WriteJson (bundle_path (output_dir_of rt) (now_year rt))
                         (make_bundle rt fc (now_year rt))])"
      by (simp add: filter_writes is_write_simps)
  qed
  show ?thesis
    by (intro conjI c1 c2 c3 c4)
qed

theorem empty_fetch_writes_nothing_witness:
  "fetch_burnt_areas example_env 2026 = Inr []
   \<and> year_loop example_env ''/out'' (2026 # [2025]) [MakeDirs ''/out'']
        = year_loop example_env ''/out'' [2025] [MakeDirs ''/out'']
   \<and> WriteJson ''/repo/scripts/../assets/cache/burnt_areas_2025_uk.json''
        (make_bundle example_env [example_feature] 2025) \<in> set (snd (main example_env))
   \<and> (\<exists>y feats. (y = now_year example_env - 1 \<or> y = now_year example_env)
         \<and> fetch_burnt_areas example_env y = Inr feats \<and> feats \<noteq> []
         \<and> ''/repo/scripts/../assets/cache/burnt_areas_2025_uk.json''
             = bundle_path (output_dir_of example_env) y
         \<and> make_bundle example_env [example_feature] 2025 = make_bundle example_env feats y)
   \<and> year (make_bundle example_env [example_feature] 2025) \<noteq> 2026
   \<and> (\<forall>ef. \<not> os_refuses example_env ef)
   \<and> fetch_burnt_areas example_env (now_year example_env - 1) = Inr [example_feature]
   \<and> fetch_burnt_areas example_env (now_year example_env) = Inr []
   \<and> filter is_write (snd (main example_env)) =
       [WriteJson ''/repo/scripts/../assets/cache/burnt_areas_2025_uk.json''
          (make_bundle example_env [example_feature] 2025)]"
proof -
  note inst = empty_fetch_writes_nothing
    [where rt = example_env and yr = 2026 and output_dir = "''/out''" and yrs = "[2025]"
       and log = "[MakeDirs ''/out'']"
       and p = "''/repo/scripts/../assets/cache/burnt_areas_2025_uk.json''"
       and b = "make_bundle example_env [example_feature] 2025"
       and fp = "[example_feature]" and fc = "[]"]
  have written: "WriteJson ''/repo/scripts/../assets/cache/burnt_areas_2025_uk.json''
        (make_bundle example_env [example_feature] 2025) \<in> set (snd (main example_env))"
    by (simp add: example_main)
  have fp: "fetch_burnt_areas example_env (now_year example_env - 1) = Inr [example_feature]"
    and fc: "fetch_burnt_areas example_env (now_year example_env) = Inr []"
    by (simp_all add: example_env_fields example_fetches)
  have a: "year_loop example_env ''/out'' (2026 # [2025]) [MakeDirs ''/out'']
        = year_loop example_env ''/out'' [2025] [MakeDirs ''/out'']"
    by (rule inst [THEN conjunct1, rule_format, OF example_fetches(2)])
  have b: "\<exists>y feats. (y = now_year example_env - 1 \<or> y = now_year example_env)
         \<and> fetch_burnt_areas example_env y = Inr feats \<and> feats \<noteq> []
         \<and> ''/repo/scripts/../assets/cache/burnt_areas_2025_uk.json''
             = bundle_path (output_dir_of example_env) y
         \<and> make_bundle example_env [example_feature] 2025 = make_bundle example_env feats y"
    by (rule inst [THEN conjunct2, THEN conjunct1, rule_format, OF written])
  have c: "year (make_bundle example_env [example_feature] 2025) \<noteq> 2026"
    by (rule inst [THEN conjunct2, THEN conjunct2, THEN conjunct1, rule_format])
      (intro conjI example_fetches(2) written)
  have d0: "filter is_write (snd (main example_env)) =
              (if [example_feature] = [] then []
               else [WriteJson (bundle_path (output_dir_of example_env) (now_year example_env - 1))
                       (make_bundle example_env [example_feature] (now_year example_env - 1))])
              @ (if ([]::feature list) = [] then []
                 else [WriteJson (bundle_path (output_dir_of example_env) (now_year example_env))
                         (make_bundle example_env [] (now_year example_env))])"
    by (rule inst [THEN conjunct2, THEN conjunct2, THEN conjunct2, rule_format])
      (intro conjI example_env_fields(3) fp fc)
  have d: "filter is_write (snd (main example_env)) =
       [WriteJson ''/repo/scripts/../assets/cache/burnt_areas_2025_uk.json''
          (make_bundle example_env [example_feature] 2025)]"
    by (simp add: d0 example_env_fields example_paths)
  show ?thesis
    by (intro conjI example_fetches(2) a written b c example_env_fields(3) fp fc d)
qed

text \<open>
  C9. Whenever \<open>main\<close> returns, it returns 0: the value 1 is never returned. It returns
  (with 0) whenever the operating system refuses nothing and the two fetches return,
  whatever they return; a fetch returns in particular when its request fails in transport
  or with an error status.
\<close>

theorem main_returns_zero:
  "(fst (main rt) = Inr rc \<longrightarrow> rc = 0)
   \<and> fst (main rt) \<noteq> Inr 1
   \<and> ((\<forall>ef. \<not> os_refuses rt ef)
        \<and> fetch_burnt_areas rt (now_year rt - 1) = Inr fp
        \<and> fetch_burnt_areas rt (now_year rt) = Inr fc
        \<longrightarrow> fst (main rt) = Inr 0)
   \<and> ((\<forall>ef. \<not> os_refuses rt ef)
        \<and> requests_get rt (now_year rt - 1) = Inl RequestException
        \<and> requests_get rt (now_year rt) = Inl RequestException
        \<longrightarrow> fst (main rt) = Inr 0)"
proof -
  have c1: "fst (main rt) = Inr rc \<longrightarrow> rc = 0"
    using main_status by blast
  have c2: "fst (main rt) \<noteq> Inr 1"
    using main_status [of rt 1] by auto
  have c3: "(\<forall>ef. \<not> os_refuses rt ef)
        \<and> fetch_burnt_areas rt (now_year rt - 1) = Inr a
        \<and> fetch_burnt_areas rt (now_year rt) = Inr b
        \<longrightarrow> fst (main rt) = Inr 0" for a b
  proof
    assume h: "(\<forall>ef. \<not> os_refuses rt ef)
        \<and> fetch_burnt_areas rt (now_year rt - 1) = Inr a
        \<and> fetch_burnt_areas rt (now_year rt) = Inr b"
    from main_ok [OF h [THEN conjunct1] h [THEN conjunct2, THEN conjunct1]
        h [THEN conjunct2, THEN conjunct2]]
    show "fst (main rt) = Inr 0" by simp
  qed
  have c4: "(\<forall>ef. \<not> os_refuses rt ef)
        \<and> requests_get rt (now_year rt - 1) = Inl RequestException
        \<and> requests_get rt (now_year rt) = Inl RequestException
        \<longrightarrow> fst (main rt) = Inr 0"
    using c3 [of "[]" "[]"] by (simp add: fetch_burnt_areas_def)
  show ?thesis
    by (intro conjI c1 c2 c3 c4)
qed

theorem main_returns_zero_witness:
  "fst (main example_env) = Inr 0
   \<and> (\<forall>ef. \<not> os_refuses example_env ef)
   \<and> fetch_burnt_areas example_env (now_year example_env - 1) = Inr [example_feature]
   \<and> fetch_burnt_areas example_env (now_year example_env) = Inr []
   \<and> requests_get offline_env (now_year offline_env - 1) = Inl RequestException
   \<and> requests_get offline_env (now_year offline_env) = Inl RequestException
   \<and> (\<forall>ef. \<not> os_refuses offline_env ef)
   \<and> fst (main offline_env) = Inr 0
   \<and> (0::int) = 0"
proof -
  have fp: "fetch_burnt_areas example_env (now_year example_env - 1) = Inr [example_feature]"
    and fc: "fetch_burnt_areas example_env (now_year example_env) = Inr []"
    by (simp_all add: example_env_fields example_fetches)
  have a: "fst (main example_env) = Inr 0"
    by (rule main_returns_zero
        [where rt = example_env and fp = "[example_feature]" and fc = "[]",
          THEN conjunct2, THEN conjunct2, THEN conjunct1, rule_format])
      (intro conjI example_env_fields(3) fp fc)
  have b: "fst (main offline_env) = Inr 0"
    by (rule main_returns_zero
        [where rt = offline_env, THEN conjunct2, THEN conjunct2, THEN conjunct2, rule_format])
      (intro conjI other_env_fields(3) other_env_fields(1))
  have c: "(0::int) = 0"
    by (rule main_returns_zero
        [where rt = example_env and rc = 0, THEN conjunct1, rule_format, OF a])
  show ?thesis
    by (intro conjI a example_env_fields(3) fp fc other_env_fields(1) other_env_fields(3) b c)
qed

text \<open>
  C10. When the text of the \<open>posList\<close> parses to an odd number \<open>2j + 1\<close> of floats, at least
  seven, and the area text is a float literal, \<open>parse_burnt_area_feature\<close> returns a feature
  whose \<open>boundaryPoints\<close> are exactly \<open>j\<close> pairs, those of the first \<open>2j\<close> values: the last
  value is ignored. For an even number \<open>2j\<close>, at least six, it returns a feature with exactly
  \<open>j\<close> pairs. Whatever the number of floats, the body of the \<open>try\<close> block does not raise an
  \<open>IndexError\<close>, and with fewer than six floats, odd or even in number, it returns \<open>None\<close>
  through the test on the number of points, not through the exception handler. The loop
  of lines 116 to 119 on its own never raises and leaves in \<open>boundary_points\<close> the pairing
  of the coordinate list.
\<close>

theorem odd_count_ignores_last_value:
  "(posList_text elem = Some ptext \<and> map_exn py_float (split (strip ptext)) = Inr cs
      \<and> length cs = 2 * j + 1 \<and> 3 \<le> j \<and> py_float (area_text elem) = Inr a
    \<longrightarrow> (\<exists>f. parse_burnt_area_feature rt elem yr = Some f
              \<and> boundaryPoints f = lon_lat_pairs (take (2 * j) cs)
              \<and> length (boundaryPoints f) = j))
   \<and> (posList_text elem = Some ptext \<and> map_exn py_float (split (strip ptext)) = Inr cs
      \<and> length cs = 2 * j \<and> 3 \<le> j \<and> py_float (area_text elem) = Inr a
    \<longrightarrow> (\<exists>f. parse_burnt_area_feature rt elem yr = Some f
              \<and> boundaryPoints f = lon_lat_pairs cs
              \<and> length (boundaryPoints f) = j))
   \<and> parse_burnt_area_feature_try rt elem yr \<noteq> Inl IndexError
   \<and> (posList_text elem = Some ptext \<and> map_exn py_float (split (strip ptext)) = Inr cs
      \<and> (length cs = 2 * j + 1 \<or> length cs = 2 * j) \<and> j < 3
    \<longrightarrow> parse_burnt_area_feature_try rt elem yr = Inr None)
   \<and> pair_loop coords (py_range 0 (int (length coords) - 1) 2) [] = Inr (lon_lat_pairs coords)
   \<and> (length coords = 2 * k + 1 \<longrightarrow>
        lon_lat_pairs coords = lon_lat_pairs (take (2 * k) coords)
        \<and> length (lon_lat_pairs coords) = k)
   \<and> (length coords = 2 * k \<longrightarrow> length (lon_lat_pairs coords) = k)
   \<and> (posList_text elem = Some ptext \<and> map_exn py_float (split (strip ptext)) = Inr cs
        \<and> parse_burnt_area_feature rt elem yr = Some f \<and> length cs = 2 * j + 1 \<longrightarrow>
        boundaryPoints f = lon_lat_pairs (take (2 * j) cs) \<and> length (boundaryPoints f) = j)
   \<and> (posList_text elem = Some ptext \<and> map_exn py_float (split (strip ptext)) = Inr cs
        \<and> parse_burnt_area_feature rt elem yr = Some f \<and> length cs = 2 * j \<longrightarrow>
        boundaryPoints f = lon_lat_pairs cs \<and> length (boundaryPoints f) = j)"
proof -
  have produced: "\<exists>g. parse_burnt_area_feature rt elem yr = Some g
        \<and> boundaryPoints g = lon_lat_pairs cs"
    if "posList_text elem = Some ptext" "map_exn py_float (split (strip ptext)) = Inr cs"
      "6 \<le> length cs" "py_float (area_text elem) = Inr a"
    using parse_feature_some [OF that, of rt yr] by auto
  have feature: "boundaryPoints g = lon_lat_pairs xs"
    if "posList_text elem = Some ptext" "map_exn py_float (split (strip ptext)) = Inr xs"
      "parse_burnt_area_feature rt elem yr = Some g" for xs g
    using parse_feature_SomeD [OF that(3)] that(1,2) by auto
  have no_index_error: "parse_burnt_area_feature_try rt elem yr \<noteq> Inl IndexError"
    using try_raises_ValueError [of rt elem yr IndexError] by auto
  have c1: "posList_text elem = Some ptext \<and> map_exn py_float (split (strip ptext)) = Inr cs
      \<and> length cs = 2 * j + 1 \<and> 3 \<le> j \<and> py_float (area_text elem) = Inr a
    \<longrightarrow> (\<exists>f. parse_burnt_area_feature rt elem yr = Some f
              \<and> boundaryPoints f = lon_lat_pairs (take (2 * j) cs)
              \<and> length (boundaryPoints f) = j)"
  proof
    assume h: "posList_text elem = Some ptext \<and> map_exn py_float (split (strip ptext)) = Inr cs
      \<and> length cs = 2 * j + 1 \<and> 3 \<le> j \<and> py_float (area_text elem) = Inr a"
    then have "6 \<le> length cs" by simp
    with h produced lon_lat_pairs_odd_take [of cs j]
    show "\<exists>f. parse_burnt_area_feature rt elem yr = Some f
              \<and> boundaryPoints f = lon_lat_pairs (take (2 * j) cs)
              \<and> length (boundaryPoints f) = j"
      by auto
  qed
  have c2: "posList_text elem = Some ptext \<and> map_exn py_float (split (strip ptext)) = Inr cs
      \<and> length cs = 2 * j \<and> 3 \<le> j \<and> py_float (area_text elem) = Inr a
    \<longrightarrow> (\<exists>f. parse_burnt_area_feature rt elem yr = Some f
              \<and> boundaryPoints f = lon_lat_pairs cs
              \<and> length (boundaryPoints f) = j)"
  proof
    assume h: "posList_text elem = Some ptext \<and> map_exn py_float (split (strip ptext)) = Inr cs
      \<and> length cs = 2 * j \<and> 3 \<le> j \<and> py_float (area_text elem) = Inr a"
    then have "6 \<le> length cs" by simp
    with h produced
    show "\<exists>f. parse_burnt_area_feature rt elem yr = Some f
              \<and> boundaryPoints f = lon_lat_pairs cs
              \<and> length (boundaryPoints f) = j"
      by (auto simp: length_lon_lat_pairs)
  qed
  have c4: "posList_text elem = Some ptext \<and> map_exn py_float (split (strip ptext)) = Inr cs
      \<and> (length cs = 2 * j + 1 \<or> length cs = 2 * j) \<and> j < 3
    \<longrightarrow> parse_burnt_area_feature_try rt elem yr = Inr None"
  proof
    assume h: "posList_text elem = Some ptext \<and> map_exn py_float (split (strip ptext)) = Inr cs
      \<and> (length cs = 2 * j + 1 \<or> length cs = 2 * j) \<and> j < 3"
    then have "length cs < 6" by auto
    with h show "parse_burnt_area_feature_try rt elem yr = Inr None"
      using try_short_posList by blast
  qed
  have c6: "length coords = 2 * k + 1 \<longrightarrow>
        lon_lat_pairs coords = lon_lat_pairs (take (2 * k) coords)
        \<and> length (lon_lat_pairs coords) = k"
    using lon_lat_pairs_odd_take [of coords k] by blast
  have c7: "length coords = 2 * k \<longrightarrow> length (lon_lat_pairs coords) = k"
    by (simp add: length_lon_lat_pairs)
  have c8: "posList_text elem = Some ptext \<and> map_exn py_float (split (strip ptext)) = Inr cs
        \<and> parse_burnt_area_feature rt elem yr = Some f \<and> length cs = 2 * j + 1 \<longrightarrow>
        boundaryPoints f = lon_lat_pairs (take (2 * j) cs) \<and> length (boundaryPoints f) = j"
    using feature [of cs f] lon_lat_pairs_odd_take [of cs j] by auto
  have c9: "posList_text elem = Some ptext \<and> map_exn py_float (split (strip ptext)) = Inr cs
        \<and> parse_burnt_area_feature rt elem yr = Some f \<and> length cs = 2 * j \<longrightarrow>
        boundaryPoints f = lon_lat_pairs cs \<and> length (boundaryPoints f) = j"
    using feature [of cs f] by (auto simp: length_lon_lat_pairs)
  show ?thesis
    by (intro conjI c1 c2 no_index_error c4 pair_loop_eq c6 c7 c8 c9)
qed

theorem odd_count_ignores_last_value_witness:
  "posList_text odd_elem = Some ''49.1 -5.2 49.3 -5.0 49.2 -5.1 49.4''
   \<and> map_exn py_float (split (strip ''49.1 -5.2 49.3 -5.0 49.2 -5.1 49.4'')) =
       Inr [Fin False 6910210678246605 (- 47), Fin True 5854679515581645 (- 50),
          Fin False 6938358175917670 (- 47), Fin True 5629499534213120 (- 50),
          Fin False 6924284427082138 (- 47), Fin True 5742089524897382 (- 50),
          Fin False 6952431924753203 (- 47)]
   \<and> length [Fin False 6910210678246605 (- 47), Fin True 5854679515581645 (- 50),
          Fin False 6938358175917670 (- 47), Fin True 5629499534213120 (- 50),
          Fin False 6924284427082138 (- 47), Fin True 5742089524897382 (- 50),
          Fin False 6952431924753203 (- 47)] = 2 * 3 + 1
   \<and> py_float (area_text odd_elem) = Inr (Fin False 7036874417766400 (- 49))
   \<and> (\<exists>f. parse_burnt_area_feature example_env odd_elem 2025 = Some f
         \<and> boundaryPoints f =
             lon_lat_pairs (take (2 * 3)
               [Fin False 6910210678246605 (- 47), Fin True 5854679515581645 (- 50),
                Fin False 6938358175917670 (- 47), Fin True 5629499534213120 (- 50),
                Fin False 6924284427082138 (- 47), Fin True 5742089524897382 (- 50),
                Fin False 6952431924753203 (- 47)])
         \<and> length (boundaryPoints f) = 3)
   \<and> posList_text example_elem = Some ''49.1 -5.2 49.3 -5.0 49.2 -5.1''
   \<and> length [Fin False 6910210678246605 (- 47), Fin True 5854679515581645 (- 50),
          Fin False 6938358175917670 (- 47), Fin True 5629499534213120 (- 50),
          Fin False 6924284427082138 (- 47), Fin True 5742089524897382 (- 50)] = 2 * 3
   \<and> (\<exists>f. parse_burnt_area_feature example_env example_elem 2025 = Some f
         \<and> boundaryPoints f =
             lon_lat_pairs
               [Fin False 6910210678246605 (- 47), Fin True 5854679515581645 (- 50),
                Fin False 6938358175917670 (- 47), Fin True 5629499534213120 (- 50),
                Fin False 6924284427082138 (- 47), Fin True 5742089524897382 (- 50)]
         \<and> length (boundaryPoints f) = 3)
   \<and> posList_text two_point_elem = Some ''49.1 -5.2 49.3 -5.0''
   \<and> length [Fin False 6910210678246605 (- 47), Fin True 5854679515581645 (- 50),
          Fin False 6938358175917670 (- 47), Fin True 5629499534213120 (- 50)] = 2 * 2
   \<and> parse_burnt_area_feature_try example_env two_point_elem 2025 = Inr None
   \<and> parse_burnt_area_feature example_env odd_elem 2025 = Some example_feature
   \<and> boundaryPoints example_feature =
       lon_lat_pairs (take (2 * 3)
         [Fin False 6910210678246605 (- 47), Fin True 5854679515581645 (- 50),
          Fin False 6938358175917670 (- 47), Fin True 5629499534213120 (- 50),
          Fin False 6924284427082138 (- 47), Fin True 5742089524897382 (- 50),
          Fin False 6952431924753203 (- 47)])
   \<and> length (boundaryPoints example_feature) = 3
   \<and> length (lon_lat_pairs
         [Fin False 6910210678246605 (- 47), Fin True 5854679515581645 (- 50),
          Fin False 6938358175917670 (- 47), Fin True 5629499534213120 (- 50)]) = 2"
proof -
  have l7: "length [Fin False 6910210678246605 (- 47), Fin True 5854679515581645 (- 50),
          Fin False 6938358175917670 (- 47), Fin True 5629499534213120 (- 50),
          Fin False 6924284427082138 (- 47), Fin True 5742089524897382 (- 50),
          Fin False 6952431924753203 (- 47)] = 2 * 3 + 1"
    by simp
  have l6: "length [Fin False 6910210678246605 (- 47), Fin True 5854679515581645 (- 50),
          Fin False 6938358175917670 (- 47), Fin True 5629499534213120 (- 50),
          Fin False 6924284427082138 (- 47), Fin True 5742089524897382 (- 50)] = 2 * 3"
    by simp
  have l4: "length [Fin False 6910210678246605 (- 47), Fin True 5854679515581645 (- 50),
          Fin False 6938358175917670 (- 47), Fin True 5629499534213120 (- 50)] = 2 * 2"
    by simp
  have j3: "(3::nat) \<le> 3" and j2: "(2::nat) < 3"
    by simp_all
  have odd: "\<exists>f. parse_burnt_area_feature example_env odd_elem 2025 = Some f
         \<and> boundaryPoints f =
             lon_lat_pairs (take (2 * 3)
               [Fin False 6910210678246605 (- 47), Fin True 5854679515581645 (- 50),
                Fin False 6938358175917670 (- 47), Fin True 5629499534213120 (- 50),
                Fin False 6924284427082138 (- 47), Fin True 5742089524897382 (- 50),
                Fin False 6952431924753203 (- 47)])
         \<and> length (boundaryPoints f) = 3"
    by (rule odd_count_ignores_last_value
        [where elem = odd_elem and ptext = "''49.1 -5.2 49.3 -5.0 49.2 -5.1 49.4''"
           and cs = "[Fin False 6910210678246605 (- 47), Fin True 5854679515581645 (- 50),
                Fin False 6938358175917670 (- 47), Fin True 5629499534213120 (- 50),
                Fin False 6924284427082138 (- 47), Fin True 5742089524897382 (- 50),
                Fin False 6952431924753203 (- 47)]"
           and j = 3 and a = "Fin False 7036874417766400 (- 49)"
           and rt = example_env and yr = 2025,
          THEN conjunct1, rule_format])
      (intro conjI odd_posList odd_coords l7 j3 example_area(2))
  have even: "\<exists>f. parse_burnt_area_feature example_env example_elem 2025 = Some f
         \<and> boundaryPoints f =
             lon_lat_pairs
               [Fin False 6910210678246605 (- 47), Fin True 5854679515581645 (- 50),
                Fin False 6938358175917670 (- 47), Fin True 5629499534213120 (- 50),
                Fin False 6924284427082138 (- 47), Fin True 5742089524897382 (- 50)]
         \<and> length (boundaryPoints f) = 3"
    by (rule odd_count_ignores_last_value
        [where elem = example_elem and ptext = "''49.1 -5.2 49.3 -5.0 49.2 -5.1''"
           and cs = "[Fin False 6910210678246605 (- 47), Fin True 5854679515581645 (- 50),
                Fin False 6938358175917670 (- 47), Fin True 5629499534213120 (- 50),
                Fin False 6924284427082138 (- 47), Fin True 5742089524897382 (- 50)]"
           and j = 3 and a = "Fin False 7036874417766400 (- 49)"
           and rt = example_env and yr = 2025,
          THEN conjunct2, THEN conjunct1, rule_format])
      (intro conjI example_posList example_coords l6 j3 example_area(1))
  have short: "parse_burnt_area_feature_try example_env two_point_elem 2025 = Inr None"
    by (rule odd_count_ignores_last_value
        [where elem = two_point_elem and ptext = "''49.1 -5.2 49.3 -5.0''"
           and cs = "[Fin False 6910210678246605 (- 47), Fin True 5854679515581645 (- 50),
                Fin False 6938358175917670 (- 47), Fin True 5629499534213120 (- 50)]"
           and j = 2 and rt = example_env and yr = 2025,
          THEN conjunct2, THEN conjunct2, THEN conjunct2, THEN conjunct1, rule_format])
      (intro conjI two_point_posList two_point_coords disjI2 l4 j2)
  have returned: "boundaryPoints example_feature =
       lon_lat_pairs (take (2 * 3)
         [Fin False 6910210678246605 (- 47), Fin True 5854679515581645 (- 50),
          Fin False 6938358175917670 (- 47), Fin True 5629499534213120 (- 50),
          Fin False 6924284427082138 (- 47), Fin True 5742089524897382 (- 50),
          Fin False 6952431924753203 (- 47)])
       \<and> length (boundaryPoints example_feature) = 3"
    by (rule odd_count_ignores_last_value
        [where elem = odd_elem and ptext = "''49.1 -5.2 49.3 -5.0 49.2 -5.1 49.4''"
           and cs = "[Fin False 6910210678246605 (- 47), Fin True 5854679515581645 (- 50),
                Fin False 6938358175917670 (- 47), Fin True 5629499534213120 (- 50),
                Fin False 6924284427082138 (- 47), Fin True 5742089524897382 (- 50),
                Fin False 6952431924753203 (- 47)]"
           and j = 3 and f = example_feature and rt = example_env and yr = 2025,
          THEN conjunct2, THEN conjunct2, THEN conjunct2, THEN conjunct2, THEN conjunct2,
          THEN conjunct2, THEN conjunct2, THEN conjunct1, rule_format])
      (intro conjI odd_posList odd_coords odd_parse l7)
  have pairs: "length (lon_lat_pairs
         [Fin False 6910210678246605 (- 47), Fin True 5854679515581645 (- 50),
          Fin False 6938358175917670 (- 47), Fin True 5629499534213120 (- 50)]) = 2"
    by (rule odd_count_ignores_last_value
        [where coords = "[Fin False 6910210678246605 (- 47), Fin True 5854679515581645 (- 50),
          Fin False 6938358175917670 (- 47), Fin True 5629499534213120 (- 50)]" and k = 2,
          THEN conjunct2, THEN conjunct2, THEN conjunct2, THEN conjunct2, THEN conjunct2,
          THEN conjunct2, THEN conjunct1, rule_format])
      (rule l4)
  show ?thesis
    by (intro conjI odd_posList odd_coords l7 example_area(2) odd example_posList l6 even
        two_point_posList l4 short odd_parse returned [THEN conjunct1]
        returned [THEN conjunct2] pairs)
qed

end
